theory Spec2Isabelle
  imports Complex_Main
begin

section \<open>JavaScript numbers\<close>

text \<open>
  Every number of \<open>script.js\<close> is an IEEE-754 double, and every arithmetic operation
  rounds its exact result to the nearest double, ties to the even significand. The finite
  doubles are modelled by their exact rational values; a number is a finite double, an
  infinity or NaN. The two zeros are not distinguished: the script divides by a zero only
  when the dividend is NaN, so no value it computes depends on the sign of a zero.
\<close>

subsection \<open>Rounding to the nearest double\<close>

text \<open>The number of binary digits of a natural number.\<close>

fun bitLength :: "nat \<Rightarrow> nat" where
  "bitLength n = (if n = 0 then 0 else Suc (bitLength (n div 2)))"

declare bitLength.simps [simp del]

text \<open>Rounding a rational to the nearest integer, ties to the even one.\<close>

definition rne :: "rat \<Rightarrow> int" where
  "rne q = (let f = \<lfloor>q\<rfloor>; d = q - of_int f
            in if d < 1 / 2 then f else if 1 / 2 < d then f + 1
               else if even f then f else f + 1)"

text \<open>
  In units of \<open>2\<^sup>-\<^sup>1\<^sup>0\<^sup>7\<^sup>4\<close>, the smallest positive double, every finite double is an
  integer with at most 53 significant bits. A magnitude with \<open>n\<close> bits before the point
  is rounded to a multiple of \<open>2\<^bsup>n - 53\<^esup>\<close> units (of one unit when \<open>n \<le> 53\<close>, which
  covers the subnormal range).
\<close>

definition ulp_exp :: "rat \<Rightarrow> nat" where
  "ulp_exp X = bitLength (nat \<lfloor>\<bar>X\<bar>\<rfloor>) - 53"

definition round_units :: "rat \<Rightarrow> int" where
  "round_units X = rne (X / 2 ^ ulp_exp X) * 2 ^ ulp_exp X"

definition unit_scale :: rat where
  "unit_scale = 2 ^ 1074"

definition rnd :: "rat \<Rightarrow> rat" where
  "rnd x = of_int (round_units (x * unit_scale)) / unit_scale"

text \<open>Results of magnitude \<open>2\<^sup>1\<^sup>0\<^sup>2\<^sup>4\<close> or more overflow to an infinity.\<close>

definition huge :: rat where
  "huge = 2 ^ 1024"

definition is_double :: "rat \<Rightarrow> bool" where
  "is_double x \<longleftrightarrow> rnd x = x \<and> \<bar>x\<bar> < huge"

text \<open>The integers with at most 53 significant bits, as values in units.\<close>

definition repr_units :: "rat \<Rightarrow> bool" where
  "repr_units X \<longleftrightarrow> (\<exists>(m::int) (k::nat). X = of_int m * 2 ^ k \<and> \<bar>m\<bar> \<le> 2 ^ 53)"

subsection \<open>Numbers and their operations\<close>

typedef double = "{x. is_double x}"
  morphisms val Abs_double
  by (rule exI [of _ 0])
    (simp add: is_double_def rnd_def round_units_def rne_def huge_def)

text \<open>The double nearest to a rational (0 where that would overflow), and the number a
  computation with exact result \<open>q\<close> yields: a numeric literal \<open>q\<close> denotes \<open>js q\<close>.\<close>

definition dbl :: "rat \<Rightarrow> double" where
  "dbl q = Abs_double (if \<bar>rnd q\<bar> < huge then rnd q else 0)"

datatype number = Fin double | PosInf | NegInf | NaN

definition js :: "rat \<Rightarrow> number" where
  "js q = (if huge \<le> rnd q then PosInf else if rnd q \<le> - huge then NegInf else Fin (dbl q))"

text \<open>Unary minus, \<open>+\<close>, \<open>-\<close>, \<open>*\<close>, \<open>/\<close>, \<open>Math.abs\<close>, \<open><\<close>, \<open><=\<close>, \<open>>\<close>, \<open>>=\<close>,
  \<open>Math.min\<close> and \<open>Math.max\<close>; a comparison with NaN is false.\<close>

fun fneg :: "number \<Rightarrow> number" where
  "fneg (Fin a) = js (- val a)"
| "fneg PosInf = NegInf"
| "fneg NegInf = PosInf"
| "fneg NaN = NaN"

fun fadd :: "number \<Rightarrow> number \<Rightarrow> number" where
  "fadd (Fin a) (Fin b) = js (val a + val b)"
| "fadd NaN _ = NaN"
| "fadd _ NaN = NaN"
| "fadd PosInf NegInf = NaN"
| "fadd NegInf PosInf = NaN"
| "fadd PosInf _ = PosInf"
| "fadd _ PosInf = PosInf"
| "fadd NegInf _ = NegInf"
| "fadd _ NegInf = NegInf"

definition fsub :: "number \<Rightarrow> number \<Rightarrow> number" where
  "fsub a b = fadd a (fneg b)"

fun fmul :: "number \<Rightarrow> number \<Rightarrow> number" where
  "fmul (Fin a) (Fin b) = js (val a * val b)"
| "fmul NaN _ = NaN"
| "fmul _ NaN = NaN"
| "fmul PosInf (Fin b) = (if val b = 0 then NaN else if 0 < val b then PosInf else NegInf)"
| "fmul NegInf (Fin b) = (if val b = 0 then NaN else if 0 < val b then NegInf else PosInf)"
| "fmul (Fin a) PosInf = (if val a = 0 then NaN else if 0 < val a then PosInf else NegInf)"
| "fmul (Fin a) NegInf = (if val a = 0 then NaN else if 0 < val a then NegInf else PosInf)"
| "fmul PosInf PosInf = PosInf"
| "fmul PosInf NegInf = NegInf"
| "fmul NegInf PosInf = NegInf"
| "fmul NegInf NegInf = PosInf"

fun fdiv :: "number \<Rightarrow> number \<Rightarrow> number" where
  "fdiv (Fin a) (Fin b) =
     (if val b = 0 then (if val a = 0 then NaN else if 0 < val a then PosInf else NegInf)
      else js (val a / val b))"
| "fdiv NaN _ = NaN"
| "fdiv _ NaN = NaN"
| "fdiv PosInf (Fin b) = (if 0 \<le> val b then PosInf else NegInf)"
| "fdiv NegInf (Fin b) = (if 0 \<le> val b then NegInf else PosInf)"
| "fdiv (Fin a) _ = js 0"
| "fdiv _ _ = NaN"

fun fabs :: "number \<Rightarrow> number" where
  "fabs (Fin a) = js \<bar>val a\<bar>"
| "fabs NaN = NaN"
| "fabs _ = PosInf"

fun flt :: "number \<Rightarrow> number \<Rightarrow> bool" where
  "flt (Fin a) (Fin b) = (val a < val b)"
| "flt NaN _ = False"
| "flt _ NaN = False"
| "flt PosInf _ = False"
| "flt _ NegInf = False"
| "flt _ _ = True"

fun fle :: "number \<Rightarrow> number \<Rightarrow> bool" where
  "fle (Fin a) (Fin b) = (val a \<le> val b)"
| "fle NaN _ = False"
| "fle _ NaN = False"
| "fle NegInf _ = True"
| "fle _ PosInf = True"
| "fle _ _ = False"

definition fgt :: "number \<Rightarrow> number \<Rightarrow> bool" where
  "fgt a b = flt b a"

definition fge :: "number \<Rightarrow> number \<Rightarrow> bool" where
  "fge a b = fle b a"

definition fmin :: "number \<Rightarrow> number \<Rightarrow> number" where
  "fmin a b = (if a = NaN \<or> b = NaN then NaN else if flt b a then b else a)"

definition fmax :: "number \<Rightarrow> number \<Rightarrow> number" where
  "fmax a b = (if a = NaN \<or> b = NaN then NaN else if flt a b then b else a)"

text \<open>The exact value of a number that is not NaN, the infinities standing at \<open>\<plusminus>huge\<close>.\<close>

fun ev :: "number \<Rightarrow> rat" where
  "ev (Fin a) = val a"
| "ev PosInf = huge"
| "ev NegInf = - huge"
| "ev NaN = 0"

section \<open>The block-stacking game of \<open>script.js\<close>\<close>

text \<open>
  The game keeps one global object \<open>gameState\<close>; every function of the script reads and
  writes it. The model passes that object explicitly. Block objects are shared by
  reference between \<open>gameState.stack\<close> and \<open>gameState.currentBlock\<close> (a placed block is
  pushed onto the stack while it is still the current block), so blocks live in a store
  \<open>objs\<close> and the stack and the current block hold addresses into it.

  The score, a number that only ever counts up from 0 in steps of 1, is a natural number:
  it counts blocks pushed onto an array, which holds fewer than \<open>2\<^sup>3\<^sup>2\<close> elements, and the
  natural numbers up to \<open>2\<^sup>5\<^sup>3\<close> are doubles that \<open>++\<close> steps through without rounding. The
  time stamps the host passes to \<open>animate\<close> and returns from \<open>performance.now\<close> are finite
  doubles.
\<close>

subsection \<open>\<open>CONFIG\<close>\<close>

definition BOX_SIZE :: number where "BOX_SIZE = js 3"
definition BOX_HEIGHT :: number where "BOX_HEIGHT = js 0.5"
definition INITIAL_SPEED :: number where "INITIAL_SPEED = js 0.08"
definition SPEED_INCREASE :: number where "SPEED_INCREASE = js 0.002"
definition CAMERA_OFFSET :: number where "CAMERA_OFFSET = js 4"
definition BOUNDS :: number where "BOUNDS = js 5"
definition CAMERA_SPEED :: number where "CAMERA_SPEED = js 0.1"

subsection \<open>Blocks, debris and \<open>gameState\<close>\<close>

text \<open>
  A block is \<open>{ mesh, width, depth, moving }\<close>; of the mesh the script reads and writes
  \<open>position.x\<close>, \<open>position.y\<close> and \<open>scale.x\<close> (a new mesh has scale 1).
\<close>

record block =
  mesh_position_x :: number
  mesh_position_y :: number
  mesh_scale_x :: number
  width :: number
  depth :: number
  moving :: bool

text \<open>The falling piece made by \<open>createFallingPiece\<close>: a box of the given width and depth
  at the given position.\<close>

record drop =
  drop_width :: number
  drop_depth :: number
  drop_position_x :: number
  drop_position_y :: number

type_synonym addr = nat

text \<open>
  \<open>drops\<close> are the falling pieces added to the scene, \<open>camera_position_y\<close> is the one
  camera coordinate the game loop changes, and \<open>timeouts\<close> counts the callbacks scheduled
  with \<open>setTimeout\<close> by \<open>placeBlock\<close> that have not run yet.
\<close>

record gameState =
  objs :: "block list"
  stack :: "addr list"
  currentBlock :: "addr option"
  direction :: number
  gameEnded :: bool
  isPlacingBlock :: bool
  score :: nat
  speed :: number
  lastTime :: number
  camera_position_y :: number
  drops :: "drop list"
  timeouts :: nat

datatype error = TypeError

definition obj :: "gameState \<Rightarrow> addr \<Rightarrow> block" where
  "obj s a = objs s ! a"

definition set_obj :: "addr \<Rightarrow> block \<Rightarrow> gameState \<Rightarrow> gameState" where
  "set_obj a b s = s\<lparr>objs := (objs s)[a := b]\<rparr>"

text \<open>The object \<open>gameState\<close> as the script declares it, with the camera where
  \<open>setupCamera\<close> puts it.\<close>

definition gameState0 :: gameState where
  "gameState0 = \<lparr>objs = [], stack = [], currentBlock = None, direction = js 1,
     gameEnded = False, isPlacingBlock = False, score = 0, speed = INITIAL_SPEED,
     lastTime = js 0, camera_position_y = CAMERA_OFFSET, drops = [], timeouts = 0\<rparr>"

subsection \<open>The functions of the script\<close>

definition addBlock :: "number \<Rightarrow> number \<Rightarrow> number \<Rightarrow> number \<Rightarrow> bool \<Rightarrow> gameState \<Rightarrow> addr \<times> gameState" where
  "addBlock x y w d m s =
     (let a = length (objs s);
          blk = \<lparr>mesh_position_x = x, mesh_position_y = y, mesh_scale_x = js 1,
                 width = w, depth = d, moving = m\<rparr>;
          s1 = s\<lparr>objs := objs s @ [blk]\<rparr>
      in if m then (a, s1\<lparr>currentBlock := Some a\<rparr>)
         else (a, s1\<lparr>stack := stack s1 @ [a]\<rparr>))"

text \<open>\<open>gameState.stack[gameState.stack.length - 1]\<close> is \<open>undefined\<close> on an empty stack, and
  reading \<open>lastBlock.width\<close> then throws a TypeError.\<close>

definition addNewMovingBlock :: "gameState \<Rightarrow> error + addr \<times> gameState" where
  "addNewMovingBlock s =
     (if stack s = [] then Inl TypeError
      else
        let lastBlock = obj s (last (stack s));
            nextY = fmul (js (of_nat (length (stack s)))) BOX_HEIGHT
        in case addBlock (fneg BOUNDS) nextY (width lastBlock) (depth lastBlock) True s of
             (newBlock, s1) \<Rightarrow>
               Inr (newBlock, s1\<lparr>currentBlock := Some newBlock, isPlacingBlock := False\<rparr>))"

definition updateScore :: "gameState \<Rightarrow> gameState" where
  "updateScore s = s\<lparr>score := score s + 1\<rparr>"

definition increaseDifficulty :: "gameState \<Rightarrow> gameState" where
  "increaseDifficulty s = s\<lparr>speed := fadd (speed s) SPEED_INCREASE\<rparr>"

definition endGame :: "gameState \<Rightarrow> gameState" where
  "endGame s = s\<lparr>gameEnded := True\<rparr>"

definition createFallingPiece :: "number \<Rightarrow> number \<Rightarrow> number \<Rightarrow> addr \<Rightarrow> gameState \<Rightarrow> gameState" where
  "createFallingPiece blockDir newWidth overhang c s =
     (let cur = obj s c;
          piece = \<lparr>drop_width = overhang, drop_depth = depth cur,
                   drop_position_x = fadd (mesh_position_x cur)
                     (fmul blockDir (fadd (fdiv newWidth (js 2)) (fdiv overhang (js 2)))),
                   drop_position_y = mesh_position_y cur\<rparr>
      in s\<lparr>drops := drops s @ [piece]\<rparr>)"

definition placeBlock :: "gameState \<Rightarrow> error + gameState" where
  "placeBlock s =
     (case currentBlock s of
        None \<Rightarrow> Inr s
      | Some c \<Rightarrow>
          if gameEnded s \<or> isPlacingBlock s then Inr s
          else
            let s1 = s\<lparr>isPlacingBlock := True\<rparr>;
                s2 = set_obj c ((obj s1 c)\<lparr>moving := False\<rparr>) s1
            in if stack s2 = [] then Inl TypeError
               else
                 let prev = obj s2 (last (stack s2));
                     delta = fsub (mesh_position_x (obj s2 c)) (mesh_position_x prev);
                     overhang = fabs delta
                 in if fge overhang (width (obj s2 c)) then Inr (endGame s2)
                    else
                      let newWidth = fsub (width (obj s2 c)) overhang;
                          blockDir = (if fgt delta (js 0) then js 1 else js (- 1));
                          s3 = set_obj c ((obj s2 c)\<lparr>mesh_scale_x := fdiv newWidth (width (obj s2 c))\<rparr>) s2;
                          s4 = set_obj c ((obj s3 c)\<lparr>mesh_position_x := fsub (mesh_position_x (obj s3 c)) (fdiv delta (js 2))\<rparr>) s3;
                          s5 = set_obj c ((obj s4 c)\<lparr>width := newWidth\<rparr>) s4;
                          s6 = createFallingPiece blockDir newWidth overhang c s5;
                          s7 = s6\<lparr>stack := stack s6 @ [c]\<rparr>;
                          s8 = updateScore s7;
                          s9 = increaseDifficulty s8
                      in Inr (s9\<lparr>timeouts := Suc (timeouts s9)\<rparr>))"

text \<open>The callback given to \<open>setTimeout\<close> by \<open>placeBlock\<close>.\<close>

definition timeoutCallback :: "gameState \<Rightarrow> error + gameState" where
  "timeoutCallback s =
     (if \<not> gameEnded s then
        (case addNewMovingBlock s of Inl e \<Rightarrow> Inl e | Inr (_, s') \<Rightarrow> Inr s')
      else Inr s)"

definition moveCurrentBlock :: "number \<Rightarrow> gameState \<Rightarrow> gameState" where
  "moveCurrentBlock deltaTime s =
     (case currentBlock s of
        None \<Rightarrow> s
      | Some c \<Rightarrow>
          if \<not> moving (obj s c) \<or> gameEnded s then s
          else
            let s1 = set_obj c ((obj s c)\<lparr>mesh_position_x :=
                       fadd (mesh_position_x (obj s c)) (fmul (fmul (speed s) (direction s)) deltaTime)\<rparr>) s
            in if fgt (fabs (mesh_position_x (obj s1 c))) BOUNDS then
                 let s2 = s1\<lparr>direction := fmul (direction s1) (js (- 1))\<rparr>
                 in set_obj c ((obj s2 c)\<lparr>mesh_position_x :=
                      fmax (fneg BOUNDS) (fmin BOUNDS (mesh_position_x (obj s2 c)))\<rparr>) s2
               else s1)"

definition updateCamera :: "number \<Rightarrow> gameState \<Rightarrow> gameState" where
  "updateCamera deltaTime s =
     (if stack s = [] then s
      else
        let targetY = fadd (fmul (js (of_nat (length (stack s)))) BOX_HEIGHT) (js 2);
            currentY = camera_position_y s
        in if flt currentY targetY then
             s\<lparr>camera_position_y :=
                 fadd currentY (fmul (fmul (fsub targetY currentY) CAMERA_SPEED) deltaTime)\<rparr>
           else s)"

definition updateGame :: "number \<Rightarrow> gameState \<Rightarrow> gameState" where
  "updateGame deltaTime s =
     (if gameEnded s then s else updateCamera deltaTime (moveCurrentBlock deltaTime s))"

text \<open>The first statement of \<open>animate\<close> after the frame request: the value of its
  constant \<open>deltaTime\<close>.\<close>

definition deltaTime_of :: "number \<Rightarrow> number \<Rightarrow> number" where
  "deltaTime_of currentTime lastTime0 = fdiv (fmin (fsub currentTime lastTime0) (js 100)) (js 16.67)"

definition animate :: "double \<Rightarrow> gameState \<Rightarrow> gameState" where
  "animate currentTime s =
     (let deltaTime = deltaTime_of (Fin currentTime) (lastTime s);
          s1 = s\<lparr>lastTime := Fin currentTime\<rparr>
      in updateGame deltaTime s1)"

text \<open>The input events \<open>handleInput\<close> is registered for.\<close>

datatype inputEvent = Keydown string | Touchstart | Mousedown

definition handleInput :: "inputEvent \<Rightarrow> gameState \<Rightarrow> error + gameState" where
  "handleInput e s =
     (case e of
        Keydown code \<Rightarrow>
          if code \<noteq> ''Space'' then Inr s
          else if \<not> gameEnded s \<and> \<not> isPlacingBlock s then placeBlock s else Inr s
      | _ \<Rightarrow> if \<not> gameEnded s \<and> \<not> isPlacingBlock s then placeBlock s else Inr s)"

text \<open>\<open>init\<close>: the base block, the first moving block, and \<open>lastTime = performance.now()\<close>,
  the clock reading being the parameter \<open>now\<close>.\<close>

definition init :: "double \<Rightarrow> error + gameState" where
  "init now =
     (case addBlock (js 0) (js 0) BOX_SIZE BOX_SIZE False gameState0 of
        (_, s1) \<Rightarrow>
          (case addNewMovingBlock s1 of
             Inl e \<Rightarrow> Inl e
           | Inr (_, s2) \<Rightarrow> Inr (s2\<lparr>lastTime := Fin now\<rparr>)))"

subsection \<open>Runs of the game\<close>

text \<open>
  After \<open>init\<close> the host calls back into the script: an animation frame with its time
  stamp, an input event, or a timeout scheduled by \<open>placeBlock\<close> (only while one is
  pending; the host runs each once). \<open>Terminate\<close> is a call of \<open>endGame\<close> from outside
  \<open>placeBlock\<close>. An uncaught error ends the callback that raised it.
\<close>

datatype event = Frame double | Input inputEvent | Timeout | Terminate

definition fire :: "event \<Rightarrow> gameState \<Rightarrow> error + gameState" where
  "fire e s =
     (case e of
        Frame t \<Rightarrow> Inr (animate t s)
      | Input i \<Rightarrow> handleInput i s
      | Timeout \<Rightarrow>
          (if timeouts s = 0 then Inr s
           else timeoutCallback (s\<lparr>timeouts := timeouts s - 1\<rparr>))
      | Terminate \<Rightarrow> Inr (endGame s))"

fun run :: "event list \<Rightarrow> gameState \<Rightarrow> error + gameState" where
  "run [] s = Inr s"
| "run (e # es) s = (case fire e s of Inl err \<Rightarrow> Inl err | Inr s' \<Rightarrow> run es s')"

definition reachable :: "gameState \<Rightarrow> bool" where
  "reachable s \<longleftrightarrow> (\<exists>now es s0. init now = Inr s0 \<and> run es s0 = Inr s)"


subsection \<open>Observations\<close>

text \<open>The widths of the placed blocks, from the base upward.\<close>

definition widths :: "gameState \<Rightarrow> number list" where
  "widths s = map (\<lambda>a. width (obj s a)) (stack s)"

text \<open>
  What every state of a run satisfies. The stack is never empty, every reference is to an
  allocated block; the placed blocks do not move and their positions are numbers. The
  current block is either the block just pushed, with a placement in flight, or it is
  not on the stack, as wide as the top and at a finite position. The widths on the stack
  never grow from one block to the next and are positive. The direction is 1 or -1, the
  speed is finite and positive, the last time stamp is finite; the score counts the
  blocks placed on the base, and the speed is the initial speed after that many calls of
  \<open>increaseDifficulty\<close>.
\<close>

definition inv_store :: "gameState \<Rightarrow> bool" where
  "inv_store s \<longleftrightarrow>
     stack s \<noteq> [] \<and>
     (\<forall>a \<in> set (stack s). a < length (objs s) \<and> \<not> moving (obj s a) \<and>
        mesh_position_x (obj s a) \<noteq> NaN) \<and>
     (\<exists>c. currentBlock s = Some c \<and> c < length (objs s) \<and>
          (c \<in> set (stack s) \<longrightarrow> isPlacingBlock s) \<and>
          (c \<notin> set (stack s) \<longrightarrow> width (obj s c) = width (obj s (last (stack s))) \<and>
             (\<exists>x. mesh_position_x (obj s c) = Fin x)))"

definition inv_widths :: "gameState \<Rightarrow> bool" where
  "inv_widths s \<longleftrightarrow>
     sorted_wrt (\<lambda>lower upper. fle upper lower) (widths s) \<and>
     (\<forall>w \<in> set (widths s). flt (js 0) w)"

definition inv_motion :: "gameState \<Rightarrow> bool" where
  "inv_motion s \<longleftrightarrow>
     (direction s = js 1 \<or> direction s = js (- 1)) \<and>
     (\<exists>v. speed s = Fin v \<and> 0 < val v \<and> val v \<le> 2 ^ 60) \<and>
     (\<exists>t. lastTime s = Fin t) \<and>
     Suc (score s) = length (stack s) \<and>
     speed ((increaseDifficulty ^^ score s) gameState0) = speed s"

definition inv :: "gameState \<Rightarrow> bool" where
  "inv s \<longleftrightarrow> inv_store s \<and> inv_widths s \<and> inv_motion s"

text \<open>
  Also in every state of a run: no block on the stack is wider than the base, and a current
  block that has not been placed lies within the bounds.
\<close>

definition inv_bounds :: "gameState \<Rightarrow> bool" where
  "inv_bounds s \<longleftrightarrow>
     (\<forall>w \<in> set (widths s). fle w BOX_SIZE) \<and>
     (\<forall>c. currentBlock s = Some c \<and> c \<notin> set (stack s) \<longrightarrow>
        fle (fabs (mesh_position_x (obj s c))) BOUNDS)"

text \<open>
  A block of width \<open>w\<close> centred at \<open>x\<close> covers the interval \<open>extent x w\<close>, and \<open>inside x w\<close>
  without its end points. Two pieces partition a block exactly when their widths add up to
  its width, they share no inner point, one ends where the other begins, and together they
  cover what the block covered. The numbers here are the exact values of the doubles.
\<close>

definition extent :: "rat \<Rightarrow> rat \<Rightarrow> rat set" where
  "extent x w = {x - w / 2 .. x + w / 2}"

definition inside :: "rat \<Rightarrow> rat \<Rightarrow> rat set" where
  "inside x w = {x - w / 2 <..< x + w / 2}"

definition exact_partition :: "rat \<Rightarrow> rat \<Rightarrow> rat \<Rightarrow> rat \<Rightarrow> rat \<Rightarrow> rat \<Rightarrow> bool" where
  "exact_partition keptPos newWidth debrisPos overhang movingPos movingWidth \<longleftrightarrow>
     newWidth + overhang = movingWidth \<and>
     inside keptPos newWidth \<inter> inside debrisPos overhang = {} \<and>
     (keptPos + newWidth / 2 = debrisPos - overhang / 2 \<or>
      debrisPos + overhang / 2 = keptPos - newWidth / 2) \<and>
     extent keptPos newWidth \<union> extent debrisPos overhang = extent movingPos movingWidth"

text \<open>
  The same up to \<open>eps\<close>: the widths add up to the width of the block, the outer ends of the
  two pieces are the ends of the block, and one piece begins where the other ends, each
  up to an error of \<open>eps\<close>. The debris is on the right or on the left of the kept piece.
\<close>

definition partition_within :: "rat \<Rightarrow> rat \<Rightarrow> rat \<Rightarrow> rat \<Rightarrow> rat \<Rightarrow> rat \<Rightarrow> rat \<Rightarrow> bool" where
  "partition_within eps keptPos newWidth debrisPos overhang movingPos movingWidth \<longleftrightarrow>
     \<bar>newWidth + overhang - movingWidth\<bar> \<le> eps \<and>
     (\<bar>(keptPos - newWidth / 2) - (movingPos - movingWidth / 2)\<bar> \<le> eps \<and>
      \<bar>(debrisPos - overhang / 2) - (keptPos + newWidth / 2)\<bar> \<le> eps \<and>
      \<bar>(debrisPos + overhang / 2) - (movingPos + movingWidth / 2)\<bar> \<le> eps
      \<or>
      \<bar>(debrisPos - overhang / 2) - (movingPos - movingWidth / 2)\<bar> \<le> eps \<and>
      \<bar>(keptPos - newWidth / 2) - (debrisPos + overhang / 2)\<bar> \<le> eps \<and>
      \<bar>(keptPos + newWidth / 2) - (movingPos + movingWidth / 2)\<bar> \<le> eps)"

subsection \<open>Example states\<close>

text \<open>
  The state \<open>init\<close> leaves behind when the clock reads 0, but with the moving block at
  \<open>x\<close>: the base block, 3 wide and centred at 0, and the first moving block above it.
\<close>

definition scenario :: "number \<Rightarrow> gameState" where
  "scenario x = \<lparr>objs = [\<lparr>mesh_position_x = js 0, mesh_position_y = js 0, mesh_scale_x = js 1,
                           width = BOX_SIZE, depth = BOX_SIZE, moving = False\<rparr>,
                         \<lparr>mesh_position_x = x, mesh_position_y = BOX_HEIGHT, mesh_scale_x = js 1,
                           width = BOX_SIZE, depth = BOX_SIZE, moving = True\<rparr>],
     stack = [0], currentBlock = Some 1, direction = js 1,
     gameEnded = False, isPlacingBlock = False, score = 0, speed = INITIAL_SPEED,
     lastTime = js 0, camera_position_y = CAMERA_OFFSET, drops = [], timeouts = 0\<rparr>"

text \<open>
  The state \<open>scenario x\<close> after a frame with the time stamp \<open>t\<close>, for doubles given by
  their values.
\<close>

definition sliding :: "rat \<Rightarrow> rat \<Rightarrow> gameState" where
  "sliding x t = (scenario (js x))\<lparr>lastTime := js t\<rparr>"

text \<open>
  The state in which the first block has been placed at \<open>x = -0.6808638272345544\<close>, the position it has
  after nine frames 100 ms apart. All numbers are doubles, written as fractions.
\<close>

definition first_placed :: gameState where
  "first_placed =
     \<lparr>objs = [\<lparr>mesh_position_x = js 0, mesh_position_y = js 0, mesh_scale_x = js 1,
                width = js 3, depth = js 3, moving = False\<rparr>,
              \<lparr>mesh_position_x = js (- (3066338078623589 / 9007199254740992)),
                mesh_position_y = js (1 / 2),
                mesh_scale_x = js (6962973868991933 / 9007199254740992),
                width = js (2611115200871975 / 1125899906842624),
                depth = js 3, moving = False\<rparr>],
      stack = [0, 1], currentBlock = Some 1, direction = js 1,
      gameEnded = False, isPlacingBlock = True, score = 1,
      speed = js (5908722711110091 / 72057594037927936),
      lastTime = js 900, camera_position_y = js 4,
      drops = [\<lparr>drop_width = js (3066338078623589 / 4503599627370496),
                 drop_depth = js 3,
                 drop_position_x = js (- (4144284240183769 / 2251799813685248)),
                 drop_position_y = js (1 / 2)\<rparr>],
      timeouts = 1\<rparr>"

text \<open>
  The blocks and the debris of a longer example run, in which five blocks are placed; all
  numbers are doubles, written as fractions.
\<close>

definition base_block :: block where
  "base_block = \<lparr>mesh_position_x = js 0, mesh_position_y = js 0, mesh_scale_x = js 1,
     width = js 3, depth = js 3, moving = False\<rparr>"

definition placed_1 :: block where
  "placed_1 = \<lparr>mesh_position_x = js (- (3066338078623589 / 9007199254740992)),
     mesh_position_y = js (1 / 2),
     mesh_scale_x = js (6962973868991933 / 9007199254740992),
     width = js (2611115200871975 / 1125899906842624),
     depth = js 3, moving = False\<rparr>"

definition placed_2 :: block where
  "placed_2 = \<lparr>mesh_position_x = js (- (2056607808239831 / 4503599627370496)),
     mesh_position_y = js 1,
     mesh_scale_x = js (8104382464463665 / 9007199254740992),
     width = js (2349395816407957 / 1125899906842624),
     depth = js 3, moving = False\<rparr>"

definition placed_3 :: block where
  "placed_3 = \<lparr>mesh_position_x = js (- (2075181441975987 / 4503599627370496)),
     mesh_position_y = js (3 / 2),
     mesh_scale_x = js (8971595117971497 / 9007199254740992),
     width = js (2340108999539879 / 1125899906842624),
     depth = js 3, moving = False\<rparr>"

definition placed_4 :: block where
  "placed_4 = \<lparr>mesh_position_x = js (- (1841322508116203 / 4503599627370496)),
     mesh_position_y = js 2,
     mesh_scale_x = js (4278565877319693 / 4503599627370496),
     width = js (2223179532609987 / 1125899906842624),
     depth = js 3, moving = False\<rparr>"

definition placed_5 :: block where
  "placed_5 = \<lparr>mesh_position_x = js (- (2962494580916899 / 9007199254740992)),
     mesh_position_y = js (5 / 2),
     mesh_scale_x = js (8277777904695983 / 9007199254740992),
     width = js (8172567695124441 / 4503599627370496),
     depth = js 3, moving = False\<rparr>"

definition debris_1 :: drop where
  "debris_1 = \<lparr>drop_width = js (3066338078623589 / 4503599627370496), drop_depth = js 3,
     drop_position_x = js (- (4144284240183769 / 2251799813685248)),
     drop_position_y = js (1 / 2)\<rparr>"

definition debris_2 :: drop where
  "debris_2 = \<lparr>drop_width = js (1046877537856073 / 4503599627370496), drop_depth = js 3,
     drop_position_x = js (- (7278838209983781 / 4503599627370496)),
     drop_position_y = js 1\<rparr>"

definition debris_3 :: drop where
  "debris_3 = \<lparr>drop_width = js (4643408434039 / 562949953421312), drop_depth = js 3,
     drop_position_x = js (- (6773973074791901 / 4503599627370496)),
     drop_position_y = js (3 / 2)\<rparr>"

definition debris_4 :: drop where
  "debris_4 = \<lparr>drop_width = js (29232366732473 / 281474976710656), drop_depth = js 3,
     drop_position_x = js (2838895490963555 / 4503599627370496),
     drop_position_y = js 2\<rparr>"

definition debris_5 :: drop where
  "debris_5 = \<lparr>drop_width = js (720150435315507 / 4503599627370496), drop_depth = js 3,
     drop_position_x = js (5930223549523049 / 9007199254740992),
     drop_position_y = js (5 / 2)\<rparr>"

text \<open>
  A state of a run in which the blocks \<open>placed\<close> are on the stack and the pieces \<open>debris\<close>
  have been cut off: \<open>tower\<close> while the next block slides at \<open>x\<close>, \<open>awaiting\<close> between a
  placement and the timeout that spawns the next block. \<open>v\<close> is the speed, \<open>t\<close> the time
  stamp of the last frame and \<open>y\<close> the height of the camera.
\<close>

definition tower :: "block list \<Rightarrow> drop list \<Rightarrow> rat \<Rightarrow> rat \<Rightarrow> rat \<Rightarrow> rat \<Rightarrow> gameState" where
  "tower placed debris v x t y =
     \<lparr>objs = placed @ [\<lparr>mesh_position_x = js x,
                mesh_position_y = js (of_nat (length placed) / 2), mesh_scale_x = js 1,
                width = width (last placed), depth = depth (last placed), moving = True\<rparr>],
      stack = [0 ..< length placed], currentBlock = Some (length placed), direction = js 1,
      gameEnded = False, isPlacingBlock = False, score = length placed - 1, speed = js v,
      lastTime = js t, camera_position_y = js y, drops = debris, timeouts = 0\<rparr>"

definition awaiting :: "block list \<Rightarrow> drop list \<Rightarrow> rat \<Rightarrow> rat \<Rightarrow> rat \<Rightarrow> gameState" where
  "awaiting placed debris v t y =
     \<lparr>objs = placed, stack = [0 ..< length placed], currentBlock = Some (length placed - 1),
      direction = js 1, gameEnded = False, isPlacingBlock = True, score = length placed - 1,
      speed = js v, lastTime = js t, camera_position_y = js y, drops = debris, timeouts = 1\<rparr>"

text \<open>The callbacks of that run after the first placement.\<close>

definition later_events :: "event list" where
  "later_events =
    [Timeout, Frame (dbl 1000), Frame (dbl 1100), Frame (dbl 1200),
     Frame (dbl 1300), Frame (dbl 1400), Frame (dbl 1500), Frame (dbl 1600),
     Frame (dbl 1700), Frame (dbl 1800), Input Mousedown, Timeout,
     Frame (dbl 1900), Frame (dbl 2000), Frame (dbl 2100), Frame (dbl 2200),
     Frame (dbl 2300), Frame (dbl 2400), Frame (dbl 2500), Frame (dbl 2600),
     Frame (dbl 2700), Input Mousedown, Timeout, Frame (dbl 2800),
     Frame (dbl 2900), Frame (dbl 3000), Frame (dbl 3100), Frame (dbl 3200),
     Frame (dbl 3300), Frame (dbl 3400), Frame (dbl 3500), Frame (dbl 3600),
     Input Mousedown, Timeout, Frame (dbl 3700), Frame (dbl 3800),
     Frame (dbl 3900), Frame (dbl 4000), Frame (dbl 4100), Frame (dbl 4200),
     Frame (dbl 4300), Frame (dbl 4400), Frame (dbl 4500), Input Mousedown]"

text \<open>The state after the fifth placement.\<close>

definition fifth_placed :: gameState where
  "fifth_placed =
     awaiting [base_block, placed_1, placed_2, placed_3, placed_4, placed_5] [debris_1, debris_2, debris_3, debris_4, debris_5]
       (6485183463413515 / 72057594037927936) 4500 (5066401607990937 / 1125899906842624)"

section \<open>Properties of the rounding\<close>

lemma bitLength_pos: "0 < n \<Longrightarrow> 0 < bitLength n"
  by (subst bitLength.simps) simp

lemma bitLength_0: "bitLength 0 = 0"
  by (subst bitLength.simps) simp

lemma bitLength_bounds: "0 < n \<Longrightarrow> 2 ^ (bitLength n - 1) \<le> n \<and> n < 2 ^ bitLength n"
proof (induction n rule: less_induct)
  case (less n)
  have b: "bitLength n = Suc (bitLength (n div 2))"
    using less.prems by (subst bitLength.simps) simp
  show ?case
  proof (cases "n div 2 = 0")
    case True
    with less.prems have n1: "n = Suc 0" by (simp add: div_eq_0_iff)
    have "bitLength n = Suc 0" using b True by (simp add: bitLength_0)
    then show ?thesis by (simp add: n1)
  next
    case False
    then have pos: "0 < n div 2" by blast
    have "n div 2 < n" using less.prems by simp
    then have IH: "2 ^ (bitLength (n div 2) - 1) \<le> n div 2 \<and> n div 2 < 2 ^ bitLength (n div 2)"
      using less.IH pos by blast
    obtain j where j: "bitLength (n div 2) = Suc j"
      using bitLength_pos [OF pos] by (cases "bitLength (n div 2)") auto
    define a :: nat where "a = 2 ^ j"
    from IH have "a \<le> n div 2" "n div 2 < 2 * a" by (simp_all add: j a_def)
    then have "2 * a \<le> n" "n < 2 * (2 * a)" by presburger+
    then show ?thesis by (simp add: b j a_def)
  qed
qed

lemma bitLength_eq:
  assumes "2 ^ j \<le> n" "n < 2 ^ Suc j"
  shows "bitLength n = Suc j"
proof -
  have pos: "0 < n" using assms(1) by (cases "n = 0") simp_all
  from bitLength_bounds [OF pos]
  have lo: "2 ^ (bitLength n - 1) \<le> n" and hi: "n < 2 ^ bitLength n" by blast+
  from lo assms(2) have 1: "(2::nat) ^ (bitLength n - 1) < 2 ^ Suc j" by (rule le_less_trans)
  from assms(1) hi have 2: "(2::nat) ^ j < 2 ^ bitLength n" by (rule le_less_trans)
  have "bitLength n - 1 < Suc j" by (rule power_less_imp_less_exp [OF _ 1]) simp
  moreover have "j < bitLength n" by (rule power_less_imp_less_exp [OF _ 2]) simp
  ultimately show ?thesis by linarith
qed

lemma rne_cases:
  "(rne q = \<lfloor>q\<rfloor> \<and> q - of_int \<lfloor>q\<rfloor> \<le> 1 / 2) \<or> (rne q = \<lfloor>q\<rfloor> + 1 \<and> 1 / 2 \<le> q - of_int \<lfloor>q\<rfloor>)"
  unfolding rne_def Let_def by (cases "q - of_int \<lfloor>q\<rfloor> < 1 / 2"; cases "1 / 2 < q - of_int \<lfloor>q\<rfloor>"; simp)


lemma rne_nearest: "\<bar>of_int (rne q) - q\<bar> \<le> \<bar>of_int k - q\<bar>"
proof -
  have f: "of_int \<lfloor>q\<rfloor> \<le> q" "q < of_int \<lfloor>q\<rfloor> + 1" by linarith+
  consider "k \<le> \<lfloor>q\<rfloor>" | "\<lfloor>q\<rfloor> + 1 \<le> k" by linarith
  then show ?thesis
  proof cases
    case 1
    then have "(of_int k :: rat) \<le> of_int \<lfloor>q\<rfloor>" by simp
    with rne_cases [of q] f show ?thesis by auto
  next
    case 2
    then have "(of_int (\<lfloor>q\<rfloor> + 1) :: rat) \<le> of_int k" by (simp only: of_int_le_iff)
    then have "(of_int \<lfloor>q\<rfloor> :: rat) + 1 \<le> of_int k" by simp
    with rne_cases [of q] f show ?thesis by auto
  qed
qed

lemma rne_le: "q \<le> of_int K \<Longrightarrow> rne q \<le> K"
proof (rule ccontr)
  assume a: "q \<le> of_int K" "\<not> rne q \<le> K"
  then have "K + 1 \<le> rne q" by linarith
  then have "(of_int (K + 1) :: rat) \<le> of_int (rne q)" by (simp only: of_int_le_iff)
  then have "(of_int K :: rat) + 1 \<le> of_int (rne q)" by simp
  with a(1) rne_nearest [of q K] show False by linarith
qed

lemma rne_ge: "of_int K \<le> q \<Longrightarrow> K \<le> rne q"
proof (rule ccontr)
  assume a: "of_int K \<le> q" "\<not> K \<le> rne q"
  then have "rne q + 1 \<le> K" by linarith
  then have "(of_int (rne q + 1) :: rat) \<le> of_int K" by (simp only: of_int_le_iff)
  then have "(of_int (rne q) :: rat) + 1 \<le> of_int K" by simp
  with a(1) rne_nearest [of q K] show False by linarith
qed

lemma rne_of_int: "rne (of_int k) = k"
  using rne_nearest [of "of_int k" k] by simp


lemma abs_lt_pow: "\<bar>X::rat\<bar> < 2 ^ bitLength (nat \<lfloor>\<bar>X\<bar>\<rfloor>)"
proof (cases "nat \<lfloor>\<bar>X\<bar>\<rfloor> = 0")
  case True
  then have "\<lfloor>\<bar>X\<bar>\<rfloor> < 1" by simp
  then have "\<bar>X\<bar> < 1" by (simp only: floor_less_iff of_int_1)
  also have "(1::rat) \<le> 2 ^ bitLength (nat \<lfloor>\<bar>X\<bar>\<rfloor>)" by simp
  finally show ?thesis .
next
  case False
  define N where "N = nat \<lfloor>\<bar>X\<bar>\<rfloor>"
  from False have "0 < N" by (simp add: N_def)
  then have "N < 2 ^ bitLength N" using bitLength_bounds by blast
  then have "int N < 2 ^ bitLength N" by simp
  moreover have "int N = \<lfloor>\<bar>X\<bar>\<rfloor>" by (simp add: N_def)
  ultimately have "\<lfloor>\<bar>X\<bar>\<rfloor> < 2 ^ bitLength N" by simp
  then have "\<bar>X\<bar> < of_int (2 ^ bitLength N)" by (simp only: floor_less_iff)
  then show ?thesis by (simp add: N_def)
qed

lemma pow_le_abs:
  assumes "0 < bitLength (nat \<lfloor>\<bar>X::rat\<bar>\<rfloor>)"
  shows "2 ^ (bitLength (nat \<lfloor>\<bar>X\<bar>\<rfloor>) - 1) \<le> \<bar>X\<bar>"
proof -
  define N where "N = nat \<lfloor>\<bar>X\<bar>\<rfloor>"
  have pos: "0 < N"
    using assms unfolding N_def by (cases "nat \<lfloor>\<bar>X\<bar>\<rfloor> = 0") (simp_all add: bitLength_0)
  then have "2 ^ (bitLength N - 1) \<le> N" using bitLength_bounds by blast
  then have "2 ^ (bitLength N - 1) \<le> int N" by simp
  moreover have "int N = \<lfloor>\<bar>X\<bar>\<rfloor>" by (simp add: N_def)
  ultimately have "2 ^ (bitLength N - 1) \<le> \<lfloor>\<bar>X\<bar>\<rfloor>" by simp
  then have "of_int (2 ^ (bitLength N - 1)) \<le> \<bar>X\<bar>" by (simp only: le_floor_iff)
  then show ?thesis by (simp add: N_def)
qed

lemma scaled_bound: "\<bar>X / 2 ^ ulp_exp X\<bar> \<le> 2 ^ 53"
proof (cases "bitLength (nat \<lfloor>\<bar>X\<bar>\<rfloor>) \<le> 53")
  case True
  then have "ulp_exp X = 0" by (simp add: ulp_exp_def)
  moreover have "(2::rat) ^ bitLength (nat \<lfloor>\<bar>X\<bar>\<rfloor>) \<le> 2 ^ 53"
    using True by (intro power_increasing) simp_all
  ultimately show ?thesis using abs_lt_pow [of X] by simp
next
  case False
  define e where "e = ulp_exp X"
  from False have n: "bitLength (nat \<lfloor>\<bar>X\<bar>\<rfloor>) = 53 + e" by (simp add: e_def ulp_exp_def)
  have "\<bar>X\<bar> < 2 ^ 53 * 2 ^ e" using abs_lt_pow [of X] by (simp add: n power_add)
  then have "\<bar>X\<bar> / 2 ^ e < 2 ^ 53" by (simp add: divide_less_eq)
  then show ?thesis by (simp add: e_def [symmetric] abs_divide)
qed

lemma round_units_repr: "repr_units (of_int (round_units X))"
proof -
  have "X / 2 ^ ulp_exp X \<le> 2 ^ 53" "- (2 ^ 53) \<le> X / 2 ^ ulp_exp X"
    using scaled_bound [of X] by linarith+
  then have "X / 2 ^ ulp_exp X \<le> of_int (2 ^ 53)" "of_int (- (2 ^ 53)) \<le> X / 2 ^ ulp_exp X"
    by simp_all
  then have "rne (X / 2 ^ ulp_exp X) \<le> 2 ^ 53" "- (2 ^ 53) \<le> rne (X / 2 ^ ulp_exp X)"
    using rne_le rne_ge by blast+
  then have "\<bar>rne (X / 2 ^ ulp_exp X)\<bar> \<le> 2 ^ 53" by linarith
  then show ?thesis
    unfolding repr_units_def round_units_def
    by (intro exI [of _ "rne (X / 2 ^ ulp_exp X)"] exI [of _ "ulp_exp X"]) simp
qed

lemma round_units_grid: "\<bar>of_int (round_units X) - X\<bar> \<le> \<bar>of_int j * 2 ^ ulp_exp X - X\<bar>"
proof -
  define u :: rat where "u = 2 ^ ulp_exp X"
  have u: "0 < u" by (simp add: u_def)
  have "\<bar>of_int (round_units X) - X\<bar> = \<bar>(of_int (rne (X / u)) - X / u) * u\<bar>"
    using u by (simp add: round_units_def u_def algebra_simps)
  also have "\<dots> = \<bar>of_int (rne (X / u)) - X / u\<bar> * u" using u by (simp add: abs_mult)
  also have "\<dots> \<le> \<bar>of_int j - X / u\<bar> * u" using u rne_nearest [of "X / u" j] by simp
  also have "\<dots> = \<bar>(of_int j - X / u) * u\<bar>" using u by (simp add: abs_mult)
  also have "\<dots> = \<bar>of_int j * u - X\<bar>" using u by (simp add: algebra_simps)
  finally show ?thesis by (simp add: u_def)
qed

lemma round_units_nearest:
  assumes "repr_units Y"
  shows "\<bar>of_int (round_units X) - X\<bar> \<le> \<bar>Y - X\<bar>"
proof -
  from assms obtain m :: int and k :: nat where Y: "Y = of_int m * 2 ^ k" and m: "\<bar>m\<bar> \<le> 2 ^ 53"
    by (auto simp: repr_units_def)
  define e where "e = ulp_exp X"
  show ?thesis
  proof (cases "e \<le> k")
    case True
    then have "Y = of_int (m * 2 ^ (k - e)) * 2 ^ e"
      by (simp add: Y power_add [symmetric])
    then show ?thesis using round_units_grid [of X "m * 2 ^ (k - e)"] by (simp add: e_def)
  next
    case False
    then obtain e' where e': "e = Suc e'" "k \<le> e'" by (cases e) auto
    have n: "bitLength (nat \<lfloor>\<bar>X\<bar>\<rfloor>) = 54 + e'"
      using e'(1) by (simp add: e_def ulp_exp_def)
    have low: "2 ^ 52 * 2 ^ e \<le> \<bar>X\<bar>"
      using pow_le_abs [of X] by (simp add: n e'(1) power_add)
    have "\<bar>Y\<bar> = of_int \<bar>m\<bar> * 2 ^ k" by (simp add: Y abs_mult)
    also have "\<dots> \<le> 2 ^ 53 * 2 ^ k"
    proof -
      have "(of_int \<bar>m\<bar> :: rat) \<le> of_int (2 ^ 53)" using m by (simp only: of_int_le_iff)
      then show ?thesis by (simp add: mult_right_mono)
    qed
    also have "\<dots> \<le> 2 ^ 53 * 2 ^ e'"
      using e'(2) by (simp add: power_increasing)
    also have "\<dots> = 2 ^ 52 * 2 ^ e" by (simp add: e'(1))
    finally have Ylow: "\<bar>Y\<bar> \<le> 2 ^ 52 * 2 ^ e" .
    show ?thesis
    proof (cases "0 \<le> X")
      case True
      have "\<bar>of_int (round_units X) - X\<bar> \<le> \<bar>of_int (2 ^ 52) * 2 ^ e - X\<bar>"
        using round_units_grid [of X "2 ^ 52"] by (simp add: e_def)
      with True low Ylow show ?thesis by simp
    next
      case False
      have "\<bar>of_int (round_units X) - X\<bar> \<le> \<bar>of_int (- (2 ^ 52)) * 2 ^ e - X\<bar>"
        using round_units_grid [of X "- (2 ^ 52)"] by (simp add: e_def)
      with False low Ylow show ?thesis by simp
    qed
  qed
qed

lemma round_units_fix: "repr_units Y \<Longrightarrow> of_int (round_units Y) = Y"
  using round_units_nearest [of Y Y] by simp

lemma round_units_mono:
  assumes "X \<le> Y"
  shows "round_units X \<le> round_units Y"
proof (rule ccontr)
  assume "\<not> round_units X \<le> round_units Y"
  then have lt: "(of_int (round_units Y) :: rat) < of_int (round_units X)" by simp
  have "\<bar>of_int (round_units X) - X\<bar> \<le> \<bar>of_int (round_units Y) - X\<bar>"
    by (rule round_units_nearest) (rule round_units_repr)
  moreover have "\<bar>of_int (round_units Y) - Y\<bar> \<le> \<bar>of_int (round_units X) - Y\<bar>"
    by (rule round_units_nearest) (rule round_units_repr)
  ultimately have "Y \<le> X" using lt by linarith
  with assms have "X = Y" by simp
  with lt show False by simp
qed

lemma repr_units_int: "\<bar>m\<bar> \<le> 2 ^ 53 \<Longrightarrow> repr_units (of_int m * 2 ^ k)"
  by (auto simp: repr_units_def)

lemma repr_units_minus: "repr_units Y \<Longrightarrow> repr_units (- Y)"
  unfolding repr_units_def
  by (elim exE, rule_tac x = "- m" in exI, rule_tac x = k in exI) simp

lemma repr_units_is_int: "repr_units Y \<Longrightarrow> \<exists>i::int. Y = of_int i"
  unfolding repr_units_def
  by (elim exE, rule_tac x = "m * 2 ^ k" in exI) simp

lemma round_units_diff_pos:
  assumes "repr_units A" "repr_units B" "A < B"
  shows "0 < round_units (B - A)"
proof -
  from assms(1,2) obtain i j :: int where ij: "A = of_int i" "B = of_int j"
    using repr_units_is_int by blast
  with assms(3) have "i < j" by simp
  then have "1 \<le> j - i" by linarith
  then have "(of_int 1 :: rat) \<le> of_int (j - i)" by (simp only: of_int_le_iff)
  then have "(1::rat) \<le> B - A" using ij by simp
  then have "round_units 1 \<le> round_units (B - A)" by (rule round_units_mono)
  moreover have "(of_int (round_units 1) :: rat) = 1"
    using round_units_fix [OF repr_units_int [of 1 0]] by simp
  then have "round_units 1 = 1" by (simp only: of_int_eq_1_iff)
  ultimately show ?thesis by simp
qed


lemma unit_scale_pos: "0 < unit_scale"
  by (simp add: unit_scale_def)

lemma huge_pos: "0 < huge"
  by (simp add: huge_def)

lemma rnd_units: "rnd x * unit_scale = of_int (round_units (x * unit_scale))"
  using unit_scale_pos by (simp add: rnd_def)

lemma rnd_fix_iff: "rnd x = x \<longleftrightarrow> repr_units (x * unit_scale)"
proof
  assume "rnd x = x"
  with rnd_units [of x] have "of_int (round_units (x * unit_scale)) = x * unit_scale" by simp
  with round_units_repr [of "x * unit_scale"] show "repr_units (x * unit_scale)" by simp
next
  assume "repr_units (x * unit_scale)"
  then have "of_int (round_units (x * unit_scale)) = x * unit_scale" by (rule round_units_fix)
  then show "rnd x = x" using unit_scale_pos by (simp add: rnd_def)
qed

lemma rnd_idem: "rnd (rnd x) = rnd x"
  unfolding rnd_fix_iff rnd_units by (rule round_units_repr)

lemma rnd_mono: "x \<le> y \<Longrightarrow> rnd x \<le> rnd y"
proof -
  assume "x \<le> y"
  then have "x * unit_scale \<le> y * unit_scale" using unit_scale_pos by simp
  then have "round_units (x * unit_scale) \<le> round_units (y * unit_scale)" by (rule round_units_mono)
  then have "(of_int (round_units (x * unit_scale)) :: rat) \<le> of_int (round_units (y * unit_scale))"
    by (simp only: of_int_le_iff)
  then show ?thesis using unit_scale_pos by (simp add: rnd_def divide_right_mono)
qed

lemma rnd_0 [simp]: "rnd 0 = 0"
  unfolding rnd_fix_iff using repr_units_int [of 0 0] by simp

lemma rnd_minus_fix: "rnd x = x \<Longrightarrow> rnd (- x) = - x"
  unfolding rnd_fix_iff using repr_units_minus [of "x * unit_scale"] by simp

lemma rnd_abs_fix: "rnd x = x \<Longrightarrow> rnd \<bar>x\<bar> = \<bar>x\<bar>"
  by (cases "0 \<le> x") (simp_all add: rnd_minus_fix abs_if)

lemma rnd_diff_pos:
  assumes "rnd a = a" "rnd b = b" "a < b"
  shows "0 < rnd (b - a)"
proof -
  from assms(3) have "a * unit_scale < b * unit_scale" using unit_scale_pos by simp
  with assms(1,2) have "0 < round_units (b * unit_scale - a * unit_scale)"
    unfolding rnd_fix_iff by (intro round_units_diff_pos)
  then have "(0::rat) < of_int (round_units ((b - a) * unit_scale))"
    by (simp add: algebra_simps)
  then show ?thesis using unit_scale_pos by (simp add: rnd_def)
qed

lemma rnd_nonneg: "0 \<le> x \<Longrightarrow> 0 \<le> rnd x"
  using rnd_mono [of 0 x] by (simp add: rnd_0)

lemma rnd_nonpos: "x \<le> 0 \<Longrightarrow> rnd x \<le> 0"
  using rnd_mono [of x 0] by (simp add: rnd_0)

lemma rnd_le_fix: "x \<le> y \<Longrightarrow> rnd y = y \<Longrightarrow> rnd x \<le> y"
  using rnd_mono [of x y] by simp

lemma rnd_ge_fix: "y \<le> x \<Longrightarrow> rnd y = y \<Longrightarrow> y \<le> rnd x"
  using rnd_mono [of y x] by simp

lemma rnd_dyadic:
  assumes "\<bar>i\<bar> \<le> 2 ^ 53" "k \<le> 1074"
  shows "rnd (of_int i / 2 ^ k) = of_int i / 2 ^ k"
proof -
  have S: "unit_scale = 2 ^ k * 2 ^ (1074 - k)"
    using assms(2) by (simp add: unit_scale_def power_add [symmetric])
  have "of_int i / 2 ^ k * unit_scale = of_int i * 2 ^ (1074 - k)" by (simp add: S)
  then show ?thesis unfolding rnd_fix_iff using repr_units_int [OF assms(1)] by simp
qed

lemma rnd_int: "\<bar>i\<bar> \<le> 2 ^ 53 \<Longrightarrow> rnd (of_int i) = of_int i"
  using rnd_dyadic [of i 0] by simp

lemma rnd_eval:
  assumes "2 ^ 52 \<le> \<bar>x\<bar> * 2 ^ k" "\<bar>x\<bar> * 2 ^ k < 2 ^ 53" "k \<le> 1074"
  shows "rnd x = of_int (rne (x * 2 ^ k)) / 2 ^ k"
proof -
  define d where "d = 1074 - k"
  have S: "unit_scale = 2 ^ k * 2 ^ d"
    using assms(3) by (simp add: unit_scale_def d_def power_add [symmetric])
  define X where "X = x * unit_scale"
  have absX: "\<bar>X\<bar> = \<bar>x\<bar> * 2 ^ k * 2 ^ d" by (simp add: X_def S abs_mult)
  have lo: "2 ^ (52 + d) \<le> \<bar>X\<bar>"
    using assms(1) by (simp add: absX power_add mult_right_mono)
  have hi: "\<bar>X\<bar> < 2 ^ (53 + d)"
    using assms(2) by (simp add: absX power_add)
  define N where "N = nat \<lfloor>\<bar>X\<bar>\<rfloor>"
  have "(2::int) ^ (52 + d) \<le> \<lfloor>\<bar>X\<bar>\<rfloor>" using lo by (simp add: le_floor_iff)
  moreover have "\<lfloor>\<bar>X\<bar>\<rfloor> < 2 ^ (53 + d)" using hi by (simp add: floor_less_iff)
  moreover have "\<lfloor>\<bar>X\<bar>\<rfloor> = int N" by (simp add: N_def)
  ultimately have "2 ^ (52 + d) \<le> int N" "int N < 2 ^ Suc (52 + d)" by simp_all
  then have "2 ^ (52 + d) \<le> N" "N < 2 ^ Suc (52 + d)"
    by (simp_all only: numeral_power_le_of_nat_cancel_iff of_nat_less_numeral_power_cancel_iff)
  then have "bitLength N = Suc (52 + d)" by (rule bitLength_eq)
  then have ue: "ulp_exp X = d" by (simp add: ulp_exp_def N_def)
  have "X / 2 ^ d = x * 2 ^ k" by (simp add: X_def S)
  then have "round_units X = rne (x * 2 ^ k) * 2 ^ d" by (simp add: round_units_def ue)
  then show ?thesis by (simp add: rnd_def X_def [symmetric]) (simp add: S)
qed

lemma rnd_eval_big:
  assumes "2 ^ 52 \<le> \<bar>x\<bar> / 2 ^ k" "\<bar>x\<bar> / 2 ^ k < 2 ^ 53"
  shows "rnd x = of_int (rne (x / 2 ^ k)) * 2 ^ k"
proof -
  define d where "d = 1074 + k"
  have S: "unit_scale * 2 ^ k = 2 ^ d" by (simp add: unit_scale_def d_def power_add)
  define X where "X = x * unit_scale"
  have absX: "\<bar>X\<bar> = \<bar>x\<bar> / 2 ^ k * 2 ^ d"
    using unit_scale_pos by (simp add: X_def S [symmetric] abs_mult)
  have lo: "2 ^ (52 + d) \<le> \<bar>X\<bar>"
    using assms(1) by (simp only: absX power_add) (rule mult_right_mono, simp_all)
  have hi: "\<bar>X\<bar> < 2 ^ (53 + d)"
    using assms(2) by (simp only: absX power_add) (rule mult_strict_right_mono, simp_all)
  define N where "N = nat \<lfloor>\<bar>X\<bar>\<rfloor>"
  have "(2::int) ^ (52 + d) \<le> \<lfloor>\<bar>X\<bar>\<rfloor>" using lo by (simp add: le_floor_iff)
  moreover have "\<lfloor>\<bar>X\<bar>\<rfloor> < 2 ^ (53 + d)" using hi by (simp add: floor_less_iff)
  moreover have "\<lfloor>\<bar>X\<bar>\<rfloor> = int N" by (simp add: N_def)
  ultimately have "2 ^ (52 + d) \<le> int N" "int N < 2 ^ Suc (52 + d)" by simp_all
  then have "2 ^ (52 + d) \<le> N" "N < 2 ^ Suc (52 + d)"
    by (simp_all only: numeral_power_le_of_nat_cancel_iff of_nat_less_numeral_power_cancel_iff)
  then have "bitLength N = Suc (52 + d)" by (rule bitLength_eq)
  then have ue: "ulp_exp X = d" by (simp add: ulp_exp_def N_def)
  have "X / 2 ^ d = x / 2 ^ k" using unit_scale_pos by (simp add: X_def S [symmetric])
  then have "round_units X = rne (x / 2 ^ k) * 2 ^ d" by (simp add: round_units_def ue)
  then have "rnd x = of_int (rne (x / 2 ^ k)) * 2 ^ d / unit_scale"
    by (simp add: rnd_def X_def [symmetric])
  then show ?thesis using unit_scale_pos by (simp add: S [symmetric])
qed


lemma rne_eval:
  assumes "\<bar>q - of_int m\<bar> < 1 / 2 \<or> (\<bar>q - of_int m\<bar> = 1 / 2 \<and> even m)"
  shows "rne q = m"
proof -
  from assms consider (near) "\<bar>q - of_int m\<bar> < 1 / 2"
    | (up) "q = of_int m + 1 / 2" "even m" | (down) "q = of_int m - 1 / 2" "even m"
    by (auto simp: abs_if split: if_splits)
  then show ?thesis
  proof cases
    case near
    have "\<bar>of_int (rne q) - q\<bar> \<le> \<bar>of_int m - q\<bar>" by (rule rne_nearest)
    with near have "\<bar>(of_int (rne q) :: rat) - of_int m\<bar> < 1" by linarith
    then have "\<bar>(of_int (rne q - m) :: rat)\<bar> < of_int 1" by simp
    then have "\<bar>rne q - m\<bar> < 1" by (simp only: of_int_abs [symmetric] of_int_less_iff)
    then show ?thesis by linarith
  next
    case up
    have "\<lfloor>q\<rfloor> = m" by (rule floor_unique) (simp_all add: up(1))
    then show ?thesis using up by (simp add: rne_def Let_def)
  next
    case down
    have "\<lfloor>q\<rfloor> = m - 1" by (rule floor_unique) (simp_all add: down(1))
    then show ?thesis using down by (simp add: rne_def Let_def)
  qed
qed

lemma rnd_eval_to:
  assumes "2 ^ 52 \<le> \<bar>x\<bar> * 2 ^ k" "\<bar>x\<bar> * 2 ^ k < 2 ^ 53" "k \<le> 1074"
    and "\<bar>x * 2 ^ k - of_int m\<bar> < 1 / 2 \<or> (\<bar>x * 2 ^ k - of_int m\<bar> = 1 / 2 \<and> even m)"
  shows "rnd x = of_int m / 2 ^ k"
  using rnd_eval [OF assms(1-3)] rne_eval [OF assms(4)] by simp

lemma rnd_eval_big_to:
  assumes "2 ^ 52 \<le> \<bar>x\<bar> / 2 ^ k" "\<bar>x\<bar> / 2 ^ k < 2 ^ 53"
    and "\<bar>x / 2 ^ k - of_int m\<bar> < 1 / 2 \<or> (\<bar>x / 2 ^ k - of_int m\<bar> = 1 / 2 \<and> even m)"
  shows "rnd x = of_int m * 2 ^ k"
  using rnd_eval_big [OF assms(1,2)] rne_eval [OF assms(3)] by simp

lemma val_fix [simp]: "rnd (val d) = val d"
  using val [of d] by (simp add: is_double_def)

lemma val_lt_huge: "\<bar>val d\<bar> < huge"
  using val [of d] by (simp add: is_double_def)

lemma val_bounds [simp]:
  "val d < huge" "- huge < val d" "\<not> huge \<le> val d" "\<not> val d \<le> - huge"
  "val d \<le> huge" "- huge \<le> val d"
  using val_lt_huge [of d] by (simp_all add: abs_less_iff)

lemma val_dbl: "val (dbl q) = (if \<bar>rnd q\<bar> < huge then rnd q else 0)"
  unfolding dbl_def by (rule Abs_double_inverse) (simp add: is_double_def rnd_idem rnd_0 huge_pos)

lemma dbl_val [simp]: "dbl (val d) = d"
  by (simp add: dbl_def val_lt_huge val_inverse)

lemma js_val [simp]: "js (val d) = Fin d"
  by (simp add: js_def)

lemma js_not_NaN [simp]: "js q \<noteq> NaN" "NaN \<noteq> js q"
  by (simp_all add: js_def)

lemma ev_js: "ev (js q) = max (- huge) (min huge (rnd q))"
  using huge_pos by (auto simp: js_def val_dbl abs_less_iff max_def min_def)

lemma ev_js_bounds [simp]: "ev (js q) \<le> huge" "- huge \<le> ev (js q)"
  using huge_pos by (simp_all add: ev_js)

lemma val_minus_fix [simp]: "rnd (- val d) = - val d"
  by (simp add: rnd_minus_fix)

lemma val_abs_fix [simp]: "rnd \<bar>val d\<bar> = \<bar>val d\<bar>"
  by (simp add: rnd_abs_fix)

lemma js_Fin: "\<bar>rnd q\<bar> < huge \<Longrightarrow> js q = Fin (dbl q)"
  by (auto simp: js_def abs_less_iff)

lemma js_cong: "rnd q = rnd r \<Longrightarrow> js q = js r"
  by (cases "\<bar>rnd r\<bar> < huge") (auto simp: js_def dbl_def abs_less_iff not_less)

lemma flt_ev: "a \<noteq> NaN \<Longrightarrow> b \<noteq> NaN \<Longrightarrow> flt a b \<longleftrightarrow> ev a < ev b"
  using huge_pos by (cases a; cases b) (simp_all add: less_le_not_le)

lemma fle_ev: "a \<noteq> NaN \<Longrightarrow> b \<noteq> NaN \<Longrightarrow> fle a b \<longleftrightarrow> ev a \<le> ev b"
  using huge_pos by (cases a; cases b) (simp_all add: less_imp_le)

lemma flt_not_NaN: "flt a b \<Longrightarrow> a \<noteq> NaN \<and> b \<noteq> NaN"
  by (cases a; cases b) simp_all

lemma fle_not_NaN: "fle a b \<Longrightarrow> a \<noteq> NaN \<and> b \<noteq> NaN"
  by (cases a; cases b) simp_all

lemma ev_js_0 [simp]: "ev (js 0) = 0"
  using huge_pos by (simp add: ev_js rnd_0)

lemma js_mono: "x \<le> y \<Longrightarrow> fle (js x) (js y)"
  using rnd_mono [of x y] by (simp add: fle_ev ev_js)

lemma fsub_Fin: "fsub (Fin a) (Fin b) = js (val a - val b)"
  by (simp add: fsub_def js_Fin rnd_minus_fix val_lt_huge val_dbl)

lemma flt_imp_fsub_pos:
  assumes "flt a b"
  shows "flt (js 0) (fsub b a)"
proof (cases a; cases b)
  fix x y assume ab: "a = Fin x" "b = Fin y"
  with assms have "val x < val y" by simp
  then have "0 < rnd (val y - val x)" by (intro rnd_diff_pos) simp_all
  then show ?thesis using huge_pos by (simp add: ab fsub_Fin flt_ev ev_js rnd_0)
qed (use assms huge_pos in \<open>simp_all add: fsub_def js_Fin rnd_minus_fix val_lt_huge flt_ev\<close>)

lemma fsub_le_self:
  assumes "fle (js 0) x" "flt x w"
  shows "fle (fsub w x) w"
proof (cases x; cases w)
  fix a b assume xw: "x = Fin a" "w = Fin b"
  from assms(1) have "0 \<le> val a" by (simp add: xw fle_ev)
  then have "rnd (val b - val a) \<le> val b" by (intro rnd_le_fix) simp_all
  then show ?thesis using huge_pos val_bounds [of b]
    by (simp add: xw fsub_Fin fle_ev ev_js del: val_bounds)
qed (use assms huge_pos in \<open>simp_all add: fsub_def js_Fin rnd_minus_fix val_lt_huge fle_ev\<close>)

lemma fabs_nonneg: "a \<noteq> NaN \<Longrightarrow> fle (js 0) (fabs a)"
proof (cases a)
  case (Fin x)
  have "0 \<le> rnd \<bar>val x\<bar>" by (rule rnd_nonneg) simp
  then show ?thesis using huge_pos by (simp add: Fin fle_ev ev_js rnd_0)
qed (simp_all add: fle_ev huge_pos less_imp_le)


lemma fadd_ge_self:
  assumes "0 \<le> val c" "s \<noteq> NaN"
  shows "fle s (fadd s (Fin c))"
proof (cases s)
  case (Fin x)
  have "val x \<le> rnd (val x + val c)" using assms(1) by (intro rnd_ge_fix) simp_all
  then show ?thesis using huge_pos val_bounds [of x]
    by (simp add: Fin fle_ev ev_js del: val_bounds)
qed (use assms in simp_all)

lemma fdiv_mono:
  assumes "fle a b" "0 < val c"
  shows "fle (fdiv a (Fin c)) (fdiv b (Fin c))"
proof (cases a; cases b)
  fix x y assume ab: "a = Fin x" "b = Fin y"
  with assms have "val x / val c \<le> val y / val c" by (simp add: divide_right_mono)
  then have "fle (js (val x / val c)) (js (val y / val c))" by (rule js_mono)
  then show ?thesis using assms(2) by (simp add: ab)
next
  fix x assume ab: "a = Fin x" "b = PosInf"
  show ?thesis using assms(2) huge_pos by (simp add: ab fle_ev)
next
  fix y assume ab: "a = NegInf" "b = Fin y"
  show ?thesis using assms(2) huge_pos by (simp add: ab fle_ev)
qed (use assms in simp_all)

lemma fmin_cases:
  "fmin a b = NaN \<and> (a = NaN \<or> b = NaN) \<or>
   a \<noteq> NaN \<and> b \<noteq> NaN \<and> (fmin a b = a \<and> fle a b \<or> fmin a b = b \<and> flt b a)"
  using huge_pos by (cases a; cases b) (auto simp: fmin_def)

lemma fmin_le_right: "a \<noteq> NaN \<Longrightarrow> b \<noteq> NaN \<Longrightarrow> fle (fmin a b) b"
  using huge_pos by (cases a; cases b) (auto simp: fmin_def)

lemma fle_refl: "a \<noteq> NaN \<Longrightarrow> fle a a"
  by (cases a) simp_all

lemma fle_trans: "fle a b \<Longrightarrow> fle b c \<Longrightarrow> fle a c"
  by (frule fle_not_NaN, frule fle_not_NaN [of b c]) (simp add: fle_ev)

lemma flt_fle_trans: "flt a b \<Longrightarrow> fle b c \<Longrightarrow> flt a c"
  by (frule flt_not_NaN, frule fle_not_NaN [of b c]) (simp add: fle_ev flt_ev)

lemma fle_flt_trans: "fle a b \<Longrightarrow> flt b c \<Longrightarrow> flt a c"
  by (frule fle_not_NaN, frule flt_not_NaN [of b c]) (simp add: fle_ev flt_ev)

lemma flt_imp_fle: "flt a b \<Longrightarrow> fle a b"
  by (frule flt_not_NaN) (simp add: fle_ev flt_ev)

lemma not_fle_iff: "a \<noteq> NaN \<Longrightarrow> b \<noteq> NaN \<Longrightarrow> \<not> fle a b \<longleftrightarrow> flt b a"
  by (auto simp: fle_ev flt_ev)

lemma fabs_not_NaN: "a \<noteq> NaN \<Longrightarrow> fabs a \<noteq> NaN"
  by (cases a) simp_all

lemma fabs_NaN_iff: "fabs a = NaN \<longleftrightarrow> a = NaN"
  by (cases a) simp_all

lemma clamp_range:
  assumes "fgt (fabs x) (js B)" "0 \<le> B" "rnd B = B" "B < huge"
  shows "fmax (js (- B)) (fmin (js B) x) = (if flt (js 0) x then js B else js (- B))"
    and "fle (js (- B)) (fmax (js (- B)) (fmin (js B) x))"
    and "fle (fmax (js (- B)) (fmin (js B) x)) (js B)"
proof -
  have B: "js B = Fin (dbl B)" "val (dbl B) = B" "js (- B) = Fin (dbl (- B))" "val (dbl (- B)) = - B"
    using assms(2-4) huge_pos by (simp_all add: js_Fin val_dbl rnd_minus_fix)
  have z: "js 0 = Fin (dbl 0)" "val (dbl 0) = 0"
    using huge_pos by (simp_all add: js_Fin val_dbl rnd_0)
  show "fmax (js (- B)) (fmin (js B) x) = (if flt (js 0) x then js B else js (- B))"
    using assms huge_pos
    by (cases x) (auto simp: B z fgt_def fmax_def fmin_def flt_ev ev_js rnd_abs_fix abs_if split: if_splits)
  then show "fle (js (- B)) (fmax (js (- B)) (fmin (js B) x))"
    and "fle (fmax (js (- B)) (fmin (js B) x)) (js B)"
    using assms(2) by (simp_all add: B)
qed


lemma fsub_pos_iff:
  assumes "fsub a b \<noteq> NaN"
  shows "flt (js 0) (fsub a b) \<longleftrightarrow> flt b a"
proof (cases a; cases b)
  fix x y assume ab: "a = Fin x" "b = Fin y"
  show ?thesis
  proof (cases "val y < val x")
    case True
    then have "flt b a" by (simp add: ab)
    then show ?thesis using flt_imp_fsub_pos by blast
  next
    case False
    then have "rnd (val x - val y) \<le> 0" by (intro rnd_nonpos) simp
    then show ?thesis using False huge_pos by (simp add: ab fsub_Fin flt_ev ev_js)
  qed
qed (use assms huge_pos in \<open>simp_all add: fsub_def js_Fin rnd_minus_fix val_lt_huge flt_ev\<close>)

lemma js_small:
  assumes "\<bar>q\<bar> \<le> 2 ^ 53"
  shows "js q = Fin (dbl q)" and "val (dbl q) = rnd q" and "\<bar>rnd q\<bar> < huge"
proof -
  have "rnd q \<le> 2 ^ 53" "- (2 ^ 53) \<le> rnd q"
    using assms rnd_le_fix [of q "2 ^ 53"] rnd_ge_fix [of "- (2 ^ 53)" q]
      rnd_int [of "2 ^ 53"] rnd_int [of "- (2 ^ 53)"] by (simp_all add: abs_le_iff)
  moreover have "(2::rat) ^ 53 < huge" unfolding huge_def by (rule power_strict_increasing) simp_all
  ultimately show "\<bar>rnd q\<bar> < huge" by (simp add: abs_less_iff)
  then show "js q = Fin (dbl q)" and "val (dbl q) = rnd q" by (simp_all add: js_Fin val_dbl)
qed

lemma js_int:
  assumes "\<bar>i\<bar> \<le> 2 ^ 53"
  shows "js (of_int i) = Fin (dbl (of_int i))" and "val (dbl (of_int i)) = of_int i"
proof -
  have "\<bar>(of_int i :: rat)\<bar> \<le> of_int (2 ^ 53)" using assms by (simp only: of_int_abs [symmetric] of_int_le_iff)
  then have "\<bar>(of_int i :: rat)\<bar> \<le> 2 ^ 53" by simp
  from js_small [OF this] rnd_int [OF assms]
  show "js (of_int i) = Fin (dbl (of_int i))" and "val (dbl (of_int i)) = of_int i" by simp_all
qed

lemma fmul_minus_one: "fmul d (js (- 1)) = fneg d"
  using js_int [of "- 1"] by (cases d) simp_all

lemma fneg_js_int: "\<bar>i\<bar> \<le> 2 ^ 53 \<Longrightarrow> fneg (js (of_int i)) = js (- of_int i)"
  using js_int [of i] by simp

section \<open>Properties of the game\<close>

subsection \<open>The store and \<open>placeBlock\<close> on a state that passes its guard\<close>

lemma obj_set_obj: "obj (set_obj a b s) a' = (if a' = a \<and> a < length (objs s) then b else obj s a')"
  by (auto simp: obj_def set_obj_def list_update_beyond)

lemma set_obj_fields:
  "stack (set_obj a b s) = stack s" "currentBlock (set_obj a b s) = currentBlock s"
  "direction (set_obj a b s) = direction s" "gameEnded (set_obj a b s) = gameEnded s"
  "isPlacingBlock (set_obj a b s) = isPlacingBlock s" "score (set_obj a b s) = score s"
  "speed (set_obj a b s) = speed s" "lastTime (set_obj a b s) = lastTime s"
  "camera_position_y (set_obj a b s) = camera_position_y s" "drops (set_obj a b s) = drops s"
  "timeouts (set_obj a b s) = timeouts s" "length (objs (set_obj a b s)) = length (objs s)"
  by (simp_all add: set_obj_def)

lemma placeBlock_guard_passed:
  assumes "currentBlock s = Some c" "\<not> gameEnded s" "\<not> isPlacingBlock s" "stack s \<noteq> []"
    and "c < length (objs s)"
  shows "placeBlock s =
    (let cur = obj s c; x = mesh_position_x cur; w = width cur;
         delta = fsub x (mesh_position_x (obj s (last (stack s)))); overhang = fabs delta
     in if fge overhang w then
          Inr (s\<lparr>isPlacingBlock := True, objs := (objs s)[c := cur\<lparr>moving := False\<rparr>],
                 gameEnded := True\<rparr>)
        else
          Inr (s\<lparr>isPlacingBlock := True,
                 objs := (objs s)[c := cur\<lparr>moving := False,
                      mesh_scale_x := fdiv (fsub w overhang) w,
                      mesh_position_x := fsub x (fdiv delta (js 2)), width := fsub w overhang\<rparr>],
                 drops := drops s @ [\<lparr>drop_width = overhang, drop_depth = depth cur,
                    drop_position_x = fadd (fsub x (fdiv delta (js 2)))
                      (fmul (if fgt delta (js 0) then js 1 else js (- 1))
                         (fadd (fdiv (fsub w overhang) (js 2)) (fdiv overhang (js 2)))),
                    drop_position_y = mesh_position_y cur\<rparr>],
                 stack := stack s @ [c], score := score s + 1,
                 speed := fadd (speed s) SPEED_INCREASE,
                 timeouts := Suc (timeouts s)\<rparr>))"
proof -
  define s2 where "s2 = set_obj c ((obj (s\<lparr>isPlacingBlock := True\<rparr>) c)\<lparr>moving := False\<rparr>) (s\<lparr>isPlacingBlock := True\<rparr>)"
  have px: "mesh_position_x (obj s2 a) = mesh_position_x (obj s a)" for a
    using assms(5) by (simp add: s2_def obj_def set_obj_def nth_list_update)
  have c2: "obj s2 c = (obj s c)\<lparr>moving := False\<rparr>"
    using assms(5) by (simp add: s2_def obj_def set_obj_def)
  have st2: "stack s2 = stack s" by (simp add: s2_def set_obj_def)
  have s2eq: "s2 = s\<lparr>isPlacingBlock := True, objs := (objs s)[c := (obj s c)\<lparr>moving := False\<rparr>]\<rparr>"
    by (simp add: s2_def set_obj_def obj_def)
  have pb: "placeBlock s =
     (if stack s2 = [] then Inl TypeError
               else
                 let prev = obj s2 (last (stack s2));
                     delta = fsub (mesh_position_x (obj s2 c)) (mesh_position_x prev);
                     overhang = fabs delta
                 in if fge overhang (width (obj s2 c)) then Inr (endGame s2)
                    else
                      let newWidth = fsub (width (obj s2 c)) overhang;
                          blockDir = (if fgt delta (js 0) then js 1 else js (- 1));
                          s3 = set_obj c ((obj s2 c)\<lparr>mesh_scale_x := fdiv newWidth (width (obj s2 c))\<rparr>) s2;
                          s4 = set_obj c ((obj s3 c)\<lparr>mesh_position_x := fsub (mesh_position_x (obj s3 c)) (fdiv delta (js 2))\<rparr>) s3;
                          s5 = set_obj c ((obj s4 c)\<lparr>width := newWidth\<rparr>) s4;
                          s6 = createFallingPiece blockDir newWidth overhang c s5;
                          s7 = s6\<lparr>stack := stack s6 @ [c]\<rparr>;
                          s8 = updateScore s7;
                          s9 = increaseDifficulty s8
                      in Inr (s9\<lparr>timeouts := Suc (timeouts s9)\<rparr>))"
    using assms(1-3) by (simp add: placeBlock_def s2_def Let_def)
  show ?thesis
    unfolding pb Let_def px c2 st2
    using assms(4,5)
    apply (simp add: endGame_def createFallingPiece_def updateScore_def increaseDifficulty_def
        obj_set_obj set_obj_fields c2)
    apply (simp add: s2eq set_obj_def obj_def)
    done
qed




subsection \<open>Numbers that are not NaN\<close>

lemma BOUNDS_Fin:
  "BOUNDS = Fin (dbl 5)" "val (dbl 5) = 5" "fneg BOUNDS = Fin (dbl (- 5))" "val (dbl (- 5)) = - 5"
  using js_int [of 5] js_int [of "- 5"] by (simp_all add: BOUNDS_def)

lemma frame_duration: "js (1667 / 100) = Fin (dbl (1667 / 100))" "0 < val (dbl (1667 / 100))"
proof -
  have s: "js (1667 / 100) = Fin (dbl (1667 / 100))" "val (dbl (1667 / 100)) = rnd (1667 / 100)"
    by (rule js_small, simp)+
  have "16 \<le> rnd (1667 / 100)" using rnd_int [of 16] by (intro rnd_ge_fix) simp_all
  then show "js (1667 / 100) = Fin (dbl (1667 / 100))" "0 < val (dbl (1667 / 100))"
    by (simp_all add: s)
qed

lemma SPEED_INCREASE_Fin:
  "SPEED_INCREASE = Fin (dbl (1 / 500))" "0 < val (dbl (1 / 500))" "val (dbl (1 / 500)) \<le> 1"
proof -
  have s: "js (1 / 500) = Fin (dbl (1 / 500))" "val (dbl (1 / 500)) = rnd (1 / 500)"
    by (rule js_small, simp)+
  have "1 / 1024 \<le> rnd (1 / 500)" using rnd_dyadic [of 1 10] by (intro rnd_ge_fix) simp_all
  moreover have "rnd (1 / 500) \<le> 1" using rnd_int [of 1] by (intro rnd_le_fix) simp_all
  ultimately show "SPEED_INCREASE = Fin (dbl (1 / 500))" "0 < val (dbl (1 / 500))"
      "val (dbl (1 / 500)) \<le> 1"
    by (simp_all add: s SPEED_INCREASE_def)
qed

lemma INITIAL_SPEED_Fin:
  "INITIAL_SPEED = Fin (dbl (2 / 25))" "0 < val (dbl (2 / 25))" "val (dbl (2 / 25)) \<le> 1"
proof -
  have s: "js (2 / 25) = Fin (dbl (2 / 25))" "val (dbl (2 / 25)) = rnd (2 / 25)"
    by (rule js_small, simp)+
  have "1 / 16 \<le> rnd (2 / 25)" using rnd_dyadic [of 1 4] by (intro rnd_ge_fix) simp_all
  moreover have "rnd (2 / 25) \<le> 1" using rnd_int [of 1] by (intro rnd_le_fix) simp_all
  ultimately show "INITIAL_SPEED = Fin (dbl (2 / 25))" "0 < val (dbl (2 / 25))"
      "val (dbl (2 / 25)) \<le> 1"
    by (simp_all add: s INITIAL_SPEED_def)
qed

lemma rnd_speed_cap: "rnd 1152921504606846977 = 1152921504606846976"
  using rnd_eval_big_to [of "2 ^ 60 + 1" 8 "2 ^ 52"] by simp

lemma speed_step:
  assumes "0 < val v" "val v \<le> 2 ^ 60"
  shows "\<exists>v'. fadd (Fin v) SPEED_INCREASE = Fin v' \<and> val v \<le> val v' \<and> val v' \<le> 2 ^ 60"
proof -
  define q where "q = val v + val (dbl (1 / 500))"
  have lo: "val v \<le> rnd q" using SPEED_INCREASE_Fin(2) by (intro rnd_ge_fix) (simp_all add: q_def)
  have "q \<le> 2 ^ 60 + 1" using assms(2) SPEED_INCREASE_Fin(3) by (simp add: q_def)
  then have hi: "rnd q \<le> 2 ^ 60" using rnd_mono [of q "2 ^ 60 + 1"] by (simp add: rnd_speed_cap)
  have "(2::rat) ^ 60 < huge" unfolding huge_def by (rule power_strict_increasing) simp_all
  with lo hi assms(1) have fin: "\<bar>rnd q\<bar> < huge" by (simp add: abs_less_iff)
  then have "fadd (Fin v) SPEED_INCREASE = Fin (dbl q)" "val (dbl q) = rnd q"
    by (simp_all add: SPEED_INCREASE_Fin(1) q_def js_Fin val_dbl)
  with lo hi show ?thesis by auto
qed

lemma fsub_Fin_not_NaN: "y \<noteq> NaN \<Longrightarrow> fsub (Fin x) y \<noteq> NaN"
  by (cases y) (simp_all add: fsub_def js_Fin val_lt_huge)

lemma fadd_Fin_not_NaN: "y \<noteq> NaN \<Longrightarrow> fadd (Fin x) y \<noteq> NaN"
  by (cases y) simp_all

lemma fdiv_Fin_not_NaN: "x \<noteq> NaN \<Longrightarrow> val c \<noteq> 0 \<Longrightarrow> fdiv x (Fin c) \<noteq> NaN"
  by (cases x) simp_all

lemma fmul_Fin_not_NaN: "y \<noteq> NaN \<Longrightarrow> val c \<noteq> 0 \<Longrightarrow> fmul (Fin c) y \<noteq> NaN"
  by (cases y) simp_all

lemma fmin_not_NaN: "a \<noteq> NaN \<Longrightarrow> b \<noteq> NaN \<Longrightarrow> fmin a b \<noteq> NaN"
  by (simp add: fmin_def)

lemma halve_not_NaN: "x \<noteq> NaN \<Longrightarrow> fdiv x (js 2) \<noteq> NaN"
  using js_int [of 2] by (intro fdiv_Fin_not_NaN [of x "dbl 2", folded js_int(1) [of 2, simplified]]) simp_all

lemma deltaTime_not_NaN: "deltaTime_of (Fin t) (Fin l) \<noteq> NaN"
proof -
  have "fmin (fsub (Fin t) (Fin l)) (js 100) \<noteq> NaN"
    by (intro fmin_not_NaN) (simp_all add: fsub_Fin)
  then have "fdiv (fmin (fsub (Fin t) (Fin l)) (js 100)) (Fin (dbl (1667 / 100))) \<noteq> NaN"
    using frame_duration(2) by (intro fdiv_Fin_not_NaN) simp_all
  then show ?thesis by (simp add: deltaTime_of_def frame_duration(1))
qed

lemma step_not_NaN:
  assumes "d = js 1 \<or> d = js (- 1)" "0 < val v" "dt \<noteq> NaN"
  shows "fmul (fmul (Fin v) d) dt \<noteq> NaN"
proof -
  from assms(1) have "\<exists>u. fmul (Fin v) d = Fin u \<and> val u \<noteq> 0"
  proof
    assume "d = js 1"
    then have "fmul (Fin v) d = Fin v" using js_int [of 1] by simp
    with assms(2) show ?thesis by auto
  next
    assume "d = js (- 1)"
    then have "fmul (Fin v) d = js (- val v)" using js_int [of "- 1"] by simp
    then have "fmul (Fin v) d = Fin (dbl (- val v))" "val (dbl (- val v)) = - val v"
      by (simp_all add: js_Fin val_dbl val_lt_huge)
    with assms(2) show ?thesis by auto
  qed
  then show ?thesis using assms(3) fmul_Fin_not_NaN by auto
qed

lemma clamped_finite:
  assumes "x \<noteq> NaN"
  shows "\<exists>y. (if fgt (fabs x) BOUNDS then fmax (fneg BOUNDS) (fmin BOUNDS x) else x) = Fin y"
proof (cases "fgt (fabs x) BOUNDS")
  case True
  then have "fgt (fabs x) (js 5)" by (simp add: BOUNDS_def)
  from clamp_range(1) [OF this] huge_pos
  have "fmax (js (- 5)) (fmin (js 5) x) = (if flt (js 0) x then js 5 else js (- 5))"
    using rnd_int [of 5] by (simp add: huge_def)
  then show ?thesis using True js_int [of 5] js_int [of "- 5"] by (simp add: BOUNDS_def)
next
  case False
  with assms show ?thesis
    using huge_pos by (cases x) (simp_all add: fgt_def BOUNDS_Fin flt_ev)
qed

lemma direction_flip: "d = js 1 \<or> d = js (- 1) \<Longrightarrow> fmul d (js (- 1)) = js 1 \<or> fmul d (js (- 1)) = js (- 1)"
  using js_int [of 1] js_int [of "- 1"] by (auto simp: fmul_minus_one)


subsection \<open>An invariant of all runs\<close>

lemma nth_update_same_field:
  "g b = g (xs ! c) \<Longrightarrow> g (xs[c := b] ! a) = g (xs ! a)"
  by (cases "c < length xs"; cases "a = c") (simp_all add: list_update_beyond)

lemma sorted_wrt_last_least:
  "sorted_wrt (\<lambda>lower upper. fle upper lower) xs \<Longrightarrow> xs \<noteq> [] \<Longrightarrow> \<forall>v \<in> set xs. v \<noteq> NaN \<Longrightarrow>
     \<forall>v \<in> set xs. fle (last xs) v"
  by (induction xs) (auto simp: fle_refl)

lemma widths_cong:
  "stack s' = stack s \<Longrightarrow> (\<And>a. a \<in> set (stack s) \<Longrightarrow> width (obj s' a) = width (obj s a)) \<Longrightarrow>
     widths s' = widths s"
  by (simp add: widths_def)

lemma obj_cong: "objs s' = objs s \<Longrightarrow> obj s' a = obj s a"
  by (simp add: obj_def)

lemma increaseDifficulty_funpow:
  "speed ((increaseDifficulty ^^ Suc n) g) = fadd (speed ((increaseDifficulty ^^ n) g)) SPEED_INCREASE"
  by (simp add: increaseDifficulty_def)

lemma js_0_lt_3: "flt (js 0) (js 3)"
  using js_int [of 0] js_int [of 3] by simp

lemma inv_init: "init now = Inr s \<Longrightarrow> inv s"
proof -
  assume "init now = Inr s"
  then have s: "s = \<lparr>objs = [\<lparr>mesh_position_x = js 0, mesh_position_y = js 0, mesh_scale_x = js 1,
                         width = BOX_SIZE, depth = BOX_SIZE, moving = False\<rparr>,
                       \<lparr>mesh_position_x = fneg BOUNDS, mesh_position_y = fmul (js 1) BOX_HEIGHT,
                         mesh_scale_x = js 1, width = BOX_SIZE, depth = BOX_SIZE, moving = True\<rparr>],
     stack = [0], currentBlock = Some 1, direction = js 1,
     gameEnded = False, isPlacingBlock = False, score = 0, speed = INITIAL_SPEED,
     lastTime = Fin now, camera_position_y = CAMERA_OFFSET, drops = [], timeouts = 0\<rparr>"
    by (auto simp: init_def addBlock_def addNewMovingBlock_def gameState0_def obj_def Let_def)
  have "inv_store s" using js_int [of "- 5"] by (simp add: s inv_store_def obj_def BOUNDS_Fin)
  moreover have "inv_widths s" by (simp add: s inv_widths_def widths_def obj_def BOX_SIZE_def js_0_lt_3)
  moreover have "inv_motion s"
  proof -
    have "val (dbl (2 / 25)) \<le> 2 ^ 60" using INITIAL_SPEED_Fin(3) by simp
    with INITIAL_SPEED_Fin(1,2) have "\<exists>v. INITIAL_SPEED = Fin v \<and> 0 < val v \<and> val v \<le> 2 ^ 60"
      by blast
    then show ?thesis by (simp add: s inv_motion_def gameState0_def)
  qed
  ultimately show ?thesis by (simp add: inv_def)
qed

lemma moveCurrentBlock_keeps:
  "stack (moveCurrentBlock d s) = stack s" "currentBlock (moveCurrentBlock d s) = currentBlock s"
  "isPlacingBlock (moveCurrentBlock d s) = isPlacingBlock s" "gameEnded (moveCurrentBlock d s) = gameEnded s"
  "score (moveCurrentBlock d s) = score s" "speed (moveCurrentBlock d s) = speed s"
  "lastTime (moveCurrentBlock d s) = lastTime s"
  "length (objs (moveCurrentBlock d s)) = length (objs s)"
  "width (obj (moveCurrentBlock d s) a) = width (obj s a)"
  "moving (obj (moveCurrentBlock d s) a) = moving (obj s a)"
  by (simp_all add: moveCurrentBlock_def Let_def set_obj_def obj_def nth_update_same_field split: option.split)

lemma moveCurrentBlock_direction:
  "direction (moveCurrentBlock d s) = direction s \<or>
   direction (moveCurrentBlock d s) = fmul (direction s) (js (- 1))"
  by (simp add: moveCurrentBlock_def Let_def set_obj_def split: option.split)

lemma obj_field_updates [simp]:
  "obj (s\<lparr>direction := d\<rparr>) a = obj s a" "obj (s\<lparr>lastTime := t\<rparr>) a = obj s a"
  "obj (s\<lparr>isPlacingBlock := p\<rparr>) a = obj s a" "obj (s\<lparr>gameEnded := e\<rparr>) a = obj s a"
  "obj (s\<lparr>camera_position_y := y\<rparr>) a = obj s a" "obj (s\<lparr>timeouts := n\<rparr>) a = obj s a"
  by (simp_all add: obj_def)

lemma moveCurrentBlock_position:
  "mesh_position_x (obj (moveCurrentBlock d s) a) = mesh_position_x (obj s a) \<or>
   currentBlock s = Some a \<and> moving (obj s a) \<and>
   mesh_position_x (obj (moveCurrentBlock d s) a) =
     (let x1 = fadd (mesh_position_x (obj s a)) (fmul (fmul (speed s) (direction s)) d)
      in if fgt (fabs x1) BOUNDS then fmax (fneg BOUNDS) (fmin BOUNDS x1) else x1)"
  by (simp add: moveCurrentBlock_def Let_def obj_set_obj set_obj_fields split: option.split)

lemma updateCamera_keeps:
  "stack (updateCamera d s) = stack s" "currentBlock (updateCamera d s) = currentBlock s"
  "isPlacingBlock (updateCamera d s) = isPlacingBlock s" "gameEnded (updateCamera d s) = gameEnded s"
  "score (updateCamera d s) = score s" "speed (updateCamera d s) = speed s"
  "lastTime (updateCamera d s) = lastTime s" "direction (updateCamera d s) = direction s"
  "objs (updateCamera d s) = objs s"
  by (simp_all add: updateCamera_def Let_def)

lemma animate_keeps:
  "stack (animate t s) = stack s" "currentBlock (animate t s) = currentBlock s"
  "isPlacingBlock (animate t s) = isPlacingBlock s" "gameEnded (animate t s) = gameEnded s"
  "score (animate t s) = score s" "speed (animate t s) = speed s"
  "lastTime (animate t s) = Fin t"
  "length (objs (animate t s)) = length (objs s)"
  "width (obj (animate t s) a) = width (obj s a)"
  "moving (obj (animate t s) a) = moving (obj s a)"
  by (simp_all add: animate_def updateGame_def Let_def updateCamera_keeps moveCurrentBlock_keeps
      obj_cong [of "updateCamera d s'" "s'" for d s'] obj_cong [of "s\<lparr>lastTime := Fin t\<rparr>" s])

lemma animate_direction:
  "direction (animate t s) = direction s \<or> direction (animate t s) = fmul (direction s) (js (- 1))"
  using moveCurrentBlock_direction [of "deltaTime_of (Fin t) (lastTime s)" "s\<lparr>lastTime := Fin t\<rparr>"]
  by (simp add: animate_def updateGame_def Let_def updateCamera_keeps)

lemma animate_position:
  "mesh_position_x (obj (animate t s) a) = mesh_position_x (obj s a) \<or>
   currentBlock s = Some a \<and> moving (obj s a) \<and>
   mesh_position_x (obj (animate t s) a) =
     (let x1 = fadd (mesh_position_x (obj s a))
                 (fmul (fmul (speed s) (direction s)) (deltaTime_of (Fin t) (lastTime s)))
      in if fgt (fabs x1) BOUNDS then fmax (fneg BOUNDS) (fmin BOUNDS x1) else x1)"
proof (cases "gameEnded s")
  case True
  then show ?thesis by (simp add: animate_def updateGame_def Let_def)
next
  case False
  define dt where "dt = deltaTime_of (Fin t) (lastTime s)"
  define s1 where "s1 = s\<lparr>lastTime := Fin t\<rparr>"
  have "animate t s = updateCamera dt (moveCurrentBlock dt s1)"
    using False by (simp add: animate_def updateGame_def Let_def dt_def s1_def)
  then have "obj (animate t s) a = obj (moveCurrentBlock dt s1) a"
    by (simp add: obj_cong [OF updateCamera_keeps(9)])
  moreover have "obj s1 a = obj s a" "currentBlock s1 = currentBlock s" "speed s1 = speed s"
    "direction s1 = direction s" by (simp_all add: s1_def)
  ultimately show ?thesis
    using moveCurrentBlock_position [of dt s1 a] by (simp add: dt_def)
qed

lemma inv_animate:
  assumes "inv s"
  shows "inv (animate t s)"
proof -
  from assms have st: "inv_store s" and wd: "inv_widths s" and mo: "inv_motion s"
    by (simp_all add: inv_def)
  from mo obtain v l where v: "speed s = Fin v" "0 < val v" and l: "lastTime s = Fin l"
    and d: "direction s = js 1 \<or> direction s = js (- 1)"
    by (auto simp: inv_motion_def)
  have fin: "\<exists>y. mesh_position_x (obj (animate t s) a) = Fin y"
    if "\<exists>x. mesh_position_x (obj s a) = Fin x" for a
  proof -
    from that obtain x where x: "mesh_position_x (obj s a) = Fin x" by blast
    have "fadd (Fin x) (fmul (fmul (Fin v) (direction s)) (deltaTime_of (Fin t) (Fin l))) \<noteq> NaN"
      by (intro fadd_Fin_not_NaN step_not_NaN d v(2) deltaTime_not_NaN)
    from clamped_finite [OF this] animate_position [of t s a] show ?thesis
      by (auto simp: x v l Let_def)
  qed
  have same: "mesh_position_x (obj (animate t s) a) = mesh_position_x (obj s a)"
    if "\<not> moving (obj s a)" for a
    using animate_position [of t s a] that by auto
  have "widths (animate t s) = widths s"
    by (rule widths_cong) (simp_all add: animate_keeps)
  with wd have "inv_widths (animate t s)" by (simp add: inv_widths_def)
  moreover have "inv_motion (animate t s)"
    using mo animate_direction [of t s] direction_flip [OF d]
    by (auto simp: inv_motion_def animate_keeps)
  moreover have "inv_store (animate t s)"
    using st fin same unfolding inv_store_def by (simp add: animate_keeps) blast
  ultimately show ?thesis by (simp add: inv_def)
qed

lemma inv_endGame: "inv s \<Longrightarrow> inv (endGame s)"
  by (simp add: inv_def inv_store_def inv_widths_def inv_motion_def endGame_def widths_def)


lemma inv_timeout:
  assumes "inv s" "timeoutCallback (s\<lparr>timeouts := n\<rparr>) = Inr s'"
  shows "inv s'"
proof (cases "gameEnded s")
  case True
  with assms(2) have "s' = s\<lparr>timeouts := n\<rparr>" by (simp add: timeoutCallback_def)
  with assms(1) show ?thesis
    by (simp add: inv_def inv_store_def inv_widths_def inv_motion_def widths_def)
next
  case False
  from assms(1) have st: "inv_store s" and wd: "inv_widths s" and mo: "inv_motion s"
    by (simp_all add: inv_def)
  from st have ne: "stack s \<noteq> []"
    and valid: "\<forall>a \<in> set (stack s). a < length (objs s) \<and> \<not> moving (obj s a) \<and>
        mesh_position_x (obj s a) \<noteq> NaN"
    by (simp_all add: inv_store_def)
  define blk where "blk = \<lparr>mesh_position_x = fneg BOUNDS,
     mesh_position_y = fmul (js (of_nat (length (stack s)))) BOX_HEIGHT,
     mesh_scale_x = js 1, width = width (obj s (last (stack s))),
     depth = depth (obj s (last (stack s))), moving = True\<rparr>"
  have s': "s' = s\<lparr>timeouts := n, objs := objs s @ [blk],
      currentBlock := Some (length (objs s)), isPlacingBlock := False\<rparr>"
    using assms(2) False ne
    by (simp add: timeoutCallback_def addNewMovingBlock_def addBlock_def Let_def blk_def obj_def)
  have old: "obj s' a = obj s a" if "a \<in> set (stack s)" for a
    using valid that by (simp add: s' obj_def nth_append)
  have new: "obj s' (length (objs s)) = blk" by (simp add: s' obj_def)
  have stk: "stack s' = stack s" by (simp add: s')
  have w: "widths s' = widths s" by (rule widths_cong [OF stk]) (simp add: old)
  have fresh: "length (objs s) \<notin> set (stack s)" using valid by auto
  have "last (stack s) \<in> set (stack s)" using ne by simp
  then have top: "obj s' (last (stack s)) = obj s (last (stack s))" by (rule old)
  have cur: "currentBlock s' = Some (length (objs s))"
    and len: "length (objs s') = Suc (length (objs s))" by (simp_all add: s')
  have "width (obj s' (length (objs s))) = width (obj s' (last (stack s')))"
    by (simp add: new top stk blk_def)
  moreover have "\<exists>x. mesh_position_x (obj s' (length (objs s))) = Fin x"
    using js_int [of "- 5"] by (simp add: new blk_def BOUNDS_Fin)
  moreover have "\<forall>a \<in> set (stack s'). a < length (objs s') \<and> \<not> moving (obj s' a) \<and>
        mesh_position_x (obj s' a) \<noteq> NaN"
    using valid old by (auto simp: stk len)
  ultimately have "inv_store s'"
    using fresh ne by (simp add: inv_store_def stk cur len)
  moreover have "inv_widths s'" using wd by (simp add: inv_widths_def w)
  moreover have "inv_motion s'" using mo by (simp add: inv_motion_def s')
  ultimately show ?thesis by (simp add: inv_def)
qed

lemma inv_placeBlock:
  assumes "inv s" "placeBlock s = Inr s'"
  shows "inv s'"
proof -
  from assms(1) have st: "inv_store s" and wd: "inv_widths s" and mo: "inv_motion s"
    by (simp_all add: inv_def)
  from st obtain c where c: "currentBlock s = Some c" "c < length (objs s)"
      "c \<in> set (stack s) \<longrightarrow> isPlacingBlock s"
      "c \<notin> set (stack s) \<longrightarrow> width (obj s c) = width (obj s (last (stack s))) \<and>
         (\<exists>x. mesh_position_x (obj s c) = Fin x)"
    and ne: "stack s \<noteq> []"
    and valid: "\<forall>a \<in> set (stack s). a < length (objs s) \<and> \<not> moving (obj s a) \<and>
        mesh_position_x (obj s a) \<noteq> NaN"
    by (auto simp: inv_store_def)
  from wd have srt: "sorted_wrt (\<lambda>lower upper. fle upper lower) (widths s)"
    and pos: "\<forall>w \<in> set (widths s). flt (js 0) w"
    by (simp_all add: inv_widths_def)
  show ?thesis
  proof (cases "gameEnded s \<or> isPlacingBlock s")
    case True
    then have "placeBlock s = Inr s" by (auto simp: placeBlock_def c(1))
    with assms show ?thesis by simp
  next
    case False
    then have g: "\<not> gameEnded s" "\<not> isPlacingBlock s" by simp_all
    then have notin: "c \<notin> set (stack s)" using c(3) by auto
    then have wc: "width (obj s c) = width (obj s (last (stack s)))"
      and "\<exists>x. mesh_position_x (obj s c) = Fin x" using c(4) by simp_all
    then obtain xc where xc: "mesh_position_x (obj s c) = Fin xc" by blast
    have top_in: "last (stack s) \<in> set (stack s)" using ne by simp
    define xb where "xb = mesh_position_x (obj s (last (stack s)))"
    have xb: "xb \<noteq> NaN" using valid top_in by (simp add: xb_def)
    define w where "w = width (obj s c)"
    define delta where "delta = fsub (Fin xc) xb"
    have dn: "delta \<noteq> NaN" unfolding delta_def using xb by (rule fsub_Fin_not_NaN)
    have wpos: "flt (js 0) w"
      using pos top_in by (simp add: w_def wc widths_def)
    note pb = placeBlock_guard_passed [OF c(1) g ne c(2), unfolded Let_def xc, folded xb_def w_def,
        folded delta_def]
    show ?thesis
    proof (cases "fge (fabs delta) w")
      case True
      then have s': "s' = s\<lparr>isPlacingBlock := True,
          objs := (objs s)[c := (obj s c)\<lparr>moving := False\<rparr>], gameEnded := True\<rparr>"
        using pb assms(2) by simp
      have stk: "stack s' = stack s" by (simp add: s')
      have wd': "width (obj s' a) = width (obj s a)" for a
        by (simp add: s' obj_def nth_update_same_field)
      have px: "mesh_position_x (obj s' a) = mesh_position_x (obj s a)" for a
        by (simp add: s' obj_def nth_update_same_field)
      have mv: "\<not> moving (obj s' a)" if "\<not> moving (obj s a)" for a
        using that
        by (cases "a = c"; cases "c < length (objs s)") (simp_all add: s' obj_def list_update_beyond)
      have ws: "widths s' = widths s" by (rule widths_cong [OF stk]) (simp add: wd')
      have "currentBlock s' = Some c" "c < length (objs s')" "isPlacingBlock s'"
        using c by (simp_all add: s')
      moreover have "\<forall>a \<in> set (stack s'). a < length (objs s') \<and> \<not> moving (obj s' a) \<and>
          mesh_position_x (obj s' a) \<noteq> NaN"
        using valid mv by (simp add: stk px) (simp add: s')
      ultimately have "inv_store s'"
        using ne notin wc xc by (simp add: inv_store_def stk wd' px)
      moreover have "inv_widths s'" using wd by (simp add: inv_widths_def ws)
      moreover have "inv_motion s'" using mo by (simp add: inv_motion_def s')
      ultimately show ?thesis by (simp add: inv_def)
    next
      case False
      define blk where "blk = (obj s c)\<lparr>moving := False,
          mesh_scale_x := fdiv (fsub w (fabs delta)) w,
          mesh_position_x := fsub (Fin xc) (fdiv delta (js 2)), width := fsub w (fabs delta)\<rparr>"
      from False have s': "s' = s\<lparr>isPlacingBlock := True, objs := (objs s)[c := blk],
                 drops := drops s @ [\<lparr>drop_width = fabs delta, drop_depth = depth (obj s c),
                    drop_position_x = fadd (fsub (Fin xc) (fdiv delta (js 2)))
                      (fmul (if fgt delta (js 0) then js 1 else js (- 1))
                         (fadd (fdiv (fsub w (fabs delta)) (js 2)) (fdiv (fabs delta) (js 2)))),
                    drop_position_y = mesh_position_y (obj s c)\<rparr>],
                 stack := stack s @ [c], score := score s + 1,
                 speed := fadd (speed s) SPEED_INCREASE,
                 timeouts := Suc (timeouts s)\<rparr>"
        using pb assms(2) by (simp add: blk_def)
      have old: "obj s' a = obj s a" if "a \<in> set (stack s)" for a
      proof -
        from that notin have "a \<noteq> c" by auto
        then show ?thesis by (simp add: s' obj_def)
      qed
      have new: "obj s' c = blk" using c(2) by (simp add: s' obj_def)
      have an: "fabs delta \<noteq> NaN" using dn by (rule fabs_not_NaN)
      have wn: "w \<noteq> NaN" using wpos flt_not_NaN by blast
      from False have lt: "flt (fabs delta) w"
        using not_fle_iff [OF wn an] by (simp add: fge_def)
      have nwpos: "flt (js 0) (fsub w (fabs delta))" using lt by (rule flt_imp_fsub_pos)
      have nwle: "fle (fsub w (fabs delta)) w"
        using fabs_nonneg [OF dn] lt by (rule fsub_le_self)
      have ws: "widths s' = widths s @ [fsub w (fabs delta)]"
        using old by (simp add: widths_def s' new blk_def cong: map_cong) (simp add: obj_def blk_def c(2))
      have "last (widths s) = w" using ne wc by (simp add: widths_def w_def last_map)
      moreover have "widths s \<noteq> []" using ne by (simp add: widths_def)
      moreover have "\<forall>v \<in> set (widths s). v \<noteq> NaN" using pos flt_not_NaN by blast
      ultimately have all_ge: "\<forall>v \<in> set (widths s). fle w v"
        using sorted_wrt_last_least [OF srt] by simp
      have "sorted_wrt (\<lambda>lower upper. fle upper lower) (widths s')"
        using srt all_ge nwle by (auto simp: ws sorted_wrt_append intro: fle_trans)
      moreover have "\<forall>v \<in> set (widths s'). flt (js 0) v" using pos nwpos by (auto simp: ws)
      ultimately have "inv_widths s'" by (simp add: inv_widths_def)
      moreover have "inv_store s'"
      proof -
        have "mesh_position_x (obj s' c) \<noteq> NaN"
          unfolding new blk_def by (simp add: fsub_Fin_not_NaN halve_not_NaN dn)
        moreover have "\<not> moving (obj s' c)" by (simp add: new blk_def)
        moreover have "\<forall>a \<in> set (stack s). a < length (objs s') \<and> \<not> moving (obj s' a) \<and>
            mesh_position_x (obj s' a) \<noteq> NaN"
          using valid old by (simp add: s')
        moreover have "currentBlock s' = Some c" "c < length (objs s')" "isPlacingBlock s'"
          "stack s' = stack s @ [c]" using c by (simp_all add: s')
        ultimately show ?thesis by (simp add: inv_store_def)
      qed
      moreover have "inv_motion s'"
      proof -
        from mo obtain v where v: "speed s = Fin v" "0 < val v" "val v \<le> 2 ^ 60"
          by (auto simp: inv_motion_def)
        from speed_step [OF v(2,3)] obtain v' where v': "fadd (Fin v) SPEED_INCREASE = Fin v'"
          "val v \<le> val v'" "val v' \<le> 2 ^ 60" by blast
        with v(2) have "\<exists>u. fadd (speed s) SPEED_INCREASE = Fin u \<and> 0 < val u \<and> val u \<le> 2 ^ 60"
          by (auto simp: v(1))
        then have sp: "\<exists>u. speed s' = Fin u \<and> 0 < val u \<and> val u \<le> 2 ^ 60" by (simp add: s')
        have dir: "direction s' = js 1 \<or> direction s' = js (- 1)"
          and lt: "\<exists>t. lastTime s' = Fin t"
          and len: "Suc (score s') = length (stack s')"
          using mo by (simp_all add: inv_motion_def s')
        have "speed ((increaseDifficulty ^^ Suc (score s)) gameState0) =
            fadd (speed s) SPEED_INCREASE"
          unfolding increaseDifficulty_funpow using mo by (simp add: inv_motion_def)
        then have it: "speed ((increaseDifficulty ^^ score s') gameState0) = speed s'"
          by (simp add: s')
        from dir sp lt len it show ?thesis unfolding inv_motion_def by blast
      qed
      ultimately show ?thesis by (simp add: inv_def)
    qed
  qed
qed

lemma inv_fire: "inv s \<Longrightarrow> fire e s = Inr s' \<Longrightarrow> inv s'"
  by (auto simp: fire_def handleInput_def split: event.splits inputEvent.splits if_splits
      intro: inv_animate inv_endGame inv_timeout inv_placeBlock)

lemma inv_run: "inv s \<Longrightarrow> run es s = Inr s' \<Longrightarrow> inv s'"
  by (induction es arbitrary: s) (auto split: sum.splits dest: inv_fire)

text \<open>No callback throws in a state of a run.\<close>

lemma inv_no_error: "inv s \<Longrightarrow> \<exists>s'. fire e s = Inr s'"
  by (auto simp: inv_def inv_store_def fire_def handleInput_def placeBlock_def timeoutCallback_def
      addNewMovingBlock_def addBlock_def Let_def set_obj_def
      split: event.splits inputEvent.splits option.splits)

lemma reachable_inv: "reachable s \<Longrightarrow> inv s"
  using inv_init inv_run unfolding reachable_def by blast


subsection \<open>The flag \<open>gameEnded\<close>\<close>

lemma fire_gameEnded: "gameEnded s \<Longrightarrow> fire e s = Inr s' \<Longrightarrow> gameEnded s'"
  by (auto simp: fire_def animate_def updateGame_def handleInput_def placeBlock_def
      timeoutCallback_def endGame_def Let_def
      split: event.splits inputEvent.splits option.splits if_splits)

lemma run_gameEnded: "gameEnded s \<Longrightarrow> run es s = Inr s' \<Longrightarrow> gameEnded s'"
proof (induction es arbitrary: s)
  case Nil
  then show ?case by simp
next
  case (Cons e es)
  then show ?case by (auto split: sum.splits dest: fire_gameEnded)
qed

subsection \<open>Score and speed\<close>

lemma cmp_NaN [simp]: "\<not> flt a NaN" "\<not> flt NaN a" "\<not> fle a NaN" "\<not> fle NaN a"
  by (cases a; simp)+

lemma fle_not_flt: "fle a b \<Longrightarrow> \<not> flt b a"
  by (frule fle_not_NaN) (simp add: fle_ev flt_ev)

lemma flt_not_fle: "flt a b \<Longrightarrow> \<not> fle b a"
  by (frule flt_not_NaN) (simp add: fle_ev flt_ev)

lemma placeBlock_score_speed:
  assumes "inv s" "placeBlock s = Inr s'"
  shows "score s' = score s \<and> speed s' = speed s \<or>
         score s' = score s + 1 \<and> speed s' = fadd (speed s) SPEED_INCREASE \<and> fle (speed s) (speed s')"
proof -
  from assms(1) obtain c v where c: "currentBlock s = Some c" "c < length (objs s)"
    and ne: "stack s \<noteq> []" and v: "speed s = Fin v"
    by (auto simp: inv_def inv_store_def inv_motion_def)
  show ?thesis
  proof (cases "gameEnded s \<or> isPlacingBlock s")
    case True
    then have "placeBlock s = Inr s" by (auto simp: placeBlock_def c(1))
    with assms(2) show ?thesis by simp
  next
    case False
    then have g: "\<not> gameEnded s" "\<not> isPlacingBlock s" by simp_all
    have "fle (speed s) (fadd (speed s) SPEED_INCREASE)"
      unfolding SPEED_INCREASE_Fin(1) using SPEED_INCREASE_Fin(2) by (intro fadd_ge_self) (simp_all add: v)
    then show ?thesis
      using assms(2) unfolding placeBlock_guard_passed [OF c(1) g ne c(2)] Let_def
      by (auto split: if_splits)
  qed
qed

lemma fire_score_speed:
  assumes "inv s" "fire e s = Inr s'"
  shows "score s' = score s \<and> speed s' = speed s \<or>
         score s' = score s + 1 \<and> speed s' = fadd (speed s) SPEED_INCREASE \<and> fle (speed s) (speed s')"
proof (cases e)
  case (Frame t)
  with assms(2) show ?thesis by (auto simp: fire_def animate_keeps)
next
  case (Input i)
  with assms(2) have "s' = s \<or> placeBlock s = Inr s'"
    by (auto simp: fire_def handleInput_def split: inputEvent.splits if_splits)
  with placeBlock_score_speed [OF assms(1)] show ?thesis by auto
next
  case Timeout
  with assms(2) show ?thesis
    by (auto simp: fire_def timeoutCallback_def addNewMovingBlock_def addBlock_def Let_def
        split: if_splits)
next
  case Terminate
  with assms(2) show ?thesis by (auto simp: fire_def endGame_def)
qed

subsection \<open>Evaluating arithmetic on given numbers\<close>

lemma js_arith:
  assumes "\<bar>a\<bar> \<le> 2 ^ 53" "\<bar>b\<bar> \<le> 2 ^ 53"
  shows "fadd (js a) (js b) = js (rnd a + rnd b)"
    and "fsub (js a) (js b) = js (rnd a - rnd b)"
    and "fmul (js a) (js b) = js (rnd a * rnd b)"
    and "fdiv (js a) (js b) =
      (if rnd b = 0 then (if rnd a = 0 then NaN else if 0 < rnd a then PosInf else NegInf)
       else js (rnd a / rnd b))"
    and "flt (js a) (js b) \<longleftrightarrow> rnd a < rnd b"
    and "fle (js a) (js b) \<longleftrightarrow> rnd a \<le> rnd b"
    and "fmin (js a) (js b) = (if rnd b < rnd a then js b else js a)"
    and "fmax (js a) (js b) = (if rnd a < rnd b then js b else js a)"
    and "js a = js b \<longleftrightarrow> rnd a = rnd b"
  using js_small [OF assms(1)] js_small [OF assms(2)]
  by (simp_all add: fsub_Fin fmin_def fmax_def val_inject [symmetric])

lemma js_arith1:
  assumes "\<bar>a\<bar> \<le> 2 ^ 53"
  shows "fabs (js a) = js \<bar>rnd a\<bar>" and "fneg (js a) = js (- rnd a)"
  using js_small [OF assms] by simp_all

lemmas js_eval = js_arith js_arith1 fgt_def fge_def

lemma rnd_numeral: "numeral n \<le> (2::int) ^ 53 \<Longrightarrow> rnd (numeral n) = numeral n"
  using rnd_int [of "numeral n"] by simp

lemma rnd_neg_numeral: "numeral n \<le> (2::int) ^ 53 \<Longrightarrow> rnd (- numeral n) = - numeral n"
  using rnd_int [of "- numeral n"] by simp

lemma rnd_1: "rnd 1 = 1" "rnd (- 1) = - 1"
  using rnd_int [of 1] rnd_int [of "- 1"] by simp_all

lemma rnd_half: "rnd (1 / 2) = 1 / 2" "rnd (- (1 / 2)) = - (1 / 2)"
  using rnd_dyadic [of 1 1] rnd_dyadic [of "- 1" 1] by simp_all

lemma rnd_numeral_half:
  "numeral n \<le> (2::int) ^ 53 \<Longrightarrow> rnd (numeral n / 2) = numeral n / 2"
  "numeral n \<le> (2::int) ^ 53 \<Longrightarrow> rnd (- (numeral n / 2)) = - (numeral n / 2)"
  using rnd_dyadic [of "numeral n" 1] rnd_dyadic [of "- numeral n" 1] by simp_all

lemma Fin_dbl: "\<bar>q\<bar> \<le> 2 ^ 53 \<Longrightarrow> Fin (dbl q) = js q"
  by (simp add: js_small(1))

lemma ev_js_small: "\<bar>q\<bar> \<le> 2 ^ 53 \<Longrightarrow> ev (js q) = rnd q"
  by (simp add: js_small)

lemmas rnd_small = rnd_numeral rnd_neg_numeral rnd_1 rnd_half rnd_numeral_half

lemmas CONFIG_defs = BOX_SIZE_def BOX_HEIGHT_def INITIAL_SPEED_def SPEED_INCREASE_def
  CAMERA_OFFSET_def BOUNDS_def CAMERA_SPEED_def

lemma init_scenario: "init (dbl 0) = Inr (scenario (fneg BOUNDS))"
  by (simp add: init_def addBlock_def addNewMovingBlock_def gameState0_def scenario_def obj_def
      Let_def Fin_dbl) (simp add: CONFIG_defs js_eval rnd_small)

subsection \<open>The error of one rounding\<close>

lemma rnd_nearest:
  assumes "rnd r = r"
  shows "\<bar>rnd x - x\<bar> \<le> \<bar>r - x\<bar>"
proof -
  from assms have "repr_units (r * unit_scale)" by (simp add: rnd_fix_iff)
  then have "\<bar>of_int (round_units (x * unit_scale)) - x * unit_scale\<bar> \<le> \<bar>r * unit_scale - x * unit_scale\<bar>"
    by (rule round_units_nearest)
  then have "\<bar>rnd x * unit_scale - x * unit_scale\<bar> \<le> \<bar>r * unit_scale - x * unit_scale\<bar>"
    unfolding rnd_units .
  then have "\<bar>(rnd x - x) * unit_scale\<bar> \<le> \<bar>(r - x) * unit_scale\<bar>"
    by (simp only: left_diff_distrib)
  then have "\<bar>rnd x - x\<bar> * unit_scale \<le> \<bar>r - x\<bar> * unit_scale"
    using unit_scale_pos by (simp add: abs_mult)
  then show ?thesis using unit_scale_pos by simp
qed

text \<open>Below \<open>2\<^bsup>53 - k\<^esup>\<close> the doubles are at most \<open>2\<^bsup>-k\<^esup>\<close> apart, so rounding moves a
  number there by at most half of that.\<close>

lemma rnd_error:
  assumes "\<bar>x\<bar> \<le> 2 ^ 53 / 2 ^ k" "k \<le> 1074"
  shows "\<bar>rnd x - x\<bar> \<le> 1 / (2 * 2 ^ k)"
proof -
  define q where "q = x * 2 ^ k"
  define m where "m = rne q"
  have "\<bar>q\<bar> \<le> 2 ^ 53" using assms(1) by (simp add: q_def abs_mult pos_le_divide_eq)
  then have "q \<le> of_int (2 ^ 53)" "of_int (- (2 ^ 53)) \<le> q" by (simp_all add: abs_le_iff)
  then have "m \<le> 2 ^ 53" "- (2 ^ 53) \<le> m" unfolding m_def using rne_le rne_ge by blast+
  then have m: "\<bar>m\<bar> \<le> 2 ^ 53" by linarith
  have "\<bar>of_int m - q\<bar> \<le> \<bar>of_int (round q) - q\<bar>" unfolding m_def by (rule rne_nearest)
  also have "\<dots> \<le> 1 / 2" by (rule of_int_round_abs_le)
  finally have half: "\<bar>of_int m - q\<bar> \<le> 1 / 2" .
  have "of_int m / 2 ^ k - x = (of_int m - q) / 2 ^ k" by (simp add: q_def diff_divide_distrib)
  then have "\<bar>of_int m / 2 ^ k - x\<bar> = \<bar>of_int m - q\<bar> / 2 ^ k" by simp
  also have "\<dots> \<le> (1 / 2) / 2 ^ k" using half by (intro divide_right_mono) simp_all
  finally have "\<bar>of_int m / 2 ^ k - x\<bar> \<le> 1 / (2 * 2 ^ k)" by simp
  with rnd_nearest [OF rnd_dyadic [OF m assms(2)], of x] show ?thesis by linarith
qed

lemma rnd_error_small:
  "\<bar>x\<bar> \<le> 2 \<Longrightarrow> \<bar>rnd x - x\<bar> \<le> 1 / 2 ^ 53"
  "\<bar>x\<bar> \<le> 4 \<Longrightarrow> \<bar>rnd x - x\<bar> \<le> 1 / 2 ^ 52"
  "\<bar>x\<bar> \<le> 8 \<Longrightarrow> \<bar>rnd x - x\<bar> \<le> 1 / 2 ^ 51"
  "\<bar>x\<bar> \<le> 16 \<Longrightarrow> \<bar>rnd x - x\<bar> \<le> 1 / 2 ^ 50"
  using rnd_error [of x 52] rnd_error [of x 51] rnd_error [of x 50] rnd_error [of x 49]
  by simp_all

lemma rnd_bounded:
  assumes "\<bar>x\<bar> \<le> B" "rnd B = B"
  shows "\<bar>rnd x\<bar> \<le> B"
proof -
  from assms(1) have le: "x \<le> B" and ge: "- B \<le> x" by (simp_all add: abs_le_iff)
  from le assms(2) have "rnd x \<le> B" by (rule rnd_le_fix)
  moreover from ge rnd_minus_fix [OF assms(2)] have "- B \<le> rnd x" by (rule rnd_ge_fix)
  ultimately show ?thesis by (simp add: abs_le_iff)
qed

subsection \<open>The roundings of a placement\<close>

text \<open>
  The numbers a successful placement computes from the position \<open>P\<close> and the width \<open>W\<close> of
  the moving block and the offset \<open>d\<close> from the block beneath it, when \<open>|P| \<le> 5\<close> and
  \<open>|d| < W \<le> 3\<close>: how large the exact results are, and how far the rounded results are from
  an exact partition.
\<close>

lemma trim_rounded:
  fixes P W d :: rat
  assumes P: "\<bar>P\<bar> \<le> 5" and d: "\<bar>d\<bar> < W" and W: "W \<le> 3"
    and nw: "nw = rnd (W - \<bar>d\<bar>)" and h: "h = rnd (d / 2)" and K: "K = rnd (P - h)"
    and a: "a = rnd (nw / 2)" and b: "b = rnd (\<bar>d\<bar> / 2)" and s: "s = rnd (a + b)"
    and D: "D = rnd (K + (if 0 < d then s else - s))"
  shows "\<bar>W - \<bar>d\<bar>\<bar> \<le> 3" "\<bar>d / 2\<bar> \<le> 3 / 2" "\<bar>P - h\<bar> \<le> 13 / 2" "\<bar>nw / 2\<bar> \<le> 3 / 2"
    "\<bar>\<bar>d\<bar> / 2\<bar> \<le> 3 / 2" "\<bar>a + b\<bar> \<le> 3" "\<bar>K + (if 0 < d then s else - s)\<bar> \<le> 19 / 2"
    and "\<bar>nw + \<bar>d\<bar> - W\<bar> \<le> 1 / 2 ^ 52"
    and "partition_within (1 / 2 ^ 48) K nw D \<bar>d\<bar> P W"
proof -
  have f3: "rnd 3 = 3" and f32: "rnd (3 / 2) = 3 / 2" and f132: "rnd (13 / 2) = 13 / 2"
    by (simp_all add: rnd_small)
  show x1: "\<bar>W - \<bar>d\<bar>\<bar> \<le> 3" using d W by linarith
  then have nwb: "\<bar>nw\<bar> \<le> 3" unfolding nw using f3 by (rule rnd_bounded)
  from x1 have e2: "\<bar>nw - (W - \<bar>d\<bar>)\<bar> \<le> 1 / 2 ^ 52" unfolding nw by (intro rnd_error_small(2)) simp
  show x2: "\<bar>d / 2\<bar> \<le> 3 / 2" using d W by simp
  then have hb: "\<bar>h\<bar> \<le> 3 / 2" unfolding h using f32 by (rule rnd_bounded)
  from x2 have e3: "\<bar>h - d / 2\<bar> \<le> 1 / 2 ^ 53" unfolding h by (intro rnd_error_small(1)) simp
  show x3: "\<bar>P - h\<bar> \<le> 13 / 2" using P hb by linarith
  then have Kb: "\<bar>K\<bar> \<le> 13 / 2" unfolding K using f132 by (rule rnd_bounded)
  from x3 have e4: "\<bar>K - (P - h)\<bar> \<le> 1 / 2 ^ 51" unfolding K by (intro rnd_error_small(3)) simp
  show x4: "\<bar>nw / 2\<bar> \<le> 3 / 2" using nwb by simp
  then have ab: "\<bar>a\<bar> \<le> 3 / 2" unfolding a using f32 by (rule rnd_bounded)
  from x4 have e5: "\<bar>a - nw / 2\<bar> \<le> 1 / 2 ^ 53" unfolding a by (intro rnd_error_small(1)) simp
  show x5: "\<bar>\<bar>d\<bar> / 2\<bar> \<le> 3 / 2" using d W by simp
  then have bb: "\<bar>b\<bar> \<le> 3 / 2" unfolding b using f32 by (rule rnd_bounded)
  from x5 have e6: "\<bar>b - \<bar>d\<bar> / 2\<bar> \<le> 1 / 2 ^ 53" unfolding b by (intro rnd_error_small(1)) simp
  show x6: "\<bar>a + b\<bar> \<le> 3" using ab bb by linarith
  then have sb: "\<bar>s\<bar> \<le> 3" unfolding s using f3 by (rule rnd_bounded)
  from x6 have e7: "\<bar>s - (a + b)\<bar> \<le> 1 / 2 ^ 52" unfolding s by (intro rnd_error_small(2)) simp
  have "\<bar>K + s\<bar> \<le> 19 / 2" "\<bar>K + - s\<bar> \<le> 19 / 2" using Kb sb by linarith+
  then show x7: "\<bar>K + (if 0 < d then s else - s)\<bar> \<le> 19 / 2" by (simp split: if_split)
  then have e8: "\<bar>D - (K + (if 0 < d then s else - s))\<bar> \<le> 1 / 2 ^ 50"
    unfolding D by (intro rnd_error_small(4)) simp
  show "\<bar>nw + \<bar>d\<bar> - W\<bar> \<le> 1 / 2 ^ 52" using e2 by (simp add: algebra_simps)
  define u :: rat where "u = 1 / 2 ^ 53"
  have u: "1 / 2 ^ 53 = u" "1 / 2 ^ 52 = 2 * u" "1 / 2 ^ 51 = 4 * u" "1 / 2 ^ 50 = 8 * u"
    "1 / 2 ^ 48 = 32 * u" and u0: "0 \<le> u"
    by (simp_all add: u_def)
  note e = e2 [unfolded u] e3 [unfolded u] e4 [unfolded u] e5 [unfolded u] e6 [unfolded u]
    e7 [unfolded u]
  have e1: "\<bar>nw + \<bar>d\<bar> - W\<bar> \<le> 32 * u" using e(1) u0 by linarith
  show "partition_within (1 / 2 ^ 48) K nw D \<bar>d\<bar> P W"
  proof (cases "0 < d")
    case True
    then have D': "\<bar>D - (K + s)\<bar> \<le> 8 * u" and ad: "\<bar>d\<bar> = d" using e8 [unfolded u] by simp_all
    have "\<bar>(K - nw / 2) - (P - W / 2)\<bar> \<le> 32 * u"
      using e(1-3) u0 unfolding ad by linarith
    moreover have "\<bar>(D - d / 2) - (K + nw / 2)\<bar> \<le> 32 * u"
      using e(4-6) D' u0 unfolding ad by linarith
    moreover have "\<bar>(D + d / 2) - (P + W / 2)\<bar> \<le> 32 * u"
      using e D' u0 unfolding ad by linarith
    ultimately show ?thesis using e1 unfolding partition_within_def ad u by blast
  next
    case False
    then have D': "\<bar>D - (K + - s)\<bar> \<le> 8 * u" and ad: "\<bar>d\<bar> = - d" using e8 [unfolded u] by simp_all
    have "\<bar>(D - - d / 2) - (P - W / 2)\<bar> \<le> 32 * u"
      using e D' u0 unfolding ad by linarith
    moreover have "\<bar>(K - nw / 2) - (D + - d / 2)\<bar> \<le> 32 * u"
      using e(4-6) D' u0 unfolding ad by linarith
    moreover have "\<bar>(K + nw / 2) - (P + W / 2)\<bar> \<le> 32 * u"
      using e(1-3) u0 unfolding ad by linarith
    ultimately show ?thesis using e1 unfolding partition_within_def ad u by blast
  qed
qed

subsection \<open>Blocks within the bounds\<close>

lemma clamped_within:
  assumes "x \<noteq> NaN"
  shows "fle (fabs (if fgt (fabs x) BOUNDS then fmax (fneg BOUNDS) (fmin BOUNDS x) else x)) BOUNDS"
proof (cases "fgt (fabs x) BOUNDS")
  case True
  then have "fgt (fabs x) (js 5)" by (simp add: BOUNDS_def)
  from clamp_range(1) [OF this] huge_pos
  have "fmax (js (- 5)) (fmin (js 5) x) = (if flt (js 0) x then js 5 else js (- 5))"
    using rnd_int [of 5] by (simp add: huge_def)
  then show ?thesis using True js_int [of 5] js_int [of "- 5"] by (simp add: BOUNDS_def)
next
  case False
  have "fabs x \<noteq> NaN" using assms by (rule fabs_not_NaN)
  moreover have "BOUNDS \<noteq> NaN" by (simp add: BOUNDS_def)
  ultimately show ?thesis using False not_fle_iff [of "fabs x" BOUNDS] by (auto simp: fgt_def)
qed

lemma spawn_within: "fle (fabs (fneg BOUNDS)) BOUNDS"
  using js_int [of 5] js_int [of "- 5"] by (simp add: BOUNDS_def)

lemma bounds_init: "init now = Inr s \<Longrightarrow> inv_bounds s"
proof -
  assume "init now = Inr s"
  then have s: "s = \<lparr>objs = [\<lparr>mesh_position_x = js 0, mesh_position_y = js 0, mesh_scale_x = js 1,
                         width = BOX_SIZE, depth = BOX_SIZE, moving = False\<rparr>,
                       \<lparr>mesh_position_x = fneg BOUNDS, mesh_position_y = fmul (js 1) BOX_HEIGHT,
                         mesh_scale_x = js 1, width = BOX_SIZE, depth = BOX_SIZE, moving = True\<rparr>],
     stack = [0], currentBlock = Some 1, direction = js 1,
     gameEnded = False, isPlacingBlock = False, score = 0, speed = INITIAL_SPEED,
     lastTime = Fin now, camera_position_y = CAMERA_OFFSET, drops = [], timeouts = 0\<rparr>"
    by (auto simp: init_def addBlock_def addNewMovingBlock_def gameState0_def obj_def Let_def)
  have "fle BOX_SIZE BOX_SIZE" using js_int [of 3] by (simp add: BOX_SIZE_def)
  then show ?thesis using spawn_within by (simp add: s inv_bounds_def widths_def obj_def)
qed

lemma bounds_animate:
  assumes "inv s" "inv_bounds s"
  shows "inv_bounds (animate t s)"
proof -
  from assms(1) have st: "inv_store s" and mo: "inv_motion s" by (simp_all add: inv_def)
  from mo obtain v l where v: "speed s = Fin v" "0 < val v" and l: "lastTime s = Fin l"
    and d: "direction s = js 1 \<or> direction s = js (- 1)"
    by (auto simp: inv_motion_def)
  have "widths (animate t s) = widths s"
    by (rule widths_cong) (simp_all add: animate_keeps)
  moreover have "fle (fabs (mesh_position_x (obj (animate t s) c))) BOUNDS"
    if c: "currentBlock s = Some c" "c \<notin> set (stack s)" for c
  proof -
    from st c obtain x where x: "mesh_position_x (obj s c) = Fin x" by (auto simp: inv_store_def)
    from assms(2) c have old: "fle (fabs (mesh_position_x (obj s c))) BOUNDS"
      by (simp add: inv_bounds_def)
    have "fadd (Fin x) (fmul (fmul (Fin v) (direction s)) (deltaTime_of (Fin t) (Fin l))) \<noteq> NaN"
      by (intro fadd_Fin_not_NaN step_not_NaN d v(2) deltaTime_not_NaN)
    from clamped_within [OF this] animate_position [of t s c] old show ?thesis
      by (auto simp: x v l Let_def)
  qed
  ultimately show ?thesis using assms(2) by (simp add: inv_bounds_def animate_keeps)
qed

lemma bounds_timeout:
  assumes "inv s" "inv_bounds s" "timeoutCallback (s\<lparr>timeouts := n\<rparr>) = Inr s'"
  shows "inv_bounds s'"
proof (cases "gameEnded s")
  case True
  with assms(3) have "s' = s\<lparr>timeouts := n\<rparr>" by (simp add: timeoutCallback_def)
  with assms(2) show ?thesis by (simp add: inv_bounds_def widths_def)
next
  case False
  from assms(1) have st: "inv_store s" by (simp add: inv_def)
  then have ne: "stack s \<noteq> []"
    and valid: "\<forall>a \<in> set (stack s). a < length (objs s)"
    by (simp_all add: inv_store_def)
  define blk where "blk = \<lparr>mesh_position_x = fneg BOUNDS,
     mesh_position_y = fmul (js (of_nat (length (stack s)))) BOX_HEIGHT,
     mesh_scale_x = js 1, width = width (obj s (last (stack s))),
     depth = depth (obj s (last (stack s))), moving = True\<rparr>"
  have s': "s' = s\<lparr>timeouts := n, objs := objs s @ [blk],
      currentBlock := Some (length (objs s)), isPlacingBlock := False\<rparr>"
    using assms(3) False ne
    by (simp add: timeoutCallback_def addNewMovingBlock_def addBlock_def Let_def blk_def obj_def)
  have old: "obj s' a = obj s a" if "a \<in> set (stack s)" for a
    using valid that by (simp add: s' obj_def nth_append)
  have new: "obj s' (length (objs s)) = blk" by (simp add: s' obj_def)
  have stk: "stack s' = stack s" by (simp add: s')
  have w: "widths s' = widths s" by (rule widths_cong [OF stk]) (simp add: old)
  have cur: "currentBlock s' = Some (length (objs s))" by (simp add: s')
  show ?thesis
    using assms(2) spawn_within by (simp add: inv_bounds_def w cur new blk_def)
qed

lemma bounds_placeBlock:
  assumes "inv s" "inv_bounds s" "placeBlock s = Inr s'"
  shows "inv_bounds s'"
proof -
  from assms(1) have st: "inv_store s" and wd: "inv_widths s" by (simp_all add: inv_def)
  from st obtain c where c: "currentBlock s = Some c" "c < length (objs s)"
      "c \<in> set (stack s) \<longrightarrow> isPlacingBlock s"
      "c \<notin> set (stack s) \<longrightarrow> width (obj s c) = width (obj s (last (stack s))) \<and>
         (\<exists>x. mesh_position_x (obj s c) = Fin x)"
    and ne: "stack s \<noteq> []"
    and valid: "\<forall>a \<in> set (stack s). a < length (objs s) \<and> \<not> moving (obj s a) \<and>
        mesh_position_x (obj s a) \<noteq> NaN"
    by (auto simp: inv_store_def)
  from wd have pos: "\<forall>w \<in> set (widths s). flt (js 0) w" by (simp add: inv_widths_def)
  from assms(2) have le: "\<forall>w \<in> set (widths s). fle w BOX_SIZE" by (simp add: inv_bounds_def)
  show ?thesis
  proof (cases "gameEnded s \<or> isPlacingBlock s")
    case True
    then have "placeBlock s = Inr s" by (auto simp: placeBlock_def c(1))
    with assms show ?thesis by simp
  next
    case False
    then have g: "\<not> gameEnded s" "\<not> isPlacingBlock s" by simp_all
    then have notin: "c \<notin> set (stack s)" using c(3) by auto
    then have wc: "width (obj s c) = width (obj s (last (stack s)))"
      and "\<exists>x. mesh_position_x (obj s c) = Fin x" using c(4) by simp_all
    then obtain xc where xc: "mesh_position_x (obj s c) = Fin xc" by blast
    have top_in: "last (stack s) \<in> set (stack s)" using ne by simp
    define xb where "xb = mesh_position_x (obj s (last (stack s)))"
    have xb: "xb \<noteq> NaN" using valid top_in by (simp add: xb_def)
    define w where "w = width (obj s c)"
    define delta where "delta = fsub (Fin xc) xb"
    have dn: "delta \<noteq> NaN" unfolding delta_def using xb by (rule fsub_Fin_not_NaN)
    have wpos: "flt (js 0) w" using pos top_in by (simp add: w_def wc widths_def)
    have wle: "fle w BOX_SIZE" using le top_in by (simp add: w_def wc widths_def)
    note pb = placeBlock_guard_passed [OF c(1) g ne c(2), unfolded Let_def xc, folded xb_def w_def,
        folded delta_def]
    show ?thesis
    proof (cases "fge (fabs delta) w")
      case True
      then have s': "s' = s\<lparr>isPlacingBlock := True,
          objs := (objs s)[c := (obj s c)\<lparr>moving := False\<rparr>], gameEnded := True\<rparr>"
        using pb assms(3) by simp
      have stk: "stack s' = stack s" and cur: "currentBlock s' = currentBlock s" by (simp_all add: s')
      have wd': "width (obj s' a) = width (obj s a)" for a
        by (simp add: s' obj_def nth_update_same_field)
      have px: "mesh_position_x (obj s' a) = mesh_position_x (obj s a)" for a
        by (simp add: s' obj_def nth_update_same_field)
      have ws: "widths s' = widths s" by (rule widths_cong [OF stk]) (simp add: wd')
      show ?thesis using assms(2) by (simp add: inv_bounds_def ws stk cur px)
    next
      case False
      define blk where "blk = (obj s c)\<lparr>moving := False,
          mesh_scale_x := fdiv (fsub w (fabs delta)) w,
          mesh_position_x := fsub (Fin xc) (fdiv delta (js 2)), width := fsub w (fabs delta)\<rparr>"
      from False have s': "s' = s\<lparr>isPlacingBlock := True, objs := (objs s)[c := blk],
                 drops := drops s @ [\<lparr>drop_width = fabs delta, drop_depth = depth (obj s c),
                    drop_position_x = fadd (fsub (Fin xc) (fdiv delta (js 2)))
                      (fmul (if fgt delta (js 0) then js 1 else js (- 1))
                         (fadd (fdiv (fsub w (fabs delta)) (js 2)) (fdiv (fabs delta) (js 2)))),
                    drop_position_y = mesh_position_y (obj s c)\<rparr>],
                 stack := stack s @ [c], score := score s + 1,
                 speed := fadd (speed s) SPEED_INCREASE,
                 timeouts := Suc (timeouts s)\<rparr>"
        using pb assms(3) by (simp add: blk_def)
      have old: "obj s' a = obj s a" if "a \<in> set (stack s)" for a
      proof -
        from that notin have "a \<noteq> c" by auto
        then show ?thesis by (simp add: s' obj_def)
      qed
      have new: "obj s' c = blk" using c(2) by (simp add: s' obj_def)
      have an: "fabs delta \<noteq> NaN" using dn by (rule fabs_not_NaN)
      have wn: "w \<noteq> NaN" using wpos flt_not_NaN by blast
      from False have lt: "flt (fabs delta) w"
        using not_fle_iff [OF wn an] by (simp add: fge_def)
      have nwle: "fle (fsub w (fabs delta)) w"
        using fabs_nonneg [OF dn] lt by (rule fsub_le_self)
      have ws: "widths s' = widths s @ [fsub w (fabs delta)]"
        using old by (simp add: widths_def s' new blk_def cong: map_cong) (simp add: obj_def blk_def c(2))
      have "fle (fsub w (fabs delta)) BOX_SIZE" using nwle wle by (rule fle_trans)
      with le have "\<forall>v \<in> set (widths s'). fle v BOX_SIZE" by (simp add: ws)
      moreover have "currentBlock s' = Some c" "c \<in> set (stack s')" by (simp_all add: s' c(1))
      ultimately show ?thesis by (simp add: inv_bounds_def)
    qed
  qed
qed

lemma bounds_fire: "inv s \<Longrightarrow> inv_bounds s \<Longrightarrow> fire e s = Inr s' \<Longrightarrow> inv_bounds s'"
  by (auto simp: fire_def handleInput_def split: event.splits inputEvent.splits if_splits
      intro: bounds_animate bounds_timeout bounds_placeBlock)
    (simp_all add: inv_bounds_def endGame_def widths_def)

lemma bounds_run: "inv s \<Longrightarrow> inv_bounds s \<Longrightarrow> run es s = Inr s' \<Longrightarrow> inv_bounds s'"
proof (induction es arbitrary: s)
  case Nil
  then show ?case by simp
next
  case (Cons e es)
  from Cons.prems(3) obtain s1 where f: "fire e s = Inr s1" and r: "run es s1 = Inr s'"
    by (auto split: sum.splits)
  from Cons.prems(1) f have "inv s1" by (rule inv_fire)
  moreover from Cons.prems(1,2) f have "inv_bounds s1" by (rule bounds_fire)
  ultimately show ?case using r by (rule Cons.IH)
qed

lemma reachable_bounds: "reachable s \<Longrightarrow> inv_bounds s"
  using inv_init bounds_init bounds_run unfolding reachable_def by blast

subsection \<open>Operations with results of moderate size\<close>

lemma fin_sign:
  "js \<bar>val a\<bar> = Fin (dbl \<bar>val a\<bar>)" "val (dbl \<bar>val a\<bar>) = \<bar>val a\<bar>"
  "fmul (js 1) (Fin a) = Fin a"
  "fmul (js (- 1)) (Fin a) = Fin (dbl (- val a))" "val (dbl (- val a)) = - val a"
  "fgt (Fin a) (js 0) \<longleftrightarrow> 0 < val a"
  using js_int [of 1] js_int [of "- 1"] js_int [of 0]
  by (simp_all add: fgt_def js_Fin val_dbl val_lt_huge)

subsection \<open>Roundings in three computations\<close>

text \<open>
  The doubles nearest to the decimal constants of the script, and the results of the
  operations in the computations below. Each fact gives the rounded value as an integer
  over a power of two.
\<close>

lemma rd0:
  "rnd (5764607523034235 / 72057594037927936) = 5764607523034235 / 72057594037927936"
  "rnd (- (5764607523034235 / 72057594037927936)) = - (5764607523034235 / 72057594037927936)"
  using rnd_dyadic [of "5764607523034235" 56] rnd_dyadic [of "- 5764607523034235" 56] by simp_all

lemma rn0:
  "js (2 / 25) = js (5764607523034235 / 72057594037927936)"
  by (rule js_cong)
    (use rnd_eval_to [of "2 / 25" 56 "5764607523034235"] rd0
     in \<open>simp add: rnd_small\<close>)

lemma rd1:
  "rnd (1152921504606847 / 576460752303423488) = 1152921504606847 / 576460752303423488"
  "rnd (- (1152921504606847 / 576460752303423488)) = - (1152921504606847 / 576460752303423488)"
  using rnd_dyadic [of "1152921504606847" 59] rnd_dyadic [of "- 1152921504606847" 59] by simp_all

lemma rn1:
  "js (1 / 500) = js (1152921504606847 / 576460752303423488)"
  by (rule js_cong)
    (use rnd_eval_to [of "1 / 500" 61 "4611686018427388"] rd1
     in \<open>simp add: rnd_small\<close>)

lemma rd2:
  "rnd (1173046965441659 / 70368744177664) = 1173046965441659 / 70368744177664"
  "rnd (- (1173046965441659 / 70368744177664)) = - (1173046965441659 / 70368744177664)"
  using rnd_dyadic [of "1173046965441659" 46] rnd_dyadic [of "- 1173046965441659" 46] by simp_all

lemma rn2:
  "js (1667 / 100) = js (1173046965441659 / 70368744177664)"
  by (rule js_cong)
    (use rnd_eval_to [of "1667 / 100" 48 "4692187861766636"] rd2
     in \<open>simp add: rnd_small\<close>)

lemmas config_roundings = rn0 rd0 rn1 rd1 rn2 rd2

lemma rd3:
  "rnd (5908722711110091 / 72057594037927936) = 5908722711110091 / 72057594037927936"
  "rnd (- (5908722711110091 / 72057594037927936)) = - (5908722711110091 / 72057594037927936)"
  using rnd_dyadic [of "5908722711110091" 56] rnd_dyadic [of "- 5908722711110091" 56] by simp_all

lemma rn3:
  "js (47269781688880727 / 576460752303423488) = js (5908722711110091 / 72057594037927936)"
  by (rule js_cong)
    (use rnd_eval_to [of "47269781688880727 / 576460752303423488" 56 "5908722711110091"] rd3
     in \<open>simp add: rnd_small\<close>)

lemma rd4:
  "rnd (6052837899185947 / 72057594037927936) = 6052837899185947 / 72057594037927936"
  "rnd (- (6052837899185947 / 72057594037927936)) = - (6052837899185947 / 72057594037927936)"
  using rnd_dyadic [of "6052837899185947" 56] rnd_dyadic [of "- 6052837899185947" 56] by simp_all

lemma rn4:
  "js (48422703193487575 / 576460752303423488) = js (6052837899185947 / 72057594037927936)"
  by (rule js_cong)
    (use rnd_eval_to [of "48422703193487575 / 576460752303423488" 56 "6052837899185947"] rd4
     in \<open>simp add: rnd_small\<close>)

lemma rd5:
  "rnd (6196953087261803 / 72057594037927936) = 6196953087261803 / 72057594037927936"
  "rnd (- (6196953087261803 / 72057594037927936)) = - (6196953087261803 / 72057594037927936)"
  using rnd_dyadic [of "6196953087261803" 56] rnd_dyadic [of "- 6196953087261803" 56] by simp_all

lemma rn5:
  "js (49575624698094423 / 576460752303423488) = js (6196953087261803 / 72057594037927936)"
  by (rule js_cong)
    (use rnd_eval_to [of "49575624698094423 / 576460752303423488" 56 "6196953087261803"] rd5
     in \<open>simp add: rnd_small\<close>)

lemma rd6:
  "rnd (6341068275337659 / 72057594037927936) = 6341068275337659 / 72057594037927936"
  "rnd (- (6341068275337659 / 72057594037927936)) = - (6341068275337659 / 72057594037927936)"
  using rnd_dyadic [of "6341068275337659" 56] rnd_dyadic [of "- 6341068275337659" 56] by simp_all

lemma rn6:
  "js (50728546202701271 / 576460752303423488) = js (6341068275337659 / 72057594037927936)"
  by (rule js_cong)
    (use rnd_eval_to [of "50728546202701271 / 576460752303423488" 56 "6341068275337659"] rd6
     in \<open>simp add: rnd_small\<close>)

lemma rd7:
  "rnd (6485183463413515 / 72057594037927936) = 6485183463413515 / 72057594037927936"
  "rnd (- (6485183463413515 / 72057594037927936)) = - (6485183463413515 / 72057594037927936)"
  using rnd_dyadic [of "6485183463413515" 56] rnd_dyadic [of "- 6485183463413515" 56] by simp_all

lemma rn7:
  "js (51881467707308119 / 576460752303423488) = js (6485183463413515 / 72057594037927936)"
  by (rule js_cong)
    (use rnd_eval_to [of "51881467707308119 / 576460752303423488" 56 "6485183463413515"] rd7
     in \<open>simp add: rnd_small\<close>)

lemma rd8:
  "rnd (3242591731706757 / 36028797018963968) = 3242591731706757 / 36028797018963968"
  "rnd (- (3242591731706757 / 36028797018963968)) = - (3242591731706757 / 36028797018963968)"
  using rnd_dyadic [of "3242591731706757" 55] rnd_dyadic [of "- 3242591731706757" 55] by simp_all

lemma rn8:
  "js (9 / 100) = js (3242591731706757 / 36028797018963968)"
  by (rule js_cong)
    (use rnd_eval_to [of "9 / 100" 56 "6485183463413514"] rd8
     in \<open>simp add: rnd_small\<close>)

lemma rn9:
  "js (9000000000000001 / 100000000000000000) = js (6485183463413515 / 72057594037927936)"
  by (rule js_cong)
    (use rnd_eval_to [of "9000000000000001 / 100000000000000000" 56 "6485183463413515"] rd7
     in \<open>simp add: rnd_small\<close>)

lemma rd9:
  "rnd (5764607523034235 / 576460752303423488) = 5764607523034235 / 576460752303423488"
  "rnd (- (5764607523034235 / 576460752303423488)) = - (5764607523034235 / 576460752303423488)"
  using rnd_dyadic [of "5764607523034235" 59] rnd_dyadic [of "- 5764607523034235" 59] by simp_all

lemma rn10:
  "js (51881467707308115 / 576460752303423488) = js (3242591731706757 / 36028797018963968)"
  by (rule js_cong)
    (use rnd_eval_to [of "51881467707308115 / 576460752303423488" 56 "6485183463413514"] rd8
     in \<open>simp add: rnd_small\<close>)

lemmas speed_roundings = rn3 rd3 rn4 rd4 rn5 rd5 rn6 rd6 rn7 rd7 rn8 rd8 rn9 rd9 rn10

lemma rd10:
  "rnd (2758454771764429 / 562949953421312) = 2758454771764429 / 562949953421312"
  "rnd (- (2758454771764429 / 562949953421312)) = - (2758454771764429 / 562949953421312)"
  using rnd_dyadic [of "2758454771764429" 49] rnd_dyadic [of "- 2758454771764429" 49] by simp_all

lemma rn11:
  "js (49 / 10) = js (2758454771764429 / 562949953421312)"
  by (rule js_cong)
    (use rnd_eval_to [of "49 / 10" 50 "5516909543528858"] rd10
     in \<open>simp add: rnd_small\<close>)

lemma rd11:
  "rnd (5764607523034235 / 36028797018963968) = 5764607523034235 / 36028797018963968"
  "rnd (- (5764607523034235 / 36028797018963968)) = - (5764607523034235 / 36028797018963968)"
  using rnd_dyadic [of "5764607523034235" 55] rnd_dyadic [of "- 5764607523034235" 55] by simp_all

lemma rd12:
  "rnd (2848526764311839 / 562949953421312) = 2848526764311839 / 562949953421312"
  "rnd (- (2848526764311839 / 562949953421312)) = - (2848526764311839 / 562949953421312)"
  using rnd_dyadic [of "2848526764311839" 49] rnd_dyadic [of "- 2848526764311839" 49] by simp_all

lemma rn12:
  "js (182305712915957691 / 36028797018963968) = js (2848526764311839 / 562949953421312)"
  by (rule js_cong)
    (use rnd_eval_to [of "182305712915957691 / 36028797018963968" 50 "5697053528623678"] rd12
     in \<open>simp add: rnd_small\<close>)

lemma rn13:
  "js (10120000000000001 / 2000000000000000) = js (2848526764311839 / 562949953421312)"
  by (rule js_cong)
    (use rnd_eval_to [of "10120000000000001 / 2000000000000000" 50 "5697053528623678"] rd12
     in \<open>simp add: rnd_small\<close>)

lemmas motion_roundings = rn11 rd10 rd0 rd11 rn12 rd12 rn13

lemma rd13:
  "rnd (6754048631329477 / 1125899906842624) = 6754048631329477 / 1125899906842624"
  "rnd (- (6754048631329477 / 1125899906842624)) = - (6754048631329477 / 1125899906842624)"
  using rnd_dyadic [of "6754048631329477" 50] rnd_dyadic [of "- 6754048631329477" 50] by simp_all

lemma rn14:
  "js (7036874417766400 / 1173046965441659) = js (6754048631329477 / 1125899906842624)"
  by (rule js_cong)
    (use rnd_eval_to [of "7036874417766400 / 1173046965441659" 50 "6754048631329477"] rd13
     in \<open>simp add: rnd_small\<close>)

lemma rd14:
  "rnd (8645182248101731 / 18014398509481984) = 8645182248101731 / 18014398509481984"
  "rnd (- (8645182248101731 / 18014398509481984)) = - (8645182248101731 / 18014398509481984)"
  using rnd_dyadic [of "8645182248101731" 54] rnd_dyadic [of "- 8645182248101731" 54] by simp_all

lemma rn15:
  "js (38934439551100981460749035645095 / 81129638414606681695789005144064) = js (8645182248101731 / 18014398509481984)"
  by (rule js_cong)
    (use rnd_eval_to [of "38934439551100981460749035645095 / 81129638414606681695789005144064" 54 "8645182248101731"] rd14
     in \<open>simp add: rnd_small\<close>)

lemma rd15:
  "rnd (2544587821853381 / 562949953421312) = 2544587821853381 / 562949953421312"
  "rnd (- (2544587821853381 / 562949953421312)) = - (2544587821853381 / 562949953421312)"
  using rnd_dyadic [of "2544587821853381" 49] rnd_dyadic [of "- 2544587821853381" 49] by simp_all

lemma rn16:
  "js (- (81426810299308189 / 18014398509481984)) = js (- (2544587821853381 / 562949953421312))"
  by (rule js_cong)
    (use rnd_eval_to [of "- (81426810299308189 / 18014398509481984)" 50 "- 5089175643706762"] rd15
     in \<open>simp add: rnd_small\<close>)

lemma rd16:
  "rnd (1137212938300101 / 281474976710656) = 1137212938300101 / 281474976710656"
  "rnd (- (1137212938300101 / 281474976710656)) = - (1137212938300101 / 281474976710656)"
  using rnd_dyadic [of "1137212938300101" 48] rnd_dyadic [of "- 1137212938300101" 48] by simp_all

lemma rn17:
  "js (- (72781628051206461 / 18014398509481984)) = js (- (1137212938300101 / 281474976710656))"
  by (rule js_cong)
    (use rnd_eval_to [of "- (72781628051206461 / 18014398509481984)" 50 "- 4548851753200404"] rd16
     in \<open>simp add: rnd_small\<close>)

lemma rd17:
  "rnd (2004263931347023 / 562949953421312) = 2004263931347023 / 562949953421312"
  "rnd (- (2004263931347023 / 562949953421312)) = - (2004263931347023 / 562949953421312)"
  using rnd_dyadic [of "2004263931347023" 49] rnd_dyadic [of "- 2004263931347023" 49] by simp_all

lemma rn18:
  "js (- (64136445803104733 / 18014398509481984)) = js (- (2004263931347023 / 562949953421312))"
  by (rule js_cong)
    (use rnd_eval_to [of "- (64136445803104733 / 18014398509481984)" 51 "- 8017055725388092"] rd17
     in \<open>simp add: rnd_small\<close>)

lemma rd18:
  "rnd (433525496523461 / 140737488355328) = 433525496523461 / 140737488355328"
  "rnd (- (433525496523461 / 140737488355328)) = - (433525496523461 / 140737488355328)"
  using rnd_dyadic [of "433525496523461" 47] rnd_dyadic [of "- 433525496523461" 47] by simp_all

lemma rn19:
  "js (- (55491263555003005 / 18014398509481984)) = js (- (433525496523461 / 140737488355328))"
  by (rule js_cong)
    (use rnd_eval_to [of "- (55491263555003005 / 18014398509481984)" 51 "- 6936407944375376"] rd18
     in \<open>simp add: rnd_small\<close>)

lemma rd19:
  "rnd (1463940040840665 / 562949953421312) = 1463940040840665 / 562949953421312"
  "rnd (- (1463940040840665 / 562949953421312)) = - (1463940040840665 / 562949953421312)"
  using rnd_dyadic [of "1463940040840665" 49] rnd_dyadic [of "- 1463940040840665" 49] by simp_all

lemma rn20:
  "js (- (46846081306901277 / 18014398509481984)) = js (- (1463940040840665 / 562949953421312))"
  by (rule js_cong)
    (use rnd_eval_to [of "- (46846081306901277 / 18014398509481984)" 51 "- 5855760163362660"] rd19
     in \<open>simp add: rnd_small\<close>)

lemma rd20:
  "rnd (596889047793743 / 281474976710656) = 596889047793743 / 281474976710656"
  "rnd (- (596889047793743 / 281474976710656)) = - (596889047793743 / 281474976710656)"
  using rnd_dyadic [of "596889047793743" 48] rnd_dyadic [of "- 596889047793743" 48] by simp_all

lemma rn21:
  "js (- (38200899058799549 / 18014398509481984)) = js (- (596889047793743 / 281474976710656))"
  by (rule js_cong)
    (use rnd_eval_to [of "- (38200899058799549 / 18014398509481984)" 51 "- 4775112382349944"] rd20
     in \<open>simp add: rnd_small\<close>)

lemma rd21:
  "rnd (7388929202674455 / 4503599627370496) = 7388929202674455 / 4503599627370496"
  "rnd (- (7388929202674455 / 4503599627370496)) = - (7388929202674455 / 4503599627370496)"
  using rnd_dyadic [of "7388929202674455" 52] rnd_dyadic [of "- 7388929202674455" 52] by simp_all

lemma rn22:
  "js (- (29555716810697821 / 18014398509481984)) = js (- (7388929202674455 / 4503599627370496))"
  by (rule js_cong)
    (use rnd_eval_to [of "- (29555716810697821 / 18014398509481984)" 52 "- 7388929202674455"] rd21
     in \<open>simp add: rnd_small\<close>)

lemma rd22:
  "rnd (2613816820324511 / 2251799813685248) = 2613816820324511 / 2251799813685248"
  "rnd (- (2613816820324511 / 2251799813685248)) = - (2613816820324511 / 2251799813685248)"
  using rnd_dyadic [of "2613816820324511" 51] rnd_dyadic [of "- 2613816820324511" 51] by simp_all

lemma rn23:
  "js (- (20910534562596089 / 18014398509481984)) = js (- (2613816820324511 / 2251799813685248))"
  by (rule js_cong)
    (use rnd_eval_to [of "- (20910534562596089 / 18014398509481984)" 52 "- 5227633640649022"] rd22
     in \<open>simp add: rnd_small\<close>)

lemma rd23:
  "rnd (3066338078623589 / 4503599627370496) = 3066338078623589 / 4503599627370496"
  "rnd (- (3066338078623589 / 4503599627370496)) = - (3066338078623589 / 4503599627370496)"
  using rnd_dyadic [of "3066338078623589" 52] rnd_dyadic [of "- 3066338078623589" 52] by simp_all

lemma rn24:
  "js (- (12265352314494357 / 18014398509481984)) = js (- (3066338078623589 / 4503599627370496))"
  by (rule js_cong)
    (use rnd_eval_to [of "- (12265352314494357 / 18014398509481984)" 53 "- 6132676157247178"] rd23
     in \<open>simp add: rnd_small\<close>)

lemma rd24:
  "rnd (2611115200871975 / 1125899906842624) = 2611115200871975 / 1125899906842624"
  "rnd (- (2611115200871975 / 1125899906842624)) = - (2611115200871975 / 1125899906842624)"
  using rnd_dyadic [of "2611115200871975" 50] rnd_dyadic [of "- 2611115200871975" 50] by simp_all

lemma rn25:
  "js (10444460803487899 / 4503599627370496) = js (2611115200871975 / 1125899906842624)"
  by (rule js_cong)
    (use rnd_eval_to [of "10444460803487899 / 4503599627370496" 51 "5222230401743950"] rd24
     in \<open>simp add: rnd_small\<close>)

lemma rd25:
  "rnd (6962973868991933 / 9007199254740992) = 6962973868991933 / 9007199254740992"
  "rnd (- (6962973868991933 / 9007199254740992)) = - (6962973868991933 / 9007199254740992)"
  using rnd_dyadic [of "6962973868991933" 53] rnd_dyadic [of "- 6962973868991933" 53] by simp_all

lemma rn26:
  "js (2611115200871975 / 3377699720527872) = js (6962973868991933 / 9007199254740992)"
  by (rule js_cong)
    (use rnd_eval_to [of "2611115200871975 / 3377699720527872" 53 "6962973868991933"] rd25
     in \<open>simp add: rnd_small\<close>)

lemma rd26:
  "rnd (3066338078623589 / 9007199254740992) = 3066338078623589 / 9007199254740992"
  "rnd (- (3066338078623589 / 9007199254740992)) = - (3066338078623589 / 9007199254740992)"
  using rnd_dyadic [of "3066338078623589" 53] rnd_dyadic [of "- 3066338078623589" 53] by simp_all

lemma rd27:
  "rnd (2611115200871975 / 2251799813685248) = 2611115200871975 / 2251799813685248"
  "rnd (- (2611115200871975 / 2251799813685248)) = - (2611115200871975 / 2251799813685248)"
  using rnd_dyadic [of "2611115200871975" 51] rnd_dyadic [of "- 2611115200871975" 51] by simp_all

lemma rn27:
  "js (13510798882111489 / 9007199254740992) = js (3 / 2)"
  by (rule js_cong)
    (use rnd_eval_to [of "13510798882111489 / 9007199254740992" 52 "6755399441055744"]
     in \<open>simp add: rnd_small\<close>)

lemma rd28:
  "rnd (4144284240183769 / 2251799813685248) = 4144284240183769 / 2251799813685248"
  "rnd (- (4144284240183769 / 2251799813685248)) = - (4144284240183769 / 2251799813685248)"
  using rnd_dyadic [of "4144284240183769" 51] rnd_dyadic [of "- 4144284240183769" 51] by simp_all

lemma rn28:
  "js (- (16577136960735077 / 9007199254740992)) = js (- (4144284240183769 / 2251799813685248))"
  by (rule js_cong)
    (use rnd_eval_to [of "- (16577136960735077 / 9007199254740992)" 52 "- 8288568480367538"] rd28
     in \<open>simp add: rnd_small\<close>)

lemma rn29:
  "js (41 / 500) = js (5908722711110091 / 72057594037927936)"
  by (rule js_cong)
    (use rnd_eval_to [of "41 / 500" 56 "5908722711110091"] rd3
     in \<open>simp add: rnd_small\<close>)

lemmas run_roundings = rn14 rd13 rd0 rn15 rd14 rn16 rd15 rn17 rd16 rn18 rd17 rn19 rd18 rn20 rd19 rn21 rd20 rn22 rd21 rn23 rd22 rn24 rd23 rn25 rd24 rn26 rd25 rd26 rd27 rn27 rn28 rd28 rn3 rd3 rn29

subsection \<open>An example run\<close>

lemma scenario_start: "scenario (fneg BOUNDS) = sliding (- 5) 0"
  by (simp add: sliding_def scenario_def BOUNDS_def js_eval rnd_small)

lemma frame_1:
  "animate (dbl 100) (sliding (- 5) 0) =
     sliding (- (2544587821853381 / 562949953421312)) 100"
  by (simp add: sliding_def scenario_def animate_def deltaTime_of_def updateGame_def moveCurrentBlock_def updateCamera_def
      Let_def obj_def set_obj_def CONFIG_defs Fin_dbl js_eval rnd_small config_roundings run_roundings)

lemma frame_2:
  "animate (dbl 200) (sliding (- (2544587821853381 / 562949953421312)) 100) =
     sliding (- (1137212938300101 / 281474976710656)) 200"
  by (simp add: sliding_def scenario_def animate_def deltaTime_of_def updateGame_def moveCurrentBlock_def updateCamera_def
      Let_def obj_def set_obj_def CONFIG_defs Fin_dbl js_eval rnd_small config_roundings run_roundings)

lemma frame_3:
  "animate (dbl 300) (sliding (- (1137212938300101 / 281474976710656)) 200) =
     sliding (- (2004263931347023 / 562949953421312)) 300"
  by (simp add: sliding_def scenario_def animate_def deltaTime_of_def updateGame_def moveCurrentBlock_def updateCamera_def
      Let_def obj_def set_obj_def CONFIG_defs Fin_dbl js_eval rnd_small config_roundings run_roundings)

lemma frame_4:
  "animate (dbl 400) (sliding (- (2004263931347023 / 562949953421312)) 300) =
     sliding (- (433525496523461 / 140737488355328)) 400"
  by (simp add: sliding_def scenario_def animate_def deltaTime_of_def updateGame_def moveCurrentBlock_def updateCamera_def
      Let_def obj_def set_obj_def CONFIG_defs Fin_dbl js_eval rnd_small config_roundings run_roundings)

lemma frame_5:
  "animate (dbl 500) (sliding (- (433525496523461 / 140737488355328)) 400) =
     sliding (- (1463940040840665 / 562949953421312)) 500"
  by (simp add: sliding_def scenario_def animate_def deltaTime_of_def updateGame_def moveCurrentBlock_def updateCamera_def
      Let_def obj_def set_obj_def CONFIG_defs Fin_dbl js_eval rnd_small config_roundings run_roundings)

lemma frame_6:
  "animate (dbl 600) (sliding (- (1463940040840665 / 562949953421312)) 500) =
     sliding (- (596889047793743 / 281474976710656)) 600"
  by (simp add: sliding_def scenario_def animate_def deltaTime_of_def updateGame_def moveCurrentBlock_def updateCamera_def
      Let_def obj_def set_obj_def CONFIG_defs Fin_dbl js_eval rnd_small config_roundings run_roundings)

lemma frame_7:
  "animate (dbl 700) (sliding (- (596889047793743 / 281474976710656)) 600) =
     sliding (- (7388929202674455 / 4503599627370496)) 700"
  by (simp add: sliding_def scenario_def animate_def deltaTime_of_def updateGame_def moveCurrentBlock_def updateCamera_def
      Let_def obj_def set_obj_def CONFIG_defs Fin_dbl js_eval rnd_small config_roundings run_roundings)

lemma frame_8:
  "animate (dbl 800) (sliding (- (7388929202674455 / 4503599627370496)) 700) =
     sliding (- (2613816820324511 / 2251799813685248)) 800"
  by (simp add: sliding_def scenario_def animate_def deltaTime_of_def updateGame_def moveCurrentBlock_def updateCamera_def
      Let_def obj_def set_obj_def CONFIG_defs Fin_dbl js_eval rnd_small config_roundings run_roundings)

lemma frame_9:
  "animate (dbl 900) (sliding (- (2613816820324511 / 2251799813685248)) 800) =
     sliding (- (3066338078623589 / 4503599627370496)) 900"
  by (simp add: sliding_def scenario_def animate_def deltaTime_of_def updateGame_def moveCurrentBlock_def updateCamera_def
      Let_def obj_def set_obj_def CONFIG_defs Fin_dbl js_eval rnd_small config_roundings run_roundings)

lemma nine_frames:
  "run [Frame (dbl 100), Frame (dbl 200), Frame (dbl 300), Frame (dbl 400), Frame (dbl 500),
        Frame (dbl 600), Frame (dbl 700), Frame (dbl 800), Frame (dbl 900)]
     (scenario (fneg BOUNDS)) = Inr (sliding (- (3066338078623589 / 4503599627370496)) 900)"
  by (simp add: scenario_start fire_def frame_1 frame_2 frame_3 frame_4 frame_5 frame_6 frame_7 frame_8 frame_9)

lemma first_placement:
  "placeBlock (sliding (- (3066338078623589 / 4503599627370496)) 900) = Inr first_placed"
  by (simp add: sliding_def scenario_def first_placed_def placeBlock_def createFallingPiece_def
      updateScore_def increaseDifficulty_def endGame_def
      Let_def obj_def set_obj_def CONFIG_defs js_eval rnd_small config_roundings run_roundings)

lemma sliding_flags: "\<not> gameEnded (sliding x t)" "\<not> isPlacingBlock (sliding x t)"
  by (simp_all add: sliding_def scenario_def)

lemma example_run:
  "run [Frame (dbl 100), Frame (dbl 200), Frame (dbl 300), Frame (dbl 400), Frame (dbl 500),
        Frame (dbl 600), Frame (dbl 700), Frame (dbl 800), Frame (dbl 900), Input Mousedown]
     (scenario (fneg BOUNDS)) = Inr first_placed"
  by (simp add: scenario_start fire_def handleInput_def sliding_flags first_placement
      frame_1 frame_2 frame_3 frame_4 frame_5 frame_6 frame_7 frame_8 frame_9)

lemma reachable_sliding: "reachable (sliding (- (3066338078623589 / 4503599627370496)) 900)"
  unfolding reachable_def using init_scenario nine_frames by blast

lemma reachable_first_placed: "reachable first_placed"
  unfolding reachable_def using init_scenario example_run by blast

subsection \<open>The speed after five calls of \<open>increaseDifficulty\<close>\<close>

lemma five_increases:
  "speed ((increaseDifficulty ^^ 5) gameState0) = js 0.09000000000000001"
  by (simp add: eval_nat_numeral increaseDifficulty_def gameState0_def CONFIG_defs js_eval
      rnd_small config_roundings speed_roundings)

subsection \<open>A run with five placements\<close>

lemma rd29:
  "rnd (3602879701896397 / 36028797018963968) = 3602879701896397 / 36028797018963968"
  "rnd (- (3602879701896397 / 36028797018963968)) = - (3602879701896397 / 36028797018963968)"
  using rnd_dyadic [of "3602879701896397" 55] rnd_dyadic [of "- 3602879701896397" 55] by simp_all

lemma rn30:
  "js (1 / 10) = js (3602879701896397 / 36028797018963968)"
  by (rule js_cong)
    (use rnd_eval_to [of "1 / 10" 56 "7205759403792794"] rd29
     in \<open>simp add: rnd_small\<close>)

lemma rd30:
  "rnd (4430655902152137 / 9007199254740992) = 4430655902152137 / 9007199254740992"
  "rnd (- (4430655902152137 / 9007199254740992)) = - (4430655902152137 / 9007199254740992)"
  using rnd_dyadic [of "4430655902152137" 53] rnd_dyadic [of "- 4430655902152137" 53] by simp_all

lemma rn31:
  "js (39907800539878506841523840452407 / 81129638414606681695789005144064) = js (4430655902152137 / 9007199254740992)"
  by (rule js_cong)
    (use rnd_eval_to [of "39907800539878506841523840452407 / 81129638414606681695789005144064" 54 "8861311804304274"] rd30
     in \<open>simp add: rnd_small\<close>)

lemma rd31:
  "rnd (5075667546444103 / 1125899906842624) = 5075667546444103 / 1125899906842624"
  "rnd (- (5075667546444103 / 1125899906842624)) = - (5075667546444103 / 1125899906842624)"
  using rnd_dyadic [of "5075667546444103" 50] rnd_dyadic [of "- 5075667546444103" 50] by simp_all

lemma rn32:
  "js (- (40605340371552823 / 9007199254740992)) = js (- (5075667546444103 / 1125899906842624))"
  by (rule js_cong)
    (use rnd_eval_to [of "- (40605340371552823 / 9007199254740992)" 50 "- 5075667546444103"] rd31
     in \<open>simp add: rnd_small\<close>)

lemma rd32:
  "rnd (2260917779337543 / 562949953421312) = 2260917779337543 / 562949953421312"
  "rnd (- (2260917779337543 / 562949953421312)) = - (2260917779337543 / 562949953421312)"
  using rnd_dyadic [of "2260917779337543" 49] rnd_dyadic [of "- 2260917779337543" 49] by simp_all

lemma rn33:
  "js (- (36174684469400687 / 9007199254740992)) = js (- (2260917779337543 / 562949953421312))"
  by (rule js_cong)
    (use rnd_eval_to [of "- (36174684469400687 / 9007199254740992)" 50 "- 4521835558675086"] rd32
     in \<open>simp add: rnd_small\<close>)

lemma rd33:
  "rnd (3968003570906069 / 1125899906842624) = 3968003570906069 / 1125899906842624"
  "rnd (- (3968003570906069 / 1125899906842624)) = - (3968003570906069 / 1125899906842624)"
  using rnd_dyadic [of "3968003570906069" 50] rnd_dyadic [of "- 3968003570906069" 50] by simp_all

lemma rn34:
  "js (- (31744028567248551 / 9007199254740992)) = js (- (3968003570906069 / 1125899906842624))"
  by (rule js_cong)
    (use rnd_eval_to [of "- (31744028567248551 / 9007199254740992)" 51 "- 7936007141812138"] rd33
     in \<open>simp add: rnd_small\<close>)

lemma rd34:
  "rnd (853542895784263 / 281474976710656) = 853542895784263 / 281474976710656"
  "rnd (- (853542895784263 / 281474976710656)) = - (853542895784263 / 281474976710656)"
  using rnd_dyadic [of "853542895784263" 48] rnd_dyadic [of "- 853542895784263" 48] by simp_all

lemma rn35:
  "js (- (27313372665096415 / 9007199254740992)) = js (- (853542895784263 / 281474976710656))"
  by (rule js_cong)
    (use rnd_eval_to [of "- (27313372665096415 / 9007199254740992)" 51 "- 6828343166274104"] rd34
     in \<open>simp add: rnd_small\<close>)

lemma rd35:
  "rnd (2860339595368035 / 1125899906842624) = 2860339595368035 / 1125899906842624"
  "rnd (- (2860339595368035 / 1125899906842624)) = - (2860339595368035 / 1125899906842624)"
  using rnd_dyadic [of "2860339595368035" 50] rnd_dyadic [of "- 2860339595368035" 50] by simp_all

lemma rn36:
  "js (- (22882716762944279 / 9007199254740992)) = js (- (2860339595368035 / 1125899906842624))"
  by (rule js_cong)
    (use rnd_eval_to [of "- (22882716762944279 / 9007199254740992)" 51 "- 5720679190736070"] rd35
     in \<open>simp add: rnd_small\<close>)

lemma rd36:
  "rnd (1153253803799509 / 562949953421312) = 1153253803799509 / 562949953421312"
  "rnd (- (1153253803799509 / 562949953421312)) = - (1153253803799509 / 562949953421312)"
  using rnd_dyadic [of "1153253803799509" 49] rnd_dyadic [of "- 1153253803799509" 49] by simp_all

lemma rn37:
  "js (- (18452060860792143 / 9007199254740992)) = js (- (1153253803799509 / 562949953421312))"
  by (rule js_cong)
    (use rnd_eval_to [of "- (18452060860792143 / 9007199254740992)" 51 "- 4613015215198036"] rd36
     in \<open>simp add: rnd_small\<close>)

lemma rd37:
  "rnd (1752675619830001 / 1125899906842624) = 1752675619830001 / 1125899906842624"
  "rnd (- (1752675619830001 / 1125899906842624)) = - (1752675619830001 / 1125899906842624)"
  using rnd_dyadic [of "1752675619830001" 50] rnd_dyadic [of "- 1752675619830001" 50] by simp_all

lemma rn38:
  "js (- (14021404958640007 / 9007199254740992)) = js (- (1752675619830001 / 1125899906842624))"
  by (rule js_cong)
    (use rnd_eval_to [of "- (14021404958640007 / 9007199254740992)" 52 "- 7010702479320004"] rd37
     in \<open>simp add: rnd_small\<close>)

lemma rd38:
  "rnd (149855454007623 / 140737488355328) = 149855454007623 / 140737488355328"
  "rnd (- (149855454007623 / 140737488355328)) = - (149855454007623 / 140737488355328)"
  using rnd_dyadic [of "149855454007623" 47] rnd_dyadic [of "- 149855454007623" 47] by simp_all

lemma rn39:
  "js (- (9590749056487871 / 9007199254740992)) = js (- (149855454007623 / 140737488355328))"
  by (rule js_cong)
    (use rnd_eval_to [of "- (9590749056487871 / 9007199254740992)" 52 "- 4795374528243936"] rd38
     in \<open>simp add: rnd_small\<close>)

lemma rd39:
  "rnd (5160093154335735 / 9007199254740992) = 5160093154335735 / 9007199254740992"
  "rnd (- (5160093154335735 / 9007199254740992)) = - (5160093154335735 / 9007199254740992)"
  using rnd_dyadic [of "5160093154335735" 53] rnd_dyadic [of "- 5160093154335735" 53] by simp_all

lemma rd40:
  "rnd (1046877537856073 / 4503599627370496) = 1046877537856073 / 4503599627370496"
  "rnd (- (1046877537856073 / 4503599627370496)) = - (1046877537856073 / 4503599627370496)"
  using rnd_dyadic [of "1046877537856073" 52] rnd_dyadic [of "- 1046877537856073" 52] by simp_all

lemma rd41:
  "rnd (2349395816407957 / 1125899906842624) = 2349395816407957 / 1125899906842624"
  "rnd (- (2349395816407957 / 1125899906842624)) = - (2349395816407957 / 1125899906842624)"
  using rnd_dyadic [of "2349395816407957" 50] rnd_dyadic [of "- 2349395816407957" 50] by simp_all

lemma rn40:
  "js (9397583265631827 / 4503599627370496) = js (2349395816407957 / 1125899906842624)"
  by (rule js_cong)
    (use rnd_eval_to [of "9397583265631827 / 4503599627370496" 51 "4698791632815914"] rd41
     in \<open>simp add: rnd_small\<close>)

lemma rd42:
  "rnd (8104382464463665 / 9007199254740992) = 8104382464463665 / 9007199254740992"
  "rnd (- (8104382464463665 / 9007199254740992)) = - (8104382464463665 / 9007199254740992)"
  using rnd_dyadic [of "8104382464463665" 53] rnd_dyadic [of "- 8104382464463665" 53] by simp_all

lemma rn41:
  "js (2349395816407957 / 2611115200871975) = js (8104382464463665 / 9007199254740992)"
  by (rule js_cong)
    (use rnd_eval_to [of "2349395816407957 / 2611115200871975" 53 "8104382464463665"] rd42
     in \<open>simp add: rnd_small\<close>)

lemma rd43:
  "rnd (1046877537856073 / 9007199254740992) = 1046877537856073 / 9007199254740992"
  "rnd (- (1046877537856073 / 9007199254740992)) = - (1046877537856073 / 9007199254740992)"
  using rnd_dyadic [of "1046877537856073" 53] rnd_dyadic [of "- 1046877537856073" 53] by simp_all

lemma rd44:
  "rnd (2056607808239831 / 4503599627370496) = 2056607808239831 / 4503599627370496"
  "rnd (- (2056607808239831 / 4503599627370496)) = - (2056607808239831 / 4503599627370496)"
  using rnd_dyadic [of "2056607808239831" 52] rnd_dyadic [of "- 2056607808239831" 52] by simp_all

lemma rd45:
  "rnd (2349395816407957 / 2251799813685248) = 2349395816407957 / 2251799813685248"
  "rnd (- (2349395816407957 / 2251799813685248)) = - (2349395816407957 / 2251799813685248)"
  using rnd_dyadic [of "2349395816407957" 51] rnd_dyadic [of "- 2349395816407957" 51] by simp_all

lemma rn42:
  "js (10444460803487901 / 9007199254740992) = js (2611115200871975 / 2251799813685248)"
  by (rule js_cong)
    (use rnd_eval_to [of "10444460803487901 / 9007199254740992" 52 "5222230401743950"] rd27
     in \<open>simp add: rnd_small\<close>)

lemma rd46:
  "rnd (7278838209983781 / 4503599627370496) = 7278838209983781 / 4503599627370496"
  "rnd (- (7278838209983781 / 4503599627370496)) = - (7278838209983781 / 4503599627370496)"
  using rnd_dyadic [of "7278838209983781" 52] rnd_dyadic [of "- 7278838209983781" 52] by simp_all

lemma rd47:
  "rnd (4538720680253409 / 9007199254740992) = 4538720680253409 / 9007199254740992"
  "rnd (- (4538720680253409 / 9007199254740992)) = - (4538720680253409 / 9007199254740992)"
  using rnd_dyadic [of "4538720680253409" 53] rnd_dyadic [of "- 4538720680253409" 53] by simp_all

lemma rn43:
  "js (40881161528656032222298645259719 / 81129638414606681695789005144064) = js (4538720680253409 / 9007199254740992)"
  by (rule js_cong)
    (use rnd_eval_to [of "40881161528656032222298645259719 / 81129638414606681695789005144064" 53 "4538720680253409"] rd47
     in \<open>simp add: rnd_small\<close>)

lemma rd48:
  "rnd (1265539862295361 / 281474976710656) = 1265539862295361 / 281474976710656"
  "rnd (- (1265539862295361 / 281474976710656)) = - (1265539862295361 / 281474976710656)"
  using rnd_dyadic [of "1265539862295361" 48] rnd_dyadic [of "- 1265539862295361" 48] by simp_all

lemma rn44:
  "js (- (40497275593451551 / 9007199254740992)) = js (- (1265539862295361 / 281474976710656))"
  by (rule js_cong)
    (use rnd_eval_to [of "- (40497275593451551 / 9007199254740992)" 50 "- 5062159449181444"] rd48
     in \<open>simp add: rnd_small\<close>)

lemma rd49:
  "rnd (561852420518721 / 140737488355328) = 561852420518721 / 140737488355328"
  "rnd (- (561852420518721 / 140737488355328)) = - (561852420518721 / 140737488355328)"
  using rnd_dyadic [of "561852420518721" 47] rnd_dyadic [of "- 561852420518721" 47] by simp_all

lemma rn45:
  "js (- (35958554913198143 / 9007199254740992)) = js (- (561852420518721 / 140737488355328))"
  by (rule js_cong)
    (use rnd_eval_to [of "- (35958554913198143 / 9007199254740992)" 51 "- 8989638728299536"] rd49
     in \<open>simp add: rnd_small\<close>)

lemma rd50:
  "rnd (981869819779523 / 281474976710656) = 981869819779523 / 281474976710656"
  "rnd (- (981869819779523 / 281474976710656)) = - (981869819779523 / 281474976710656)"
  using rnd_dyadic [of "981869819779523" 48] rnd_dyadic [of "- 981869819779523" 48] by simp_all

lemma rn46:
  "js (- (31419834232944735 / 9007199254740992)) = js (- (981869819779523 / 281474976710656))"
  by (rule js_cong)
    (use rnd_eval_to [of "- (31419834232944735 / 9007199254740992)" 51 "- 7854958558236184"] rd50
     in \<open>simp add: rnd_small\<close>)

lemma rd51:
  "rnd (210008699630401 / 70368744177664) = 210008699630401 / 70368744177664"
  "rnd (- (210008699630401 / 70368744177664)) = - (210008699630401 / 70368744177664)"
  using rnd_dyadic [of "210008699630401" 46] rnd_dyadic [of "- 210008699630401" 46] by simp_all

lemma rn47:
  "js (- (26881113552691327 / 9007199254740992)) = js (- (210008699630401 / 70368744177664))"
  by (rule js_cong)
    (use rnd_eval_to [of "- (26881113552691327 / 9007199254740992)" 51 "- 6720278388172832"] rd51
     in \<open>simp add: rnd_small\<close>)

lemma rd52:
  "rnd (698199777263685 / 281474976710656) = 698199777263685 / 281474976710656"
  "rnd (- (698199777263685 / 281474976710656)) = - (698199777263685 / 281474976710656)"
  using rnd_dyadic [of "698199777263685" 48] rnd_dyadic [of "- 698199777263685" 48] by simp_all

lemma rn48:
  "js (- (22342392872437919 / 9007199254740992)) = js (- (698199777263685 / 281474976710656))"
  by (rule js_cong)
    (use rnd_eval_to [of "- (22342392872437919 / 9007199254740992)" 51 "- 5585598218109480"] rd52
     in \<open>simp add: rnd_small\<close>)

lemma rd53:
  "rnd (278182378002883 / 140737488355328) = 278182378002883 / 140737488355328"
  "rnd (- (278182378002883 / 140737488355328)) = - (278182378002883 / 140737488355328)"
  using rnd_dyadic [of "278182378002883" 47] rnd_dyadic [of "- 278182378002883" 47] by simp_all

lemma rn49:
  "js (- (17803672192184511 / 9007199254740992)) = js (- (278182378002883 / 140737488355328))"
  by (rule js_cong)
    (use rnd_eval_to [of "- (17803672192184511 / 9007199254740992)" 52 "- 8901836096092256"] rd53
     in \<open>simp add: rnd_small\<close>)

lemma rd54:
  "rnd (414529734747847 / 281474976710656) = 414529734747847 / 281474976710656"
  "rnd (- (414529734747847 / 281474976710656)) = - (414529734747847 / 281474976710656)"
  using rnd_dyadic [of "414529734747847" 48] rnd_dyadic [of "- 414529734747847" 48] by simp_all

lemma rn50:
  "js (- (13264951511931103 / 9007199254740992)) = js (- (414529734747847 / 281474976710656))"
  by (rule js_cong)
    (use rnd_eval_to [of "- (13264951511931103 / 9007199254740992)" 52 "- 6632475755965552"] rd54
     in \<open>simp add: rnd_small\<close>)

lemma rd55:
  "rnd (8726230831677695 / 9007199254740992) = 8726230831677695 / 9007199254740992"
  "rnd (- (8726230831677695 / 9007199254740992)) = - (8726230831677695 / 9007199254740992)"
  using rnd_dyadic [of "8726230831677695" 53] rnd_dyadic [of "- 8726230831677695" 53] by simp_all

lemma rd56:
  "rnd (2093755075712143 / 4503599627370496) = 2093755075712143 / 4503599627370496"
  "rnd (- (2093755075712143 / 4503599627370496)) = - (2093755075712143 / 4503599627370496)"
  using rnd_dyadic [of "2093755075712143" 52] rnd_dyadic [of "- 2093755075712143" 52] by simp_all

lemma rd57:
  "rnd (4643408434039 / 562949953421312) = 4643408434039 / 562949953421312"
  "rnd (- (4643408434039 / 562949953421312)) = - (4643408434039 / 562949953421312)"
  using rnd_dyadic [of "4643408434039" 49] rnd_dyadic [of "- 4643408434039" 49] by simp_all

lemma rd58:
  "rnd (2340108999539879 / 1125899906842624) = 2340108999539879 / 1125899906842624"
  "rnd (- (2340108999539879 / 1125899906842624)) = - (2340108999539879 / 1125899906842624)"
  using rnd_dyadic [of "2340108999539879" 50] rnd_dyadic [of "- 2340108999539879" 50] by simp_all

lemma rd59:
  "rnd (8971595117971497 / 9007199254740992) = 8971595117971497 / 9007199254740992"
  "rnd (- (8971595117971497 / 9007199254740992)) = - (8971595117971497 / 9007199254740992)"
  using rnd_dyadic [of "8971595117971497" 53] rnd_dyadic [of "- 8971595117971497" 53] by simp_all

lemma rn51:
  "js (2340108999539879 / 2349395816407957) = js (8971595117971497 / 9007199254740992)"
  by (rule js_cong)
    (use rnd_eval_to [of "2340108999539879 / 2349395816407957" 53 "8971595117971497"] rd59
     in \<open>simp add: rnd_small\<close>)

lemma rd60:
  "rnd (4643408434039 / 1125899906842624) = 4643408434039 / 1125899906842624"
  "rnd (- (4643408434039 / 1125899906842624)) = - (4643408434039 / 1125899906842624)"
  using rnd_dyadic [of "4643408434039" 50] rnd_dyadic [of "- 4643408434039" 50] by simp_all

lemma rd61:
  "rnd (2075181441975987 / 4503599627370496) = 2075181441975987 / 4503599627370496"
  "rnd (- (2075181441975987 / 4503599627370496)) = - (2075181441975987 / 4503599627370496)"
  using rnd_dyadic [of "2075181441975987" 52] rnd_dyadic [of "- 2075181441975987" 52] by simp_all

lemma rd62:
  "rnd (2340108999539879 / 2251799813685248) = 2340108999539879 / 2251799813685248"
  "rnd (- (2340108999539879 / 2251799813685248)) = - (2340108999539879 / 2251799813685248)"
  using rnd_dyadic [of "2340108999539879" 51] rnd_dyadic [of "- 2340108999539879" 51] by simp_all

lemma rd63:
  "rnd (6773973074791901 / 4503599627370496) = 6773973074791901 / 4503599627370496"
  "rnd (- (6773973074791901 / 4503599627370496)) = - (6773973074791901 / 4503599627370496)"
  using rnd_dyadic [of "6773973074791901" 52] rnd_dyadic [of "- 6773973074791901" 52] by simp_all

lemma rd64:
  "rnd (4646785458354681 / 9007199254740992) = 4646785458354681 / 9007199254740992"
  "rnd (- (4646785458354681 / 9007199254740992)) = - (4646785458354681 / 9007199254740992)"
  using rnd_dyadic [of "4646785458354681" 53] rnd_dyadic [of "- 4646785458354681" 53] by simp_all

lemma rn52:
  "js (41854522517433557603073450067031 / 81129638414606681695789005144064) = js (4646785458354681 / 9007199254740992)"
  by (rule js_cong)
    (use rnd_eval_to [of "41854522517433557603073450067031 / 81129638414606681695789005144064" 53 "4646785458354681"] rd64
     in \<open>simp add: rnd_small\<close>)

lemma rd65:
  "rnd (5048651351918785 / 1125899906842624) = 5048651351918785 / 1125899906842624"
  "rnd (- (5048651351918785 / 1125899906842624)) = - (5048651351918785 / 1125899906842624)"
  using rnd_dyadic [of "5048651351918785" 50] rnd_dyadic [of "- 5048651351918785" 50] by simp_all

lemma rn53:
  "js (- (40389210815350279 / 9007199254740992)) = js (- (5048651351918785 / 1125899906842624))"
  by (rule js_cong)
    (use rnd_eval_to [of "- (40389210815350279 / 9007199254740992)" 50 "- 5048651351918785"] rd65
     in \<open>simp add: rnd_small\<close>)

lemma rd66:
  "rnd (2233901584812225 / 562949953421312) = 2233901584812225 / 562949953421312"
  "rnd (- (2233901584812225 / 562949953421312)) = - (2233901584812225 / 562949953421312)"
  using rnd_dyadic [of "2233901584812225" 49] rnd_dyadic [of "- 2233901584812225" 49] by simp_all

lemma rn54:
  "js (- (35742425356995599 / 9007199254740992)) = js (- (2233901584812225 / 562949953421312))"
  by (rule js_cong)
    (use rnd_eval_to [of "- (35742425356995599 / 9007199254740992)" 51 "- 8935606339248900"] rd66
     in \<open>simp add: rnd_small\<close>)

lemma rd67:
  "rnd (3886954987330115 / 1125899906842624) = 3886954987330115 / 1125899906842624"
  "rnd (- (3886954987330115 / 1125899906842624)) = - (3886954987330115 / 1125899906842624)"
  using rnd_dyadic [of "3886954987330115" 50] rnd_dyadic [of "- 3886954987330115" 50] by simp_all

lemma rn55:
  "js (- (31095639898640919 / 9007199254740992)) = js (- (3886954987330115 / 1125899906842624))"
  by (rule js_cong)
    (use rnd_eval_to [of "- (31095639898640919 / 9007199254740992)" 51 "- 7773909974660230"] rd67
     in \<open>simp add: rnd_small\<close>)

lemma rd68:
  "rnd (826526701258945 / 281474976710656) = 826526701258945 / 281474976710656"
  "rnd (- (826526701258945 / 281474976710656)) = - (826526701258945 / 281474976710656)"
  using rnd_dyadic [of "826526701258945" 48] rnd_dyadic [of "- 826526701258945" 48] by simp_all

lemma rn56:
  "js (- (26448854440286239 / 9007199254740992)) = js (- (826526701258945 / 281474976710656))"
  by (rule js_cong)
    (use rnd_eval_to [of "- (26448854440286239 / 9007199254740992)" 51 "- 6612213610071560"] rd68
     in \<open>simp add: rnd_small\<close>)

lemma rd69:
  "rnd (2725258622741445 / 1125899906842624) = 2725258622741445 / 1125899906842624"
  "rnd (- (2725258622741445 / 1125899906842624)) = - (2725258622741445 / 1125899906842624)"
  using rnd_dyadic [of "2725258622741445" 50] rnd_dyadic [of "- 2725258622741445" 50] by simp_all

lemma rn57:
  "js (- (21802068981931559 / 9007199254740992)) = js (- (2725258622741445 / 1125899906842624))"
  by (rule js_cong)
    (use rnd_eval_to [of "- (21802068981931559 / 9007199254740992)" 51 "- 5450517245482890"] rd69
     in \<open>simp add: rnd_small\<close>)

lemma rd70:
  "rnd (1072205220223555 / 562949953421312) = 1072205220223555 / 562949953421312"
  "rnd (- (1072205220223555 / 562949953421312)) = - (1072205220223555 / 562949953421312)"
  using rnd_dyadic [of "1072205220223555" 49] rnd_dyadic [of "- 1072205220223555" 49] by simp_all

lemma rn58:
  "js (- (17155283523576879 / 9007199254740992)) = js (- (1072205220223555 / 562949953421312))"
  by (rule js_cong)
    (use rnd_eval_to [of "- (17155283523576879 / 9007199254740992)" 52 "- 8577641761788440"] rd70
     in \<open>simp add: rnd_small\<close>)

lemma rd71:
  "rnd (1563562258152775 / 1125899906842624) = 1563562258152775 / 1125899906842624"
  "rnd (- (1563562258152775 / 1125899906842624)) = - (1563562258152775 / 1125899906842624)"
  using rnd_dyadic [of "1563562258152775" 50] rnd_dyadic [of "- 1563562258152775" 50] by simp_all

lemma rn59:
  "js (- (12508498065222199 / 9007199254740992)) = js (- (1563562258152775 / 1125899906842624))"
  by (rule js_cong)
    (use rnd_eval_to [of "- (12508498065222199 / 9007199254740992)" 52 "- 6254249032611100"] rd71
     in \<open>simp add: rnd_small\<close>)

lemma rd72:
  "rnd (7861712606867519 / 9007199254740992) = 7861712606867519 / 9007199254740992"
  "rnd (- (7861712606867519 / 9007199254740992)) = - (7861712606867519 / 9007199254740992)"
  using rnd_dyadic [of "7861712606867519" 53] rnd_dyadic [of "- 7861712606867519" 53] by simp_all

lemma rd73:
  "rnd (1607463574256419 / 4503599627370496) = 1607463574256419 / 4503599627370496"
  "rnd (- (1607463574256419 / 4503599627370496)) = - (1607463574256419 / 4503599627370496)"
  using rnd_dyadic [of "1607463574256419" 52] rnd_dyadic [of "- 1607463574256419" 52] by simp_all

lemma rd74:
  "rnd (29232366732473 / 281474976710656) = 29232366732473 / 281474976710656"
  "rnd (- (29232366732473 / 281474976710656)) = - (29232366732473 / 281474976710656)"
  using rnd_dyadic [of "29232366732473" 48] rnd_dyadic [of "- 29232366732473" 48] by simp_all

lemma rd75:
  "rnd (2223179532609987 / 1125899906842624) = 2223179532609987 / 1125899906842624"
  "rnd (- (2223179532609987 / 1125899906842624)) = - (2223179532609987 / 1125899906842624)"
  using rnd_dyadic [of "2223179532609987" 50] rnd_dyadic [of "- 2223179532609987" 50] by simp_all

lemma rd76:
  "rnd (4278565877319693 / 4503599627370496) = 4278565877319693 / 4503599627370496"
  "rnd (- (4278565877319693 / 4503599627370496)) = - (4278565877319693 / 4503599627370496)"
  using rnd_dyadic [of "4278565877319693" 52] rnd_dyadic [of "- 4278565877319693" 52] by simp_all

lemma rn60:
  "js (2223179532609987 / 2340108999539879) = js (4278565877319693 / 4503599627370496)"
  by (rule js_cong)
    (use rnd_eval_to [of "2223179532609987 / 2340108999539879" 53 "8557131754639386"] rd76
     in \<open>simp add: rnd_small\<close>)

lemma rd77:
  "rnd (29232366732473 / 562949953421312) = 29232366732473 / 562949953421312"
  "rnd (- (29232366732473 / 562949953421312)) = - (29232366732473 / 562949953421312)"
  using rnd_dyadic [of "29232366732473" 49] rnd_dyadic [of "- 29232366732473" 49] by simp_all

lemma rd78:
  "rnd (1841322508116203 / 4503599627370496) = 1841322508116203 / 4503599627370496"
  "rnd (- (1841322508116203 / 4503599627370496)) = - (1841322508116203 / 4503599627370496)"
  using rnd_dyadic [of "1841322508116203" 52] rnd_dyadic [of "- 1841322508116203" 52] by simp_all

lemma rd79:
  "rnd (2223179532609987 / 2251799813685248) = 2223179532609987 / 2251799813685248"
  "rnd (- (2223179532609987 / 2251799813685248)) = - (2223179532609987 / 2251799813685248)"
  using rnd_dyadic [of "2223179532609987" 51] rnd_dyadic [of "- 2223179532609987" 51] by simp_all

lemma rd80:
  "rnd (2838895490963555 / 4503599627370496) = 2838895490963555 / 4503599627370496"
  "rnd (- (2838895490963555 / 4503599627370496)) = - (2838895490963555 / 4503599627370496)"
  using rnd_dyadic [of "2838895490963555" 52] rnd_dyadic [of "- 2838895490963555" 52] by simp_all

lemma rd81:
  "rnd (297178139778497 / 562949953421312) = 297178139778497 / 562949953421312"
  "rnd (- (297178139778497 / 562949953421312)) = - (297178139778497 / 562949953421312)"
  using rnd_dyadic [of "297178139778497" 49] rnd_dyadic [of "- 297178139778497" 49] by simp_all

lemma rn61:
  "js (42827883506211082983848254874343 / 81129638414606681695789005144064) = js (297178139778497 / 562949953421312)"
  by (rule js_cong)
    (use rnd_eval_to [of "42827883506211082983848254874343 / 81129638414606681695789005144064" 53 "4754850236455952"] rd81
     in \<open>simp add: rnd_small\<close>)

lemma rd82:
  "rnd (2517571627328063 / 562949953421312) = 2517571627328063 / 562949953421312"
  "rnd (- (2517571627328063 / 562949953421312)) = - (2517571627328063 / 562949953421312)"
  using rnd_dyadic [of "2517571627328063" 49] rnd_dyadic [of "- 2517571627328063" 49] by simp_all

lemma rd83:
  "rnd (3602879701896397 / 72057594037927936) = 3602879701896397 / 72057594037927936"
  "rnd (- (3602879701896397 / 72057594037927936)) = - (3602879701896397 / 72057594037927936)"
  using rnd_dyadic [of "3602879701896397" 56] rnd_dyadic [of "- 3602879701896397" 56] by simp_all

lemma rd84:
  "rnd (2701619452531791 / 9007199254740992) = 2701619452531791 / 9007199254740992"
  "rnd (- (2701619452531791 / 9007199254740992)) = - (2701619452531791 / 9007199254740992)"
  using rnd_dyadic [of "2701619452531791" 53] rnd_dyadic [of "- 2701619452531791" 53] by simp_all

lemma rn62:
  "js (24334024719438114257224226194369 / 81129638414606681695789005144064) = js (2701619452531791 / 9007199254740992)"
  by (rule js_cong)
    (use rnd_eval_to [of "24334024719438114257224226194369 / 81129638414606681695789005144064" 54 "5403238905063582"] rd84
     in \<open>simp add: rnd_small\<close>)

lemma rd85:
  "rnd (2420651029468485 / 562949953421312) = 2420651029468485 / 562949953421312"
  "rnd (- (2420651029468485 / 562949953421312)) = - (2420651029468485 / 562949953421312)"
  using rnd_dyadic [of "2420651029468485" 49] rnd_dyadic [of "- 2420651029468485" 49] by simp_all

lemma rn63:
  "js (38730416471495759 / 9007199254740992) = js (2420651029468485 / 562949953421312)"
  by (rule js_cong)
    (use rnd_eval_to [of "38730416471495759 / 9007199254740992" 50 "4841302058936970"] rd85
     in \<open>simp add: rnd_small\<close>)

lemma rd86:
  "rnd (1110196743774783 / 281474976710656) = 1110196743774783 / 281474976710656"
  "rnd (- (1110196743774783 / 281474976710656)) = - (1110196743774783 / 281474976710656)"
  using rnd_dyadic [of "1110196743774783" 48] rnd_dyadic [of "- 1110196743774783" 48] by simp_all

lemma rd87:
  "rnd (112623760927419 / 562949953421312) = 112623760927419 / 562949953421312"
  "rnd (- (112623760927419 / 562949953421312)) = - (112623760927419 / 562949953421312)"
  using rnd_dyadic [of "112623760927419" 49] rnd_dyadic [of "- 112623760927419" 49] by simp_all

lemma rd88:
  "rnd (5766336559483853 / 288230376151711744) = 5766336559483853 / 288230376151711744"
  "rnd (- (5766336559483853 / 288230376151711744)) = - (5766336559483853 / 288230376151711744)"
  using rnd_dyadic [of "5766336559483853" 58] rnd_dyadic [of "- 5766336559483853" 58] by simp_all

lemma rn64:
  "js (405769862196630450845774609343 / 20282409603651670423947251286016) = js (5766336559483853 / 288230376151711744)"
  by (rule js_cong)
    (use rnd_eval_to [of "405769862196630450845774609343 / 20282409603651670423947251286016" 58 "5766336559483853"] rd88
     in \<open>simp add: rnd_small\<close>)

lemma rd89:
  "rnd (540485955260559 / 4503599627370496) = 540485955260559 / 4503599627370496"
  "rnd (- (540485955260559 / 4503599627370496)) = - (540485955260559 / 4503599627370496)"
  using rnd_dyadic [of "540485955260559" 52] rnd_dyadic [of "- 540485955260559" 52] by simp_all

lemma rn65:
  "js (38946117547367042691864304434881 / 324518553658426726783156020576256) = js (540485955260559 / 4503599627370496)"
  by (rule js_cong)
    (use rnd_eval_to [of "38946117547367042691864304434881 / 324518553658426726783156020576256" 56 "8647775284168944"] rd89
     in \<open>simp add: rnd_small\<close>)

lemma rd90:
  "rnd (2488211773876055 / 562949953421312) = 2488211773876055 / 562949953421312"
  "rnd (- (2488211773876055 / 562949953421312)) = - (2488211773876055 / 562949953421312)"
  using rnd_dyadic [of "2488211773876055" 49] rnd_dyadic [of "- 2488211773876055" 49] by simp_all

lemma rn66:
  "js (19905694191008439 / 4503599627370496) = js (2488211773876055 / 562949953421312)"
  by (rule js_cong)
    (use rnd_eval_to [of "19905694191008439 / 4503599627370496" 50 "4976423547752110"] rd90
     in \<open>simp add: rnd_small\<close>)

lemma rd91:
  "rnd (1923215347771069 / 562949953421312) = 1923215347771069 / 562949953421312"
  "rnd (- (1923215347771069 / 562949953421312)) = - (1923215347771069 / 562949953421312)"
  using rnd_dyadic [of "1923215347771069" 49] rnd_dyadic [of "- 1923215347771069" 49] by simp_all

lemma rd92:
  "rnd (45063016519849 / 562949953421312) = 45063016519849 / 562949953421312"
  "rnd (- (45063016519849 / 562949953421312)) = - (45063016519849 / 562949953421312)"
  using rnd_dyadic [of "45063016519849" 49] rnd_dyadic [of "- 45063016519849" 49] by simp_all

lemma rd93:
  "rnd (2307226445816269 / 288230376151711744) = 2307226445816269 / 288230376151711744"
  "rnd (- (2307226445816269 / 288230376151711744)) = - (2307226445816269 / 288230376151711744)"
  using rnd_dyadic [of "2307226445816269" 58] rnd_dyadic [of "- 2307226445816269" 58] by simp_all

lemma rn67:
  "js (162356627525585978504492084053 / 20282409603651670423947251286016) = js (2307226445816269 / 288230376151711744)"
  by (rule js_cong)
    (use rnd_eval_to [of "162356627525585978504492084053 / 20282409603651670423947251286016" 59 "4614452891632538"] rd93
     in \<open>simp add: rnd_small\<close>)

lemma rd94:
  "rnd (6920295278393127 / 144115188075855872) = 6920295278393127 / 144115188075855872"
  "rnd (- (6920295278393127 / 144115188075855872)) = - (6920295278393127 / 144115188075855872)"
  using rnd_dyadic [of "6920295278393127" 57] rnd_dyadic [of "- 6920295278393127" 57] by simp_all

lemma rn68:
  "js (15583119618532545364665945861313 / 324518553658426726783156020576256) = js (6920295278393127 / 144115188075855872)"
  by (rule js_cong)
    (use rnd_eval_to [of "15583119618532545364665945861313 / 324518553658426726783156020576256" 57 "6920295278393127"] rd94
     in \<open>simp add: rnd_small\<close>)

lemma rd95:
  "rnd (1257622088653639 / 281474976710656) = 1257622088653639 / 281474976710656"
  "rnd (- (1257622088653639 / 281474976710656)) = - (1257622088653639 / 281474976710656)"
  using rnd_dyadic [of "1257622088653639" 48] rnd_dyadic [of "- 1257622088653639" 48] by simp_all

lemma rn69:
  "js (643902509390663207 / 144115188075855872) = js (1257622088653639 / 281474976710656)"
  by (rule js_cong)
    (use rnd_eval_to [of "643902509390663207 / 144115188075855872" 50 "5030488354614556"] rd95
     in \<open>simp add: rnd_small\<close>)

lemma rd96:
  "rnd (406509301998143 / 140737488355328) = 406509301998143 / 140737488355328"
  "rnd (- (406509301998143 / 140737488355328)) = - (406509301998143 / 140737488355328)"
  using rnd_dyadic [of "406509301998143" 47] rnd_dyadic [of "- 406509301998143" 47] by simp_all

lemma rd97:
  "rnd (9015306544313 / 281474976710656) = 9015306544313 / 281474976710656"
  "rnd (- (9015306544313 / 281474976710656)) = - (9015306544313 / 281474976710656)"
  using rnd_dyadic [of "9015306544313" 48] rnd_dyadic [of "- 9015306544313" 48] by simp_all

lemma rd98:
  "rnd (3692669560550605 / 1152921504606846976) = 3692669560550605 / 1152921504606846976"
  "rnd (- (3692669560550605 / 1152921504606846976)) = - (3692669560550605 / 1152921504606846976)"
  using rnd_dyadic [of "3692669560550605" 60] rnd_dyadic [of "- 3692669560550605" 60] by simp_all

lemma rn70:
  "js (32481064954879058430815540261 / 10141204801825835211973625643008) = js (3692669560550605 / 1152921504606846976)"
  by (rule js_cong)
    (use rnd_eval_to [of "32481064954879058430815540261 / 10141204801825835211973625643008" 61 "7385339121101210"] rd98
     in \<open>simp add: rnd_small\<close>)

lemma rd99:
  "rnd (1384474190368403 / 72057594037927936) = 1384474190368403 / 72057594037927936"
  "rnd (- (1384474190368403 / 72057594037927936)) = - (1384474190368403 / 72057594037927936)"
  using rnd_dyadic [of "1384474190368403" 56] rnd_dyadic [of "- 1384474190368403" 56] by simp_all

lemma rn71:
  "js (24940469791388834995273286683585 / 1298074214633706907132624082305024) = js (1384474190368403 / 72057594037927936)"
  by (rule js_cong)
    (use rnd_eval_to [of "24940469791388834995273286683585 / 1298074214633706907132624082305024" 58 "5537896761473612"] rd99
     in \<open>simp add: rnd_small\<close>)

lemma rd100:
  "rnd (2526060381919531 / 562949953421312) = 2526060381919531 / 562949953421312"
  "rnd (- (2526060381919531 / 562949953421312)) = - (2526060381919531 / 562949953421312)"
  using rnd_dyadic [of "2526060381919531" 49] rnd_dyadic [of "- 2526060381919531" 49] by simp_all

lemma rn72:
  "js (323335728885699987 / 72057594037927936) = js (2526060381919531 / 562949953421312)"
  by (rule js_cong)
    (use rnd_eval_to [of "323335728885699987 / 72057594037927936" 50 "5052120763839062"] rd100
     in \<open>simp add: rnd_small\<close>)

lemma rd101:
  "rnd (1328859068214075 / 562949953421312) = 1328859068214075 / 562949953421312"
  "rnd (- (1328859068214075 / 562949953421312)) = - (1328859068214075 / 562949953421312)"
  using rnd_dyadic [of "1328859068214075" 49] rnd_dyadic [of "- 1328859068214075" 49] by simp_all

lemma rd102:
  "rnd (7214408476373 / 562949953421312) = 7214408476373 / 562949953421312"
  "rnd (- (7214408476373 / 562949953421312)) = - (7214408476373 / 562949953421312)"
  using rnd_dyadic [of "7214408476373" 49] rnd_dyadic [of "- 7214408476373" 49] by simp_all

lemma rd103:
  "rnd (2955021711922381 / 2305843009213693952) = 2955021711922381 / 2305843009213693952"
  "rnd (- (2955021711922381 / 2305843009213693952)) = - (2955021711922381 / 2305843009213693952)"
  using rnd_dyadic [of "2955021711922381" 61] rnd_dyadic [of "- 2955021711922381" 61] by simp_all

lemma rn73:
  "js (25992645860713593919468328081 / 20282409603651670423947251286016) = js (2955021711922381 / 2305843009213693952)"
  by (rule js_cong)
    (use rnd_eval_to [of "25992645860713593919468328081 / 20282409603651670423947251286016" 62 "5910043423844762"] rd103
     in \<open>simp add: rnd_small\<close>)

lemma rd104:
  "rnd (8863292477271687 / 1152921504606846976) = 8863292477271687 / 1152921504606846976"
  "rnd (- (8863292477271687 / 1152921504606846976)) = - (8863292477271687 / 1152921504606846976)"
  using rnd_dyadic [of "8863292477271687" 60] rnd_dyadic [of "- 8863292477271687" 60] by simp_all

lemma rn74:
  "js (19958360348958245459889461324737 / 2596148429267413814265248164610048) = js (8863292477271687 / 1152921504606846976)"
  by (rule js_cong)
    (use rnd_eval_to [of "19958360348958245459889461324737 / 2596148429267413814265248164610048" 60 "8863292477271687"] rd104
     in \<open>simp add: rnd_small\<close>)

lemma rd105:
  "rnd (2530388161449449 / 562949953421312) = 2530388161449449 / 562949953421312"
  "rnd (- (2530388161449449 / 562949953421312)) = - (2530388161449449 / 562949953421312)"
  using rnd_dyadic [of "2530388161449449" 49] rnd_dyadic [of "- 2530388161449449" 49] by simp_all

lemma rn75:
  "js (5182234954648471175 / 1152921504606846976) = js (2530388161449449 / 562949953421312)"
  by (rule js_cong)
    (use rnd_eval_to [of "5182234954648471175 / 1152921504606846976" 50 "5060776322898898"] rd105
     in \<open>simp add: rnd_small\<close>)

lemma rd106:
  "rnd (515840464217789 / 281474976710656) = 515840464217789 / 281474976710656"
  "rnd (- (515840464217789 / 281474976710656)) = - (515840464217789 / 281474976710656)"
  using rnd_dyadic [of "515840464217789" 48] rnd_dyadic [of "- 515840464217789" 48] by simp_all

lemma rd107:
  "rnd (2886628946455 / 562949953421312) = 2886628946455 / 562949953421312"
  "rnd (- (2886628946455 / 562949953421312)) = - (2886628946455 / 562949953421312)"
  using rnd_dyadic [of "2886628946455" 49] rnd_dyadic [of "- 2886628946455" 49] by simp_all

lemma rd108:
  "rnd (577325789291 / 1125899906842624) = 577325789291 / 1125899906842624"
  "rnd (- (577325789291 / 1125899906842624)) = - (577325789291 / 1125899906842624)"
  using rnd_dyadic [of "577325789291" 50] rnd_dyadic [of "- 577325789291" 50] by simp_all

lemma rn76:
  "js (10400176838089300937670422635 / 20282409603651670423947251286016) = js (577325789291 / 1125899906842624)"
  by (rule js_cong)
    (use rnd_eval_to [of "10400176838089300937670422635 / 20282409603651670423947251286016" 63 "4729452865871872"] rd108
     in \<open>simp add: rnd_small\<close>)

lemma rd109:
  "rnd (7092760746658475 / 2305843009213693952) = 7092760746658475 / 2305843009213693952"
  "rnd (- (7092760746658475 / 2305843009213693952)) = - (7092760746658475 / 2305843009213693952)"
  using rnd_dyadic [of "7092760746658475" 61] rnd_dyadic [of "- 7092760746658475" 61] by simp_all

lemma rn77:
  "js (3899286456992088579699230807 / 1267650600228229401496703205376) = js (7092760746658475 / 2305843009213693952)"
  by (rule js_cong)
    (use rnd_eval_to [of "3899286456992088579699230807 / 1267650600228229401496703205376" 61 "7092760746658475"] rd109
     in \<open>simp add: rnd_small\<close>)

lemma rd110:
  "rnd (5064239584982227 / 1125899906842624) = 5064239584982227 / 1125899906842624"
  "rnd (- (5064239584982227 / 1125899906842624)) = - (5064239584982227 / 1125899906842624)"
  using rnd_dyadic [of "5064239584982227" 50] rnd_dyadic [of "- 5064239584982227" 50] by simp_all

lemma rn78:
  "js (10371562670043601579 / 2305843009213693952) = js (5064239584982227 / 1125899906842624)"
  by (rule js_cong)
    (use rnd_eval_to [of "10371562670043601579 / 2305843009213693952" 50 "5064239584982227"] rd110
     in \<open>simp add: rnd_small\<close>)

lemma rd111:
  "rnd (734502788657081 / 562949953421312) = 734502788657081 / 562949953421312"
  "rnd (- (734502788657081 / 562949953421312)) = - (734502788657081 / 562949953421312)"
  using rnd_dyadic [of "734502788657081" 49] rnd_dyadic [of "- 734502788657081" 49] by simp_all

lemma rd112:
  "rnd (2309995809581 / 1125899906842624) = 2309995809581 / 1125899906842624"
  "rnd (- (2309995809581 / 1125899906842624)) = - (2309995809581 / 1125899906842624)"
  using rnd_dyadic [of "2309995809581" 50] rnd_dyadic [of "- 2309995809581" 50] by simp_all

lemma rd113:
  "rnd (7569394268835021 / 36893488147419103232) = 7569394268835021 / 36893488147419103232"
  "rnd (- (7569394268835021 / 36893488147419103232)) = - (7569394268835021 / 36893488147419103232)"
  using rnd_dyadic [of "7569394268835021" 65] rnd_dyadic [of "- 7569394268835021" 65] by simp_all

lemma rn79:
  "js (8322637013805119529001979657 / 40564819207303340847894502572032) = js (7569394268835021 / 36893488147419103232)"
  by (rule js_cong)
    (use rnd_eval_to [of "8322637013805119529001979657 / 40564819207303340847894502572032" 65 "7569394268835021"] rd113
     in \<open>simp add: rnd_small\<close>)

lemma rd114:
  "rnd (709488814940295 / 576460752303423488) = 709488814940295 / 576460752303423488"
  "rnd (- (709488814940295 / 576460752303423488)) = - (709488814940295 / 576460752303423488)"
  using rnd_dyadic [of "709488814940295" 59] rnd_dyadic [of "- 709488814940295" 59] by simp_all

lemma rn80:
  "js (51124057001418360865419207214017 / 41538374868278621028243970633760768) = js (709488814940295 / 576460752303423488)"
  by (rule js_cong)
    (use rnd_eval_to [of "51124057001418360865419207214017 / 41538374868278621028243970633760768" 62 "5675910519522360"] rd114
     in \<open>simp add: rnd_small\<close>)

lemma rd115:
  "rnd (5065625305323907 / 1125899906842624) = 5065625305323907 / 1125899906842624"
  "rnd (- (5065625305323907 / 1125899906842624)) = - (5065625305323907 / 1125899906842624)"
  using rnd_dyadic [of "5065625305323907" 50] rnd_dyadic [of "- 5065625305323907" 50] by simp_all

lemma rn81:
  "js (2593600156325840519 / 576460752303423488) = js (5065625305323907 / 1125899906842624)"
  by (rule js_cong)
    (use rnd_eval_to [of "2593600156325840519 / 576460752303423488" 50 "5065625305323907"] rd115
     in \<open>simp add: rnd_small\<close>)

lemma rd116:
  "rnd (54665581109823 / 70368744177664) = 54665581109823 / 70368744177664"
  "rnd (- (54665581109823 / 70368744177664)) = - (54665581109823 / 70368744177664)"
  using rnd_dyadic [of "54665581109823" 46] rnd_dyadic [of "- 54665581109823" 46] by simp_all

lemma rd117:
  "rnd (924275467901 / 1125899906842624) = 924275467901 / 1125899906842624"
  "rnd (- (924275467901 / 1125899906842624)) = - (924275467901 / 1125899906842624)"
  using rnd_dyadic [of "924275467901" 50] rnd_dyadic [of "- 924275467901" 50] by simp_all

lemma rd118:
  "rnd (3028665853217997 / 36893488147419103232) = 3028665853217997 / 36893488147419103232"
  "rnd (- (3028665853217997 / 36893488147419103232)) = - (3028665853217997 / 36893488147419103232)"
  using rnd_dyadic [of "3028665853217997" 65] rnd_dyadic [of "- 3028665853217997" 65] by simp_all

lemma rn82:
  "js (3330053322261307734201052697 / 40564819207303340847894502572032) = js (3028665853217997 / 36893488147419103232)"
  by (rule js_cong)
    (use rnd_eval_to [of "3330053322261307734201052697 / 40564819207303340847894502572032" 66 "6057331706435994"] rd118
     in \<open>simp add: rnd_small\<close>)

lemma rd119:
  "rnd (1135522590438661 / 2305843009213693952) = 1135522590438661 / 2305843009213693952"
  "rnd (- (1135522590438661 / 2305843009213693952)) = - (1135522590438661 / 2305843009213693952)"
  using rnd_dyadic [of "1135522590438661" 61] rnd_dyadic [of "- 1135522590438661" 61] by simp_all

lemma rn83:
  "js (20455756460681335321732812997569 / 41538374868278621028243970633760768) = js (1135522590438661 / 2305843009213693952)"
  by (rule js_cong)
    (use rnd_eval_to [of "20455756460681335321732812997569 / 41538374868278621028243970633760768" 63 "4542090361754644"] rd119
     in \<open>simp add: rnd_small\<close>)

lemma rd120:
  "rnd (2533089879856885 / 562949953421312) = 2533089879856885 / 562949953421312"
  "rnd (- (2533089879856885 / 562949953421312)) = - (2533089879856885 / 562949953421312)"
  using rnd_dyadic [of "2533089879856885" 49] rnd_dyadic [of "- 2533089879856885" 49] by simp_all

lemma rn84:
  "js (10375536147893800197 / 2305843009213693952) = js (2533089879856885 / 562949953421312)"
  by (rule js_cong)
    (use rnd_eval_to [of "10375536147893800197 / 2305843009213693952" 50 "5066179759713770"] rd120
     in \<open>simp add: rnd_small\<close>)

lemma rd121:
  "rnd (140146509100087 / 562949953421312) = 140146509100087 / 562949953421312"
  "rnd (- (140146509100087 / 562949953421312)) = - (140146509100087 / 562949953421312)"
  using rnd_dyadic [of "140146509100087" 49] rnd_dyadic [of "- 140146509100087" 49] by simp_all

lemma rd122:
  "rnd (184910539019 / 562949953421312) = 184910539019 / 562949953421312"
  "rnd (- (184910539019 / 562949953421312)) = - (184910539019 / 562949953421312)"
  using rnd_dyadic [of "184910539019" 49] rnd_dyadic [of "- 184910539019" 49] by simp_all

lemma rd123:
  "rnd (2423659417029837 / 73786976294838206464) = 2423659417029837 / 73786976294838206464"
  "rnd (- (2423659417029837 / 73786976294838206464)) = - (2423659417029837 / 73786976294838206464)"
  using rnd_dyadic [of "2423659417029837" 66] rnd_dyadic [of "- 2423659417029837" 66] by simp_all

lemma rn85:
  "js (666210427698276805764014543 / 20282409603651670423947251286016) = js (2423659417029837 / 73786976294838206464)"
  by (rule js_cong)
    (use rnd_eval_to [of "666210427698276805764014543 / 20282409603651670423947251286016" 67 "4847318834059674"] rd123
     in \<open>simp add: rnd_small\<close>)

lemma rd124:
  "rnd (3634762173110133 / 18446744073709551616) = 3634762173110133 / 18446744073709551616"
  "rnd (- (3634762173110133 / 18446744073709551616)) = - (3634762173110133 / 18446744073709551616)"
  using rnd_dyadic [of "3634762173110133" 64] rnd_dyadic [of "- 3634762173110133" 64] by simp_all

lemma rn86:
  "js (16369513568399168709747886605249 / 83076749736557242056487941267521536) = js (3634762173110133 / 18446744073709551616)"
  by (rule js_cong)
    (use rnd_eval_to [of "16369513568399168709747886605249 / 83076749736557242056487941267521536" 65 "7269524346220266"] rd124
     in \<open>simp add: rnd_small\<close>)

lemma rd125:
  "rnd (5066401607990937 / 1125899906842624) = 5066401607990937 / 1125899906842624"
  "rnd (- (5066401607990937 / 1125899906842624)) = - (5066401607990937 / 1125899906842624)"
  using rnd_dyadic [of "5066401607990937" 50] rnd_dyadic [of "- 5066401607990937" 50] by simp_all

lemma rn87:
  "js (83007923945323517813 / 18446744073709551616) = js (5066401607990937 / 1125899906842624)"
  by (rule js_cong)
    (use rnd_eval_to [of "83007923945323517813 / 18446744073709551616" 50 "5066401607990937"] rd125
     in \<open>simp add: rnd_small\<close>)

lemma rd126:
  "rnd (720150435315507 / 4503599627370496) = 720150435315507 / 4503599627370496"
  "rnd (- (720150435315507 / 4503599627370496)) = - (720150435315507 / 4503599627370496)"
  using rnd_dyadic [of "720150435315507" 52] rnd_dyadic [of "- 720150435315507" 52] by simp_all

lemma rd127:
  "rnd (8172567695124441 / 4503599627370496) = 8172567695124441 / 4503599627370496"
  "rnd (- (8172567695124441 / 4503599627370496)) = - (8172567695124441 / 4503599627370496)"
  using rnd_dyadic [of "8172567695124441" 52] rnd_dyadic [of "- 8172567695124441" 52] by simp_all

lemma rd128:
  "rnd (8277777904695983 / 9007199254740992) = 8277777904695983 / 9007199254740992"
  "rnd (- (8277777904695983 / 9007199254740992)) = - (8277777904695983 / 9007199254740992)"
  using rnd_dyadic [of "8277777904695983" 53] rnd_dyadic [of "- 8277777904695983" 53] by simp_all

lemma rn88:
  "js (389169890244021 / 423462768116188) = js (8277777904695983 / 9007199254740992)"
  by (rule js_cong)
    (use rnd_eval_to [of "389169890244021 / 423462768116188" 53 "8277777904695983"] rd128
     in \<open>simp add: rnd_small\<close>)

lemma rd129:
  "rnd (720150435315507 / 9007199254740992) = 720150435315507 / 9007199254740992"
  "rnd (- (720150435315507 / 9007199254740992)) = - (720150435315507 / 9007199254740992)"
  using rnd_dyadic [of "720150435315507" 53] rnd_dyadic [of "- 720150435315507" 53] by simp_all

lemma rd130:
  "rnd (2962494580916899 / 9007199254740992) = 2962494580916899 / 9007199254740992"
  "rnd (- (2962494580916899 / 9007199254740992)) = - (2962494580916899 / 9007199254740992)"
  using rnd_dyadic [of "2962494580916899" 53] rnd_dyadic [of "- 2962494580916899" 53] by simp_all

lemma rd131:
  "rnd (8172567695124441 / 9007199254740992) = 8172567695124441 / 9007199254740992"
  "rnd (- (8172567695124441 / 9007199254740992)) = - (8172567695124441 / 9007199254740992)"
  using rnd_dyadic [of "8172567695124441" 53] rnd_dyadic [of "- 8172567695124441" 53] by simp_all

lemma rd132:
  "rnd (5930223549523049 / 9007199254740992) = 5930223549523049 / 9007199254740992"
  "rnd (- (5930223549523049 / 9007199254740992)) = - (5930223549523049 / 9007199254740992)"
  using rnd_dyadic [of "5930223549523049" 53] rnd_dyadic [of "- 5930223549523049" 53] by simp_all

lemmas later_roundings =
  rn30 rd29 rn14 rd13 rd3 rn31 rd30 rn32 rd31 rn33 rd32 rn34 rd33 rn35 rd34 rn36 rd35
  rn37 rd36 rn38 rd37 rn39 rd38 rd39 rd40 rn40 rd41 rn41 rd42 rd43 rd44 rd45 rn42 rd27
  rd46 rn4 rd4 rn43 rd47 rn44 rd48 rn45 rd49 rn46 rd50 rn47 rd51 rn48 rd52 rn49 rd53 rn50
  rd54 rd55 rd56 rd57 rd58 rn51 rd59 rd60 rd61 rd62 rd63 rn5 rd5 rn52 rd64 rn53 rd65 rn54
  rd66 rn55 rd67 rn56 rd68 rn57 rd69 rn58 rd70 rn59 rd71 rd72 rd73 rd74 rd75 rn60 rd76
  rd77 rd78 rd79 rd80 rn6 rd6 rn61 rd81 rd82 rd83 rn62 rd84 rn63 rd85 rd86 rd87 rn64 rd88
  rn65 rd89 rn66 rd90 rd91 rd92 rn67 rd93 rn68 rd94 rn69 rd95 rd96 rd97 rn70 rd98 rn71
  rd99 rn72 rd100 rd101 rd102 rn73 rd103 rn74 rd104 rn75 rd105 rd106 rd107 rn76 rd108
  rn77 rd109 rn78 rd110 rd111 rd112 rn79 rd113 rn80 rd114 rn81 rd115 rd116 rd117 rn82
  rd118 rn83 rd119 rn84 rd120 rd121 rd122 rn85 rd123 rn86 rd124 rn87 rd125 rd126 rd127
  rn88 rd128 rd129 rd130 rd131 rd132 rn7 rd7

lemmas example_defs = tower_def awaiting_def base_block_def placed_1_def placed_2_def placed_3_def placed_4_def
  placed_5_def debris_1_def debris_2_def debris_3_def debris_4_def debris_5_def

lemmas example_eval = animate_def deltaTime_of_def updateGame_def moveCurrentBlock_def
  updateCamera_def Let_def obj_def set_obj_def CONFIG_defs Fin_dbl js_eval rnd_small
  config_roundings run_roundings later_roundings

lemma spawn_2:
  "fire Timeout (awaiting [base_block, placed_1] [debris_1]
       (5908722711110091 / 72057594037927936) 900 4) =
     Inr (tower [base_block, placed_1] [debris_1]
       (5908722711110091 / 72057594037927936) (- 5) 900 4)"
  by (simp add: example_defs fire_def timeoutCallback_def addNewMovingBlock_def addBlock_def example_eval)

lemma frame_10:
  "fire (Frame (dbl 1000)) (tower [base_block, placed_1] [debris_1]
       (5908722711110091 / 72057594037927936) (- 5) 900 4) =
     Inr (tower [base_block, placed_1] [debris_1]
       (5908722711110091 / 72057594037927936) (- (5075667546444103 / 1125899906842624)) 1000 4)"
  by (simp add: example_defs fire_def example_eval)

lemma frame_11:
  "fire (Frame (dbl 1100)) (tower [base_block, placed_1] [debris_1]
       (5908722711110091 / 72057594037927936) (- (5075667546444103 / 1125899906842624)) 1000 4) =
     Inr (tower [base_block, placed_1] [debris_1]
       (5908722711110091 / 72057594037927936) (- (2260917779337543 / 562949953421312)) 1100 4)"
  by (simp add: example_defs fire_def example_eval)

lemma frame_12:
  "fire (Frame (dbl 1200)) (tower [base_block, placed_1] [debris_1]
       (5908722711110091 / 72057594037927936) (- (2260917779337543 / 562949953421312)) 1100 4) =
     Inr (tower [base_block, placed_1] [debris_1]
       (5908722711110091 / 72057594037927936) (- (3968003570906069 / 1125899906842624)) 1200 4)"
  by (simp add: example_defs fire_def example_eval)

lemma frame_13:
  "fire (Frame (dbl 1300)) (tower [base_block, placed_1] [debris_1]
       (5908722711110091 / 72057594037927936) (- (3968003570906069 / 1125899906842624)) 1200 4) =
     Inr (tower [base_block, placed_1] [debris_1]
       (5908722711110091 / 72057594037927936) (- (853542895784263 / 281474976710656)) 1300 4)"
  by (simp add: example_defs fire_def example_eval)

lemma frame_14:
  "fire (Frame (dbl 1400)) (tower [base_block, placed_1] [debris_1]
       (5908722711110091 / 72057594037927936) (- (853542895784263 / 281474976710656)) 1300 4) =
     Inr (tower [base_block, placed_1] [debris_1]
       (5908722711110091 / 72057594037927936) (- (2860339595368035 / 1125899906842624)) 1400 4)"
  by (simp add: example_defs fire_def example_eval)

lemma frame_15:
  "fire (Frame (dbl 1500)) (tower [base_block, placed_1] [debris_1]
       (5908722711110091 / 72057594037927936) (- (2860339595368035 / 1125899906842624)) 1400 4) =
     Inr (tower [base_block, placed_1] [debris_1]
       (5908722711110091 / 72057594037927936) (- (1153253803799509 / 562949953421312)) 1500 4)"
  by (simp add: example_defs fire_def example_eval)

lemma frame_16:
  "fire (Frame (dbl 1600)) (tower [base_block, placed_1] [debris_1]
       (5908722711110091 / 72057594037927936) (- (1153253803799509 / 562949953421312)) 1500 4) =
     Inr (tower [base_block, placed_1] [debris_1]
       (5908722711110091 / 72057594037927936) (- (1752675619830001 / 1125899906842624)) 1600 4)"
  by (simp add: example_defs fire_def example_eval)

lemma frame_17:
  "fire (Frame (dbl 1700)) (tower [base_block, placed_1] [debris_1]
       (5908722711110091 / 72057594037927936) (- (1752675619830001 / 1125899906842624)) 1600 4) =
     Inr (tower [base_block, placed_1] [debris_1]
       (5908722711110091 / 72057594037927936) (- (149855454007623 / 140737488355328)) 1700 4)"
  by (simp add: example_defs fire_def example_eval)

lemma frame_18:
  "fire (Frame (dbl 1800)) (tower [base_block, placed_1] [debris_1]
       (5908722711110091 / 72057594037927936) (- (149855454007623 / 140737488355328)) 1700 4) =
     Inr (tower [base_block, placed_1] [debris_1]
       (5908722711110091 / 72057594037927936) (- (5160093154335735 / 9007199254740992)) 1800 4)"
  by (simp add: example_defs fire_def example_eval)

lemma click_2:
  "fire (Input Mousedown) (tower [base_block, placed_1] [debris_1]
       (5908722711110091 / 72057594037927936) (- (5160093154335735 / 9007199254740992)) 1800 4) =
     Inr (awaiting [base_block, placed_1, placed_2] [debris_1, debris_2]
       (6052837899185947 / 72057594037927936) 1800 4)"
  by (simp add: example_defs fire_def handleInput_def placeBlock_def createFallingPiece_def
      updateScore_def increaseDifficulty_def endGame_def example_eval)

lemma spawn_3:
  "fire Timeout (awaiting [base_block, placed_1, placed_2] [debris_1, debris_2]
       (6052837899185947 / 72057594037927936) 1800 4) =
     Inr (tower [base_block, placed_1, placed_2] [debris_1, debris_2]
       (6052837899185947 / 72057594037927936) (- 5) 1800 4)"
  by (simp add: example_defs fire_def timeoutCallback_def addNewMovingBlock_def addBlock_def example_eval)

lemma frame_19:
  "fire (Frame (dbl 1900)) (tower [base_block, placed_1, placed_2] [debris_1, debris_2]
       (6052837899185947 / 72057594037927936) (- 5) 1800 4) =
     Inr (tower [base_block, placed_1, placed_2] [debris_1, debris_2]
       (6052837899185947 / 72057594037927936) (- (1265539862295361 / 281474976710656)) 1900 4)"
  by (simp add: example_defs fire_def example_eval)

lemma frame_20:
  "fire (Frame (dbl 2000)) (tower [base_block, placed_1, placed_2] [debris_1, debris_2]
       (6052837899185947 / 72057594037927936) (- (1265539862295361 / 281474976710656)) 1900 4) =
     Inr (tower [base_block, placed_1, placed_2] [debris_1, debris_2]
       (6052837899185947 / 72057594037927936) (- (561852420518721 / 140737488355328)) 2000 4)"
  by (simp add: example_defs fire_def example_eval)

lemma frame_21:
  "fire (Frame (dbl 2100)) (tower [base_block, placed_1, placed_2] [debris_1, debris_2]
       (6052837899185947 / 72057594037927936) (- (561852420518721 / 140737488355328)) 2000 4) =
     Inr (tower [base_block, placed_1, placed_2] [debris_1, debris_2]
       (6052837899185947 / 72057594037927936) (- (981869819779523 / 281474976710656)) 2100 4)"
  by (simp add: example_defs fire_def example_eval)

lemma frame_22:
  "fire (Frame (dbl 2200)) (tower [base_block, placed_1, placed_2] [debris_1, debris_2]
       (6052837899185947 / 72057594037927936) (- (981869819779523 / 281474976710656)) 2100 4) =
     Inr (tower [base_block, placed_1, placed_2] [debris_1, debris_2]
       (6052837899185947 / 72057594037927936) (- (210008699630401 / 70368744177664)) 2200 4)"
  by (simp add: example_defs fire_def example_eval)

lemma frame_23:
  "fire (Frame (dbl 2300)) (tower [base_block, placed_1, placed_2] [debris_1, debris_2]
       (6052837899185947 / 72057594037927936) (- (210008699630401 / 70368744177664)) 2200 4) =
     Inr (tower [base_block, placed_1, placed_2] [debris_1, debris_2]
       (6052837899185947 / 72057594037927936) (- (698199777263685 / 281474976710656)) 2300 4)"
  by (simp add: example_defs fire_def example_eval)

lemma frame_24:
  "fire (Frame (dbl 2400)) (tower [base_block, placed_1, placed_2] [debris_1, debris_2]
       (6052837899185947 / 72057594037927936) (- (698199777263685 / 281474976710656)) 2300 4) =
     Inr (tower [base_block, placed_1, placed_2] [debris_1, debris_2]
       (6052837899185947 / 72057594037927936) (- (278182378002883 / 140737488355328)) 2400 4)"
  by (simp add: example_defs fire_def example_eval)

lemma frame_25:
  "fire (Frame (dbl 2500)) (tower [base_block, placed_1, placed_2] [debris_1, debris_2]
       (6052837899185947 / 72057594037927936) (- (278182378002883 / 140737488355328)) 2400 4) =
     Inr (tower [base_block, placed_1, placed_2] [debris_1, debris_2]
       (6052837899185947 / 72057594037927936) (- (414529734747847 / 281474976710656)) 2500 4)"
  by (simp add: example_defs fire_def example_eval)

lemma frame_26:
  "fire (Frame (dbl 2600)) (tower [base_block, placed_1, placed_2] [debris_1, debris_2]
       (6052837899185947 / 72057594037927936) (- (414529734747847 / 281474976710656)) 2500 4) =
     Inr (tower [base_block, placed_1, placed_2] [debris_1, debris_2]
       (6052837899185947 / 72057594037927936) (- (8726230831677695 / 9007199254740992)) 2600 4)"
  by (simp add: example_defs fire_def example_eval)

lemma frame_27:
  "fire (Frame (dbl 2700)) (tower [base_block, placed_1, placed_2] [debris_1, debris_2]
       (6052837899185947 / 72057594037927936) (- (8726230831677695 / 9007199254740992)) 2600 4) =
     Inr (tower [base_block, placed_1, placed_2] [debris_1, debris_2]
       (6052837899185947 / 72057594037927936) (- (2093755075712143 / 4503599627370496)) 2700 4)"
  by (simp add: example_defs fire_def example_eval)

lemma click_3:
  "fire (Input Mousedown) (tower [base_block, placed_1, placed_2] [debris_1, debris_2]
       (6052837899185947 / 72057594037927936) (- (2093755075712143 / 4503599627370496)) 2700 4) =
     Inr (awaiting [base_block, placed_1, placed_2, placed_3] [debris_1, debris_2, debris_3]
       (6196953087261803 / 72057594037927936) 2700 4)"
  by (simp add: example_defs fire_def handleInput_def placeBlock_def createFallingPiece_def
      updateScore_def increaseDifficulty_def endGame_def example_eval)

lemma spawn_4:
  "fire Timeout (awaiting [base_block, placed_1, placed_2, placed_3] [debris_1, debris_2, debris_3]
       (6196953087261803 / 72057594037927936) 2700 4) =
     Inr (tower [base_block, placed_1, placed_2, placed_3] [debris_1, debris_2, debris_3]
       (6196953087261803 / 72057594037927936) (- 5) 2700 4)"
  by (simp add: example_defs fire_def timeoutCallback_def addNewMovingBlock_def addBlock_def example_eval)

lemma frame_28:
  "fire (Frame (dbl 2800)) (tower [base_block, placed_1, placed_2, placed_3] [debris_1, debris_2, debris_3]
       (6196953087261803 / 72057594037927936) (- 5) 2700 4) =
     Inr (tower [base_block, placed_1, placed_2, placed_3] [debris_1, debris_2, debris_3]
       (6196953087261803 / 72057594037927936) (- (5048651351918785 / 1125899906842624)) 2800 4)"
  by (simp add: example_defs fire_def example_eval)

lemma frame_29:
  "fire (Frame (dbl 2900)) (tower [base_block, placed_1, placed_2, placed_3] [debris_1, debris_2, debris_3]
       (6196953087261803 / 72057594037927936) (- (5048651351918785 / 1125899906842624)) 2800 4) =
     Inr (tower [base_block, placed_1, placed_2, placed_3] [debris_1, debris_2, debris_3]
       (6196953087261803 / 72057594037927936) (- (2233901584812225 / 562949953421312)) 2900 4)"
  by (simp add: example_defs fire_def example_eval)

lemma frame_30:
  "fire (Frame (dbl 3000)) (tower [base_block, placed_1, placed_2, placed_3] [debris_1, debris_2, debris_3]
       (6196953087261803 / 72057594037927936) (- (2233901584812225 / 562949953421312)) 2900 4) =
     Inr (tower [base_block, placed_1, placed_2, placed_3] [debris_1, debris_2, debris_3]
       (6196953087261803 / 72057594037927936) (- (3886954987330115 / 1125899906842624)) 3000 4)"
  by (simp add: example_defs fire_def example_eval)

lemma frame_31:
  "fire (Frame (dbl 3100)) (tower [base_block, placed_1, placed_2, placed_3] [debris_1, debris_2, debris_3]
       (6196953087261803 / 72057594037927936) (- (3886954987330115 / 1125899906842624)) 3000 4) =
     Inr (tower [base_block, placed_1, placed_2, placed_3] [debris_1, debris_2, debris_3]
       (6196953087261803 / 72057594037927936) (- (826526701258945 / 281474976710656)) 3100 4)"
  by (simp add: example_defs fire_def example_eval)

lemma frame_32:
  "fire (Frame (dbl 3200)) (tower [base_block, placed_1, placed_2, placed_3] [debris_1, debris_2, debris_3]
       (6196953087261803 / 72057594037927936) (- (826526701258945 / 281474976710656)) 3100 4) =
     Inr (tower [base_block, placed_1, placed_2, placed_3] [debris_1, debris_2, debris_3]
       (6196953087261803 / 72057594037927936) (- (2725258622741445 / 1125899906842624)) 3200 4)"
  by (simp add: example_defs fire_def example_eval)

lemma frame_33:
  "fire (Frame (dbl 3300)) (tower [base_block, placed_1, placed_2, placed_3] [debris_1, debris_2, debris_3]
       (6196953087261803 / 72057594037927936) (- (2725258622741445 / 1125899906842624)) 3200 4) =
     Inr (tower [base_block, placed_1, placed_2, placed_3] [debris_1, debris_2, debris_3]
       (6196953087261803 / 72057594037927936) (- (1072205220223555 / 562949953421312)) 3300 4)"
  by (simp add: example_defs fire_def example_eval)

lemma frame_34:
  "fire (Frame (dbl 3400)) (tower [base_block, placed_1, placed_2, placed_3] [debris_1, debris_2, debris_3]
       (6196953087261803 / 72057594037927936) (- (1072205220223555 / 562949953421312)) 3300 4) =
     Inr (tower [base_block, placed_1, placed_2, placed_3] [debris_1, debris_2, debris_3]
       (6196953087261803 / 72057594037927936) (- (1563562258152775 / 1125899906842624)) 3400 4)"
  by (simp add: example_defs fire_def example_eval)

lemma frame_35:
  "fire (Frame (dbl 3500)) (tower [base_block, placed_1, placed_2, placed_3] [debris_1, debris_2, debris_3]
       (6196953087261803 / 72057594037927936) (- (1563562258152775 / 1125899906842624)) 3400 4) =
     Inr (tower [base_block, placed_1, placed_2, placed_3] [debris_1, debris_2, debris_3]
       (6196953087261803 / 72057594037927936) (- (7861712606867519 / 9007199254740992)) 3500 4)"
  by (simp add: example_defs fire_def example_eval)

lemma frame_36:
  "fire (Frame (dbl 3600)) (tower [base_block, placed_1, placed_2, placed_3] [debris_1, debris_2, debris_3]
       (6196953087261803 / 72057594037927936) (- (7861712606867519 / 9007199254740992)) 3500 4) =
     Inr (tower [base_block, placed_1, placed_2, placed_3] [debris_1, debris_2, debris_3]
       (6196953087261803 / 72057594037927936) (- (1607463574256419 / 4503599627370496)) 3600 4)"
  by (simp add: example_defs fire_def example_eval)

lemma click_4:
  "fire (Input Mousedown) (tower [base_block, placed_1, placed_2, placed_3] [debris_1, debris_2, debris_3]
       (6196953087261803 / 72057594037927936) (- (1607463574256419 / 4503599627370496)) 3600 4) =
     Inr (awaiting [base_block, placed_1, placed_2, placed_3, placed_4] [debris_1, debris_2, debris_3, debris_4]
       (6341068275337659 / 72057594037927936) 3600 4)"
  by (simp add: example_defs fire_def handleInput_def placeBlock_def createFallingPiece_def
      updateScore_def increaseDifficulty_def endGame_def example_eval)

lemma spawn_5:
  "fire Timeout (awaiting [base_block, placed_1, placed_2, placed_3, placed_4] [debris_1, debris_2, debris_3, debris_4]
       (6341068275337659 / 72057594037927936) 3600 4) =
     Inr (tower [base_block, placed_1, placed_2, placed_3, placed_4] [debris_1, debris_2, debris_3, debris_4]
       (6341068275337659 / 72057594037927936) (- 5) 3600 4)"
  by (simp add: example_defs fire_def timeoutCallback_def addNewMovingBlock_def addBlock_def example_eval)

lemma frame_37:
  "fire (Frame (dbl 3700)) (tower [base_block, placed_1, placed_2, placed_3, placed_4] [debris_1, debris_2, debris_3, debris_4]
       (6341068275337659 / 72057594037927936) (- 5) 3600 4) =
     Inr (tower [base_block, placed_1, placed_2, placed_3, placed_4] [debris_1, debris_2, debris_3, debris_4]
       (6341068275337659 / 72057594037927936) (- (2517571627328063 / 562949953421312)) 3700 (2420651029468485 / 562949953421312))"
  by (simp add: example_defs fire_def example_eval)

lemma frame_38:
  "fire (Frame (dbl 3800)) (tower [base_block, placed_1, placed_2, placed_3, placed_4] [debris_1, debris_2, debris_3, debris_4]
       (6341068275337659 / 72057594037927936) (- (2517571627328063 / 562949953421312)) 3700 (2420651029468485 / 562949953421312)) =
     Inr (tower [base_block, placed_1, placed_2, placed_3, placed_4] [debris_1, debris_2, debris_3, debris_4]
       (6341068275337659 / 72057594037927936) (- (1110196743774783 / 281474976710656)) 3800 (2488211773876055 / 562949953421312))"
  by (simp add: example_defs fire_def example_eval)

lemma frame_39:
  "fire (Frame (dbl 3900)) (tower [base_block, placed_1, placed_2, placed_3, placed_4] [debris_1, debris_2, debris_3, debris_4]
       (6341068275337659 / 72057594037927936) (- (1110196743774783 / 281474976710656)) 3800 (2488211773876055 / 562949953421312)) =
     Inr (tower [base_block, placed_1, placed_2, placed_3, placed_4] [debris_1, debris_2, debris_3, debris_4]
       (6341068275337659 / 72057594037927936) (- (1923215347771069 / 562949953421312)) 3900 (1257622088653639 / 281474976710656))"
  by (simp add: example_defs fire_def example_eval)

lemma frame_40:
  "fire (Frame (dbl 4000)) (tower [base_block, placed_1, placed_2, placed_3, placed_4] [debris_1, debris_2, debris_3, debris_4]
       (6341068275337659 / 72057594037927936) (- (1923215347771069 / 562949953421312)) 3900 (1257622088653639 / 281474976710656)) =
     Inr (tower [base_block, placed_1, placed_2, placed_3, placed_4] [debris_1, debris_2, debris_3, debris_4]
       (6341068275337659 / 72057594037927936) (- (406509301998143 / 140737488355328)) 4000 (2526060381919531 / 562949953421312))"
  by (simp add: example_defs fire_def example_eval)

lemma frame_41:
  "fire (Frame (dbl 4100)) (tower [base_block, placed_1, placed_2, placed_3, placed_4] [debris_1, debris_2, debris_3, debris_4]
       (6341068275337659 / 72057594037927936) (- (406509301998143 / 140737488355328)) 4000 (2526060381919531 / 562949953421312)) =
     Inr (tower [base_block, placed_1, placed_2, placed_3, placed_4] [debris_1, debris_2, debris_3, debris_4]
       (6341068275337659 / 72057594037927936) (- (1328859068214075 / 562949953421312)) 4100 (2530388161449449 / 562949953421312))"
  by (simp add: example_defs fire_def example_eval)

lemma frame_42:
  "fire (Frame (dbl 4200)) (tower [base_block, placed_1, placed_2, placed_3, placed_4] [debris_1, debris_2, debris_3, debris_4]
       (6341068275337659 / 72057594037927936) (- (1328859068214075 / 562949953421312)) 4100 (2530388161449449 / 562949953421312)) =
     Inr (tower [base_block, placed_1, placed_2, placed_3, placed_4] [debris_1, debris_2, debris_3, debris_4]
       (6341068275337659 / 72057594037927936) (- (515840464217789 / 281474976710656)) 4200 (5064239584982227 / 1125899906842624))"
  by (simp add: example_defs fire_def example_eval)

lemma frame_43:
  "fire (Frame (dbl 4300)) (tower [base_block, placed_1, placed_2, placed_3, placed_4] [debris_1, debris_2, debris_3, debris_4]
       (6341068275337659 / 72057594037927936) (- (515840464217789 / 281474976710656)) 4200 (5064239584982227 / 1125899906842624)) =
     Inr (tower [base_block, placed_1, placed_2, placed_3, placed_4] [debris_1, debris_2, debris_3, debris_4]
       (6341068275337659 / 72057594037927936) (- (734502788657081 / 562949953421312)) 4300 (5065625305323907 / 1125899906842624))"
  by (simp add: example_defs fire_def example_eval)

lemma frame_44:
  "fire (Frame (dbl 4400)) (tower [base_block, placed_1, placed_2, placed_3, placed_4] [debris_1, debris_2, debris_3, debris_4]
       (6341068275337659 / 72057594037927936) (- (734502788657081 / 562949953421312)) 4300 (5065625305323907 / 1125899906842624)) =
     Inr (tower [base_block, placed_1, placed_2, placed_3, placed_4] [debris_1, debris_2, debris_3, debris_4]
       (6341068275337659 / 72057594037927936) (- (54665581109823 / 70368744177664)) 4400 (2533089879856885 / 562949953421312))"
  by (simp add: example_defs fire_def example_eval)

lemma frame_45:
  "fire (Frame (dbl 4500)) (tower [base_block, placed_1, placed_2, placed_3, placed_4] [debris_1, debris_2, debris_3, debris_4]
       (6341068275337659 / 72057594037927936) (- (54665581109823 / 70368744177664)) 4400 (2533089879856885 / 562949953421312)) =
     Inr (tower [base_block, placed_1, placed_2, placed_3, placed_4] [debris_1, debris_2, debris_3, debris_4]
       (6341068275337659 / 72057594037927936) (- (140146509100087 / 562949953421312)) 4500 (5066401607990937 / 1125899906842624))"
  by (simp add: example_defs fire_def example_eval)

lemma click_5:
  "fire (Input Mousedown) (tower [base_block, placed_1, placed_2, placed_3, placed_4] [debris_1, debris_2, debris_3, debris_4]
       (6341068275337659 / 72057594037927936) (- (140146509100087 / 562949953421312)) 4500 (5066401607990937 / 1125899906842624)) =
     Inr (awaiting [base_block, placed_1, placed_2, placed_3, placed_4, placed_5] [debris_1, debris_2, debris_3, debris_4, debris_5]
       (6485183463413515 / 72057594037927936) 4500 (5066401607990937 / 1125899906842624))"
  by (simp add: example_defs fire_def handleInput_def placeBlock_def createFallingPiece_def
      updateScore_def increaseDifficulty_def endGame_def example_eval)

lemma first_placed_awaiting:
  "first_placed = awaiting [base_block, placed_1] [debris_1]
       (5908722711110091 / 72057594037927936) 900 4"
  by (simp add: first_placed_def example_defs)

lemma run_append:
  "run (es @ fs) s = (case run es s of Inl err \<Rightarrow> Inl err | Inr s' \<Rightarrow> run fs s')"
  by (induction es arbitrary: s) (simp_all split: sum.split)

lemma later_run: "run later_events first_placed = Inr fifth_placed"
  unfolding first_placed_awaiting later_events_def fifth_placed_def
  by (simp add:
      spawn_2 frame_10 frame_11 frame_12 frame_13 frame_14 frame_15 frame_16 frame_17
      frame_18 click_2 spawn_3 frame_19 frame_20 frame_21 frame_22 frame_23 frame_24
      frame_25 frame_26 frame_27 click_3 spawn_4 frame_28 frame_29 frame_30 frame_31
      frame_32 frame_33 frame_34 frame_35 frame_36 click_4 spawn_5 frame_37 frame_38
      frame_39 frame_40 frame_41 frame_42 frame_43 frame_44 frame_45 click_5)

lemma five_placements_run:
  "run ([Frame (dbl 100), Frame (dbl 200), Frame (dbl 300), Frame (dbl 400), Frame (dbl 500),
         Frame (dbl 600), Frame (dbl 700), Frame (dbl 800), Frame (dbl 900), Input Mousedown] @
        later_events) (scenario (fneg BOUNDS)) = Inr fifth_placed"
  unfolding run_append example_run by (simp add: later_run)

lemma reachable_fifth_placed: "reachable fifth_placed"
  unfolding reachable_def using init_scenario five_placements_run by blast

section \<open>The claims\<close>

subsection \<open>Trimming on a successful placement\<close>

text \<open>
  Claim C1. Whenever \<open>placeBlock\<close> runs past its guard on a block whose overhang
  \<open>|movingPos - basePos|\<close> is smaller than its width, the placement succeeds (the game
  does not end). The kept block gets the width \<open>movingWidth - overhang\<close>, which is
  positive, and the centre \<open>movingPos - (movingPos - basePos) / 2\<close>; it is pushed onto the
  stack. The debris piece has the width \<open>overhang\<close> and the centre
  \<open>keptNewPos + direction * (newWidth / 2 + overhang / 2)\<close>, where \<open>direction\<close> is 1 when
  the moving block is to the right of the base and -1 otherwise, also when the two
  positions coincide. All operations are those of the script, on doubles.
\<close>

theorem placeBlock_trim:
  assumes "currentBlock s = Some c" "\<not> gameEnded s" "\<not> isPlacingBlock s" "stack s \<noteq> []"
    and "c < length (objs s)"
    and "flt (fabs (fsub (mesh_position_x (obj s c)) (mesh_position_x (obj s (last (stack s))))))
           (width (obj s c))"
  shows "\<exists>s'. placeBlock s = Inr s' \<and> \<not> gameEnded s' \<and>
    (let movingPos = mesh_position_x (obj s c); movingWidth = width (obj s c);
         basePos = mesh_position_x (obj s (last (stack s)));
         overhang = fabs (fsub movingPos basePos); newWidth = width (obj s' c);
         keptNewPos = mesh_position_x (obj s' c);
         dir = (if flt basePos movingPos then js 1 else js (- 1))
     in newWidth = fsub movingWidth overhang \<and> flt (js 0) newWidth \<and>
        keptNewPos = fsub movingPos (fdiv (fsub movingPos basePos) (js 2)) \<and>
        stack s' = stack s @ [c] \<and>
        drops s' = drops s @ [\<lparr>drop_width = overhang, drop_depth = depth (obj s c),
           drop_position_x = fadd keptNewPos (fmul dir (fadd (fdiv newWidth (js 2)) (fdiv overhang (js 2)))),
           drop_position_y = mesh_position_y (obj s c)\<rparr>])"
proof -
  define delta where "delta = fsub (mesh_position_x (obj s c)) (mesh_position_x (obj s (last (stack s))))"
  from assms(6) have lt: "flt (fabs delta) (width (obj s c))" by (simp add: delta_def)
  then have nge: "\<not> fge (fabs delta) (width (obj s c))" by (simp add: fge_def flt_not_fle)
  from lt have "fabs delta \<noteq> NaN" using flt_not_NaN by blast
  then have "delta \<noteq> NaN" by (simp add: fabs_NaN_iff)
  then have sgn: "fgt delta (js 0) \<longleftrightarrow>
      flt (mesh_position_x (obj s (last (stack s)))) (mesh_position_x (obj s c))"
    unfolding fgt_def delta_def by (rule fsub_pos_iff)
  have pos: "flt (js 0) (fsub (width (obj s c)) (fabs delta))" using lt by (rule flt_imp_fsub_pos)
  note pb = placeBlock_guard_passed [OF assms(1-5), unfolded Let_def, folded delta_def]
  show ?thesis
    unfolding pb Let_def delta_def [symmetric]
    using assms(2,5) nge pos by (simp add: obj_def sgn)
qed

theorem placeBlock_trim_witness:
  "\<exists>s'. placeBlock (scenario (js 2)) = Inr s' \<and> \<not> gameEnded s' \<and> width (obj s' 1) = js 1 \<and>
     mesh_position_x (obj s' 1) = js 1 \<and> stack s' = [0, 1] \<and>
     drops s' = [\<lparr>drop_width = js 2, drop_depth = js 3, drop_position_x = js (5 / 2),
                  drop_position_y = js (1 / 2)\<rparr>]"
  using placeBlock_trim [of "scenario (js 2)" 1]
  by (auto simp: scenario_def obj_def Let_def CONFIG_defs js_eval rnd_small)

subsection \<open>Failed placements\<close>

text \<open>
  Claim C2. A placement that runs past the guard of \<open>placeBlock\<close> ends the game exactly
  when the overhang is at least the width of the moving block (a tie fails). On failure
  the only changes are the flags \<open>isPlacingBlock\<close>, \<open>gameEnded\<close> and \<open>moving\<close> of the
  current block: the stack, the score and the speed are as before, and so is every other
  block.
\<close>

theorem placeBlock_failure:
  assumes "currentBlock s = Some c" "\<not> gameEnded s" "\<not> isPlacingBlock s" "stack s \<noteq> []"
    and "c < length (objs s)"
  shows "\<exists>s'. placeBlock s = Inr s' \<and>
    (let overhang = fabs (fsub (mesh_position_x (obj s c)) (mesh_position_x (obj s (last (stack s)))));
         movingWidth = width (obj s c)
     in (gameEnded s' \<longleftrightarrow> fge overhang movingWidth) \<and>
        (fge overhang movingWidth \<longrightarrow>
           s' = s\<lparr>isPlacingBlock := True, objs := (objs s)[c := (obj s c)\<lparr>moving := False\<rparr>],
                  gameEnded := True\<rparr> \<and>
           stack s' = stack s \<and> score s' = score s \<and> speed s' = speed s \<and>
           (\<forall>a. a \<noteq> c \<longrightarrow> obj s' a = obj s a)))"
proof -
  note pb = placeBlock_guard_passed [OF assms(1-5)]
  show ?thesis
    using assms(2) unfolding pb Let_def
    by (simp add: obj_def)
qed

theorem placeBlock_failure_witness:
  "placeBlock (scenario (js 3)) = Inr ((scenario (js 3))\<lparr>isPlacingBlock := True,
      objs := (objs (scenario (js 3)))[1 := (obj (scenario (js 3)) 1)\<lparr>moving := False\<rparr>],
      gameEnded := True\<rparr>)"
  using placeBlock_failure [of "scenario (js 3)" 1]
  by (simp add: scenario_def obj_def Let_def CONFIG_defs js_eval rnd_small)

subsection \<open>Motion\<close>

text \<open>
  Claim C3. On a moving current block in a game that has not ended, \<open>moveCurrentBlock\<close>
  computes \<open>newPosition = position + speed * direction * deltaTime\<close>. If
  \<open>|newPosition| > BOUNDS\<close> the direction is negated and the position stored is
  \<open>newPosition\<close> clamped into \<open>[-BOUNDS, BOUNDS]\<close>; otherwise the direction is kept and
  the position stored is \<open>newPosition\<close>.
\<close>

theorem moveCurrentBlock_advance:
  assumes "currentBlock s = Some c" "moving (obj s c)" "\<not> gameEnded s" "c < length (objs s)"
  shows "let newPosition = fadd (mesh_position_x (obj s c)) (fmul (fmul (speed s) (direction s)) deltaTime);
             s' = moveCurrentBlock deltaTime s
         in (fgt (fabs newPosition) BOUNDS \<longrightarrow>
               direction s' = fneg (direction s) \<and>
               mesh_position_x (obj s' c) = fmax (fneg BOUNDS) (fmin BOUNDS newPosition) \<and>
               fle (fneg BOUNDS) (mesh_position_x (obj s' c)) \<and>
               fle (mesh_position_x (obj s' c)) BOUNDS)
          \<and> (\<not> fgt (fabs newPosition) BOUNDS \<longrightarrow>
               direction s' = direction s \<and> mesh_position_x (obj s' c) = newPosition)"
proof -
  define np where "np = fadd (mesh_position_x (obj s c)) (fmul (fmul (speed s) (direction s)) deltaTime)"
  have eq: "moveCurrentBlock deltaTime s =
      (if fgt (fabs np) BOUNDS
       then s\<lparr>objs := (objs s)[c := (obj s c)\<lparr>mesh_position_x := fmax (fneg BOUNDS) (fmin BOUNDS np)\<rparr>],
              direction := fmul (direction s) (js (- 1))\<rparr>
       else s\<lparr>objs := (objs s)[c := (obj s c)\<lparr>mesh_position_x := np\<rparr>]\<rparr>)"
    using assms
    by (simp add: moveCurrentBlock_def Let_def obj_set_obj set_obj_fields np_def [symmetric])
      (simp add: set_obj_def obj_def)
  have rng: "fle (fneg BOUNDS) (fmax (fneg BOUNDS) (fmin BOUNDS np)) \<and>
      fle (fmax (fneg BOUNDS) (fmin BOUNDS np)) BOUNDS" if "fgt (fabs np) BOUNDS"
  proof -
    from that have "fgt (fabs np) (js 5)" by (simp add: BOUNDS_def)
    from clamp_range(2,3) [OF this] rnd_int [of 5] js_int [of 5]
    show ?thesis by (simp add: BOUNDS_def huge_def)
  qed
  show ?thesis
    unfolding Let_def np_def [symmetric] eq
    using assms(4) rng by (simp add: obj_def fmul_minus_one)
qed

theorem moveCurrentBlock_advance_witness:
  "direction (moveCurrentBlock (js 2) (scenario (js 4.9))) = js (- 1) \<and>
   mesh_position_x (obj (moveCurrentBlock (js 2) (scenario (js 4.9))) 1) = js 5 \<and>
   fadd (js 4.9) (fmul (fmul INITIAL_SPEED (js 1)) (js 2)) = js 5.0600000000000005"
  using moveCurrentBlock_advance [of "scenario (js 4.9)" 1 "js 2"]
  by (simp add: scenario_def obj_def Let_def CONFIG_defs js_eval rnd_small config_roundings
      motion_roundings)

subsection \<open>The placement guard\<close>

text \<open>
  Claim C4. While \<open>isPlacingBlock\<close> is set, \<open>placeBlock\<close> returns at once and so does the
  input handler that calls it: the whole state, the pending timeouts included, is
  unchanged.
\<close>

theorem placeBlock_debounce:
  assumes "isPlacingBlock s"
  shows "placeBlock s = Inr s \<and> handleInput e s = Inr s"
  using assms
  by (simp add: placeBlock_def handleInput_def split: option.split inputEvent.split)

theorem placeBlock_debounce_witness:
  "placeBlock ((scenario (js 2))\<lparr>isPlacingBlock := True\<rparr>) = Inr ((scenario (js 2))\<lparr>isPlacingBlock := True\<rparr>) \<and>
   handleInput Mousedown ((scenario (js 2))\<lparr>isPlacingBlock := True\<rparr>) =
     Inr ((scenario (js 2))\<lparr>isPlacingBlock := True\<rparr>)"
  using placeBlock_debounce [of "(scenario (js 2))\<lparr>isPlacingBlock := True\<rparr>" Mousedown]
  by simp

subsection \<open>The end of the game\<close>

text \<open>
  Claim C5. Once \<open>gameEnded\<close> is set it stays set, whatever callbacks run afterwards
  (frames, inputs, timeouts, calls of \<open>endGame\<close>). And a frame moves nothing when the game
  has ended or when there is no moving current block: the blocks and the direction are
  unchanged.
\<close>

theorem gameEnded_terminal:
  "(gameEnded s \<longrightarrow> (\<forall>es s'. run es s = Inr s' \<longrightarrow> gameEnded s')) \<and>
   (gameEnded s \<or> currentBlock s = None \<or> (\<exists>c. currentBlock s = Some c \<and> \<not> moving (obj s c)) \<longrightarrow>
      objs (animate t s) = objs s \<and> direction (animate t s) = direction s)"
proof (intro conjI impI allI)
  fix es s'
  assume "gameEnded s" "run es s = Inr s'"
  then show "gameEnded s'" by (rule run_gameEnded)
next
  assume "gameEnded s \<or> currentBlock s = None \<or> (\<exists>c. currentBlock s = Some c \<and> \<not> moving (obj s c))"
  then show "objs (animate t s) = objs s" and "direction (animate t s) = direction s"
    by (auto simp: animate_def updateGame_def updateCamera_def moveCurrentBlock_def Let_def obj_def)
qed

theorem gameEnded_terminal_witness:
  "\<exists>s'. run [Frame (dbl 100), Input Mousedown, Timeout, Terminate, Frame (dbl 200)]
          (endGame (scenario (js 2))) = Inr s' \<and>
     gameEnded s' \<and>
     objs (animate (dbl 100) (endGame (scenario (js 2)))) = objs (endGame (scenario (js 2))) \<and>
     direction (animate (dbl 100) (endGame (scenario (js 2)))) = direction (endGame (scenario (js 2)))"
proof -
  have e: "gameEnded (endGame (scenario (js 2)))" by (simp add: endGame_def)
  have r: "run [Frame (dbl 100), Input Mousedown, Timeout, Terminate, Frame (dbl 200)]
      (endGame (scenario (js 2))) = Inr ((endGame (scenario (js 2)))\<lparr>lastTime := Fin (dbl 200)\<rparr>)"
    by (simp add: fire_def animate_def updateGame_def handleInput_def endGame_def scenario_def)
  from gameEnded_terminal [of "endGame (scenario (js 2))" "dbl 100"] e r show ?thesis by simp
qed

subsection \<open>Score and speed\<close>

text \<open>
  Claim C6, as amended. In every state of a run the score is the number of blocks placed
  on the base, and the speed is the initial speed after that many calls of
  \<open>increaseDifficulty\<close>, each of which adds \<open>SPEED_INCREASE\<close> and rounds the sum to the
  nearest double. A callback that pushes a block (a successful placement) adds 1 to the
  score and \<open>SPEED_INCREASE\<close> to the speed, which does not decrease; any other callback
  leaves both as they are. After five placements the speed is the double
  0.09000000000000001.
\<close>

theorem score_speed_progress:
  assumes "reachable s"
  shows "Suc (score s) = length (stack s) \<and>
     speed s = speed ((increaseDifficulty ^^ score s) gameState0) \<and>
     (\<forall>e s'. fire e s = Inr s' \<longrightarrow>
        (if length (stack s') = Suc (length (stack s))
         then score s' = score s + 1 \<and> speed s' = fadd (speed s) SPEED_INCREASE \<and>
              fle (speed s) (speed s')
         else score s' = score s \<and> speed s' = speed s)) \<and>
     (score s = 5 \<longrightarrow> speed s = js 0.09000000000000001)"
proof -
  from assms have i: "inv s" by (rule reachable_inv)
  then have m: "Suc (score s) = length (stack s)"
    "speed ((increaseDifficulty ^^ score s) gameState0) = speed s"
    by (simp_all add: inv_def inv_motion_def)
  have step: "if length (stack s') = Suc (length (stack s))
         then score s' = score s + 1 \<and> speed s' = fadd (speed s) SPEED_INCREASE \<and>
              fle (speed s) (speed s')
         else score s' = score s \<and> speed s' = speed s" if f: "fire e s = Inr s'" for e s'
  proof -
    from i f have "inv s'" by (rule inv_fire)
    then have "Suc (score s') = length (stack s')" by (simp add: inv_def inv_motion_def)
    with m(1) fire_score_speed [OF i f] show ?thesis by auto
  qed
  have five: "speed s = js 0.09000000000000001" if "score s = 5"
    using m(2) that five_increases by simp
  from m(1) m(2) [symmetric] step five show ?thesis by blast
qed

theorem score_speed_progress_witness:
  "reachable (sliding (- (3066338078623589 / 4503599627370496)) 900) \<and>
   fire (Input Mousedown) (sliding (- (3066338078623589 / 4503599627370496)) 900) = Inr first_placed \<and>
   score first_placed = 1 \<and>
   speed first_placed = fadd INITIAL_SPEED SPEED_INCREASE \<and>
   speed first_placed = js 0.082 \<and>
   reachable fifth_placed \<and> score fifth_placed = 5 \<and> length (stack fifth_placed) = 6 \<and>
   speed fifth_placed = js 0.09000000000000001"
proof -
  have f: "fire (Input Mousedown) (sliding (- (3066338078623589 / 4503599627370496)) 900) = Inr first_placed"
    by (simp add: fire_def handleInput_def sliding_flags first_placement)
  from score_speed_progress [OF reachable_sliding]
  have "if length (stack first_placed) = Suc (length (stack (sliding (- (3066338078623589 / 4503599627370496)) 900)))
     then score first_placed = score (sliding (- (3066338078623589 / 4503599627370496)) 900) + 1 \<and>
          speed first_placed = fadd (speed (sliding (- (3066338078623589 / 4503599627370496)) 900)) SPEED_INCREASE \<and>
          fle (speed (sliding (- (3066338078623589 / 4503599627370496)) 900)) (speed first_placed)
     else score first_placed = score (sliding (- (3066338078623589 / 4503599627370496)) 900) \<and>
          speed first_placed = speed (sliding (- (3066338078623589 / 4503599627370496)) 900)"
    using f by blast
  then have "score first_placed = 1 \<and> speed first_placed = fadd INITIAL_SPEED SPEED_INCREASE"
    by (simp add: first_placed_def sliding_def scenario_def)
  moreover have "speed first_placed = js 0.082"
    by (simp add: first_placed_def js_eval rnd_small run_roundings)
  moreover have five: "score fifth_placed = 5" by (simp add: fifth_placed_def awaiting_def)
  moreover from score_speed_progress [OF reachable_fifth_placed]
  have "Suc (score fifth_placed) = length (stack fifth_placed)"
    "score fifth_placed = 5 \<longrightarrow> speed fifth_placed = js 0.09000000000000001"
    by blast+
  with five have "length (stack fifth_placed) = 6 \<and> speed fifth_placed = js 0.09000000000000001"
    by simp
  ultimately show ?thesis using f reachable_sliding reachable_fifth_placed by simp
qed

text \<open>
  The claim as stated gives the speed after five placements as 0.09. Five rounded
  additions of 0.002 to 0.08 give 0.09000000000000001, the next double above the one
  written 0.09; it is the product form \<open>INITIAL_SPEED + 5 * SPEED_INCREASE\<close> that
  evaluates to 0.09. The run below starts when the clock reads 0 and has a frame every
  100 ms; the player clicks after the frames at 900, 1800, 2700, 3600 and 4500 ms, and
  each time the block is placed.
\<close>

theorem speed_after_five:
  "init (dbl 0) = Inr (scenario (fneg BOUNDS)) \<and>
   run ([Frame (dbl 100), Frame (dbl 200), Frame (dbl 300), Frame (dbl 400), Frame (dbl 500),
         Frame (dbl 600), Frame (dbl 700), Frame (dbl 800), Frame (dbl 900), Input Mousedown] @
        later_events) (scenario (fneg BOUNDS)) = Inr fifth_placed \<and>
   score fifth_placed = 5 \<and>
   speed fifth_placed = js 0.09000000000000001 \<and>
   speed ((increaseDifficulty ^^ 5) gameState0) = js 0.09000000000000001 \<and>
   js 0.09000000000000001 \<noteq> js 0.09 \<and>
   fadd INITIAL_SPEED (fmul (js 5) SPEED_INCREASE) = js 0.09"
  by (intro conjI, rule init_scenario, rule five_placements_run, simp_all add: five_increases)
    (simp_all add: fifth_placed_def awaiting_def CONFIG_defs js_eval rnd_small config_roundings
      speed_roundings)

subsection \<open>Spawning the next block\<close>

text \<open>
  Claim C7, as amended. On a non-empty stack \<open>addNewMovingBlock\<close> allocates a new moving
  block with the width and depth of the top of the stack, at \<open>x = -BOUNDS\<close> and at height
  \<open>stack.length * BOX_HEIGHT\<close>, makes it the current block and clears \<open>isPlacingBlock\<close>. It
  does so whether or not there is a current block already, moving or not: the function
  has no check for one.
\<close>

theorem addNewMovingBlock_spawns:
  assumes "stack s \<noteq> []"
  shows "\<exists>s'. addNewMovingBlock s = Inr (length (objs s), s') \<and>
     currentBlock s' = Some (length (objs s)) \<and>
     obj s' (length (objs s)) =
       \<lparr>mesh_position_x = fneg BOUNDS,
        mesh_position_y = fmul (js (of_nat (length (stack s)))) BOX_HEIGHT,
        mesh_scale_x = js 1, width = width (obj s (last (stack s))),
        depth = depth (obj s (last (stack s))), moving = True\<rparr> \<and>
     objs s' = objs s @ [obj s' (length (objs s))] \<and> stack s' = stack s \<and> \<not> isPlacingBlock s'"
  using assms by (simp add: addNewMovingBlock_def addBlock_def Let_def obj_def)

theorem addNewMovingBlock_spawns_witness:
  "\<exists>s'. addNewMovingBlock (scenario (js 2)) = Inr (2, s') \<and> currentBlock s' = Some 2 \<and>
     obj s' 2 = \<lparr>mesh_position_x = js (- 5), mesh_position_y = js (1 / 2), mesh_scale_x = js 1,
                 width = js 3, depth = js 3, moving = True\<rparr>"
  using addNewMovingBlock_spawns [of "scenario (js 2)"]
  by (auto simp: scenario_def obj_def CONFIG_defs js_eval rnd_small)

text \<open>
  The claim as stated asks for a failure when a moving block exists. Right after \<open>init\<close>
  the current block is block 1 and it is moving; \<open>addNewMovingBlock\<close> returns normally
  with a third block.
\<close>

theorem addNewMovingBlock_no_check:
  "init (dbl 0) = Inr (scenario (fneg BOUNDS)) \<and>
   currentBlock (scenario (fneg BOUNDS)) = Some 1 \<and> moving (obj (scenario (fneg BOUNDS)) 1) \<and>
   addNewMovingBlock (scenario (fneg BOUNDS)) =
     Inr (2, (scenario (fneg BOUNDS))\<lparr>objs := objs (scenario (fneg BOUNDS)) @
               [\<lparr>mesh_position_x = js (- 5), mesh_position_y = js (1 / 2), mesh_scale_x = js 1,
                 width = js 3, depth = js 3, moving = True\<rparr>],
            currentBlock := Some 2, isPlacingBlock := False\<rparr>)"
  by (simp add: init_scenario)
    (simp add: scenario_def addNewMovingBlock_def addBlock_def obj_def Let_def
      CONFIG_defs js_eval rnd_small)

subsection \<open>The time step\<close>

text \<open>
  Claim C8. A frame runs \<open>updateGame\<close> with the time step
  \<open>Math.min(currentTime - lastTime, 100) / 16.67\<close>: the elapsed milliseconds capped at 100,
  then divided by the frame duration 16.67. So the time step never exceeds \<open>100 / 16.67\<close>,
  however long ago the last frame was.
\<close>

theorem animate_deltaTime:
  "animate currentTime s =
     updateGame (fdiv (fmin (fsub (Fin currentTime) (lastTime s)) (js 100)) (js 16.67))
       (s\<lparr>lastTime := Fin currentTime\<rparr>)
   \<and> deltaTime_of (Fin currentTime) (lastTime s) =
       fdiv (fmin (fsub (Fin currentTime) (lastTime s)) (js 100)) (js 16.67)
   \<and> \<not> fgt (deltaTime_of (Fin currentTime) (lastTime s)) (fdiv (js 100) (js 16.67))
   \<and> (lastTime s \<noteq> NaN \<longrightarrow>
        fle (deltaTime_of (Fin currentTime) (lastTime s)) (fdiv (js 100) (js 16.67)))"
proof -
  define e where "e = fsub (Fin currentTime) (lastTime s)"
  have le: "fle (fdiv (fmin e (js 100)) (js 16.67)) (fdiv (js 100) (js 16.67))" if "lastTime s \<noteq> NaN"
  proof -
    have "e \<noteq> NaN" unfolding e_def using that by (rule fsub_Fin_not_NaN)
    then have "fle (fmin e (js 100)) (js 100)" by (intro fmin_le_right) simp_all
    then have "fle (fdiv (fmin e (js 100)) (Fin (dbl (1667 / 100)))) (fdiv (js 100) (Fin (dbl (1667 / 100))))"
      using frame_duration(2) by (rule fdiv_mono)
    then show ?thesis by (simp add: frame_duration(1))
  qed
  have "\<not> fgt (fdiv (fmin e (js 100)) (js 16.67)) (fdiv (js 100) (js 16.67))"
  proof (cases "lastTime s = NaN")
    case True
    then have "e = NaN" by (simp add: e_def fsub_def)
    then show ?thesis by (simp add: fmin_def fgt_def frame_duration(1))
  next
    case False
    from le [OF this] show ?thesis unfolding fgt_def by (rule fle_not_flt)
  qed
  with le show ?thesis
    by (simp add: animate_def deltaTime_of_def Let_def e_def)
qed

theorem animate_deltaTime_witness:
  "animate (dbl 5000) (scenario (js 2)) =
     updateGame (fdiv (js 100) (js 16.67)) ((scenario (js 2))\<lparr>lastTime := js 5000\<rparr>) \<and>
   deltaTime_of (js 5000) (lastTime (scenario (js 2))) = fdiv (js 100) (js 16.67) \<and>
   fle (deltaTime_of (js 5000) (lastTime (scenario (js 2)))) (fdiv (js 100) (js 16.67))"
  using animate_deltaTime [of "dbl 5000" "scenario (js 2)"]
  by (simp add: scenario_def deltaTime_of_def Fin_dbl js_eval rnd_small config_roundings
      run_roundings)

subsection \<open>The kept block and the debris\<close>

text \<open>
  Claim C9, as amended. In every state of a run, a successful placement leaves a kept block
  and a debris piece that partition the moving block up to rounding. With the exact values
  of the doubles: the width kept and the width cut off add up to the width of the moving
  block up to \<open>2\<^sup>-\<^sup>5\<^sup>2\<close>; and, the debris being on the right or on the left of the kept
  block, the outer ends of the two intervals are the ends of the interval of the moving
  block, and one interval begins where the other ends, each up to \<open>2\<^sup>-\<^sup>4\<^sup>8\<close>.
\<close>

theorem placeBlock_partition:
  assumes "reachable s" "currentBlock s = Some c" "\<not> gameEnded s" "\<not> isPlacingBlock s"
    and "flt (fabs (fsub (mesh_position_x (obj s c)) (mesh_position_x (obj s (last (stack s))))))
           (width (obj s c))"
  shows "\<exists>s'. placeBlock s = Inr s' \<and> \<not> gameEnded s' \<and>
     partition_within (1 / 2 ^ 48)
       (ev (mesh_position_x (obj s' c))) (ev (width (obj s' c)))
       (ev (drop_position_x (last (drops s')))) (ev (drop_width (last (drops s'))))
       (ev (mesh_position_x (obj s c))) (ev (width (obj s c))) \<and>
     \<bar>ev (width (obj s' c)) + ev (drop_width (last (drops s'))) - ev (width (obj s c))\<bar> \<le> 1 / 2 ^ 52"
proof -
  from assms(1) have i: "inv s" and bd: "inv_bounds s" by (rule reachable_inv, rule reachable_bounds)
  from i have st: "inv_store s" and wd: "inv_widths s" by (simp_all add: inv_def)
  from st assms(2,4) have c: "c < length (objs s)" "c \<notin> set (stack s)"
      "width (obj s c) = width (obj s (last (stack s)))"
    and ne: "stack s \<noteq> []"
    by (auto simp: inv_store_def)
  from st assms(2) c(2) obtain xc where xc: "mesh_position_x (obj s c) = Fin xc"
    by (auto simp: inv_store_def)
  have top_in: "last (stack s) \<in> set (stack s)" using ne by simp
  have "flt (js 0) (width (obj s c))" "fle (width (obj s c)) BOX_SIZE"
    using wd bd top_in by (simp_all add: inv_widths_def inv_bounds_def widths_def c(3))
  then obtain w where w: "width (obj s c) = Fin w" and w3: "val w \<le> 3"
    using js_int [of 3] js_int [of 0] by (cases "width (obj s c)") (auto simp: BOX_SIZE_def)
  from bd assms(2) c(2) have "fle (fabs (Fin xc)) BOUNDS" by (simp add: inv_bounds_def xc)
  then have P: "\<bar>val xc\<bar> \<le> 5" by (simp add: fin_sign BOUNDS_Fin)
  define delta where "delta = fsub (Fin xc) (mesh_position_x (obj s (last (stack s))))"
  from assms(5) have lt: "flt (fabs delta) (Fin w)" by (simp add: delta_def xc w)
  then obtain d where d: "delta = Fin d" by (cases delta) simp_all
  from lt have dw: "\<bar>val d\<bar> < val w" by (simp add: d fin_sign)
  define nw h K a b t D :: rat where "nw = rnd (val w - \<bar>val d\<bar>)" and "h = rnd (val d / 2)"
    and "K = rnd (val xc - h)" and "a = rnd (nw / 2)" and "b = rnd (\<bar>val d\<bar> / 2)"
    and "t = rnd (a + b)" and "D = rnd (K + (if 0 < val d then t else - t))"
  note r = trim_rounded [OF P dw w3 nw_def h_def K_def a_def b_def t_def D_def]
  have small: "x \<le> 2 ^ 53" if "x \<le> 19 / 2" for x :: rat using that by simp
  note sm = small [OF order_trans [OF r(1)]] small [OF order_trans [OF r(2)]]
    small [OF order_trans [OF r(3)]] small [OF order_trans [OF r(4)]]
    small [OF order_trans [OF r(5)]] small [OF order_trans [OF r(6)]] small [OF r(7)]
  note two = js_int [of 2, simplified]
  have o1: "fabs delta = Fin (dbl \<bar>val d\<bar>)" by (simp add: d fin_sign)
  have n1: "fsub (Fin w) (Fin (dbl \<bar>val d\<bar>)) = Fin (dbl (val w - \<bar>val d\<bar>))"
    and n2: "val (dbl (val w - \<bar>val d\<bar>)) = nw"
    using js_small(1,2) [OF sm(1)] by (simp_all add: fsub_Fin fin_sign nw_def)
  have h1: "fdiv delta (js 2) = Fin (dbl (val d / 2))" and h2: "val (dbl (val d / 2)) = h"
    using js_small(1,2) [OF sm(2)] by (simp_all add: d two h_def)
  have k1: "fsub (Fin xc) (Fin (dbl (val d / 2))) = Fin (dbl (val xc - h))"
    and k2: "val (dbl (val xc - h)) = K"
    using js_small(1,2) [OF sm(3)] by (simp_all add: fsub_Fin h2 K_def)
  have a1: "fdiv (Fin (dbl (val w - \<bar>val d\<bar>))) (js 2) = Fin (dbl (nw / 2))"
    and a2: "val (dbl (nw / 2)) = a"
    using js_small(1,2) [OF sm(4)] by (simp_all add: two n2 a_def)
  have b1: "fdiv (Fin (dbl \<bar>val d\<bar>)) (js 2) = Fin (dbl (\<bar>val d\<bar> / 2))"
    and b2: "val (dbl (\<bar>val d\<bar> / 2)) = b"
    using js_small(1,2) [OF sm(5)] by (simp_all add: two fin_sign b_def)
  have t1: "fadd (Fin (dbl (nw / 2))) (Fin (dbl (\<bar>val d\<bar> / 2))) = Fin (dbl (a + b))"
    and t2: "val (dbl (a + b)) = t"
    using js_small(1,2) [OF sm(6)] by (simp_all add: a2 b2 t_def)
  define u where "u = (if 0 < val d then dbl (a + b) else dbl (- t))"
  have u1: "fmul (if fgt delta (js 0) then js 1 else js (- 1)) (Fin (dbl (a + b))) = Fin u"
    and u2: "val u = (if 0 < val d then t else - t)"
    using fin_sign(3,4,5) [of "dbl (a + b)"] by (simp_all add: d fin_sign(6) u_def t2)
  have D1: "fadd (Fin (dbl (val xc - h))) (Fin u) = Fin (dbl (K + (if 0 < val d then t else - t)))"
    and D2: "val (dbl (K + (if 0 < val d then t else - t))) = D"
    using js_small(1,2) [OF sm(7)] by (simp_all add: k2 u2 D_def)
  have nge: "\<not> fge (fabs delta) (Fin w)" using lt by (simp add: fge_def flt_not_fle)
  note pb = placeBlock_guard_passed [OF assms(2-4) ne c(1), unfolded Let_def xc w, folded delta_def]
  have "placeBlock s =
      Inr (s\<lparr>isPlacingBlock := True,
             objs := (objs s)[c := (obj s c)\<lparr>moving := False,
                  mesh_scale_x := fdiv (Fin (dbl (val w - \<bar>val d\<bar>))) (Fin w),
                  mesh_position_x := Fin (dbl (val xc - h)),
                  width := Fin (dbl (val w - \<bar>val d\<bar>))\<rparr>],
             drops := drops s @ [\<lparr>drop_width = Fin (dbl \<bar>val d\<bar>), drop_depth = depth (obj s c),
                drop_position_x = Fin (dbl (K + (if 0 < val d then t else - t))),
                drop_position_y = mesh_position_y (obj s c)\<rparr>],
             stack := stack s @ [c], score := score s + 1,
             speed := fadd (speed s) SPEED_INCREASE,
             timeouts := Suc (timeouts s)\<rparr>)"
    unfolding pb using nge by (simp only: if_False o1 n1 h1 k1 a1 b1 t1 u1 D1)
  then show ?thesis
    using assms(3) c(1) r(8,9) by (simp add: obj_def xc [unfolded obj_def] w [unfolded obj_def] n2 k2 D2 fin_sign)
qed

theorem placeBlock_partition_witness:
  "reachable (sliding (- (3066338078623589 / 4503599627370496)) 900) \<and>
   placeBlock (sliding (- (3066338078623589 / 4503599627370496)) 900) = Inr first_placed \<and>
   partition_within (1 / 2 ^ 48)
     (ev (mesh_position_x (obj first_placed 1))) (ev (width (obj first_placed 1)))
     (ev (drop_position_x (last (drops first_placed)))) (ev (drop_width (last (drops first_placed))))
     (ev (mesh_position_x (obj (sliding (- (3066338078623589 / 4503599627370496)) 900) 1)))
     (ev (width (obj (sliding (- (3066338078623589 / 4503599627370496)) 900) 1))) \<and>
   \<bar>ev (width (obj first_placed 1)) + ev (drop_width (last (drops first_placed))) -
      ev (width (obj (sliding (- (3066338078623589 / 4503599627370496)) 900) 1))\<bar> \<le> 1 / 2 ^ 52"
proof -
  have "currentBlock (sliding (- (3066338078623589 / 4503599627370496)) 900) = Some 1"
    "\<not> gameEnded (sliding (- (3066338078623589 / 4503599627370496)) 900)"
    "\<not> isPlacingBlock (sliding (- (3066338078623589 / 4503599627370496)) 900)"
    "flt (fabs (fsub (mesh_position_x (obj (sliding (- (3066338078623589 / 4503599627370496)) 900) 1))
        (mesh_position_x (obj (sliding (- (3066338078623589 / 4503599627370496)) 900)
          (last (stack (sliding (- (3066338078623589 / 4503599627370496)) 900)))))))
      (width (obj (sliding (- (3066338078623589 / 4503599627370496)) 900) 1))"
    by (simp_all add: sliding_def scenario_def obj_def CONFIG_defs js_eval rnd_small run_roundings)
  from placeBlock_partition [OF reachable_sliding this] reachable_sliding show ?thesis
    by (simp add: first_placement)
qed

text \<open>
  The claim as stated asks for an exact partition at every successful placement. In the
  run that starts when the clock reads 0, has nine frames 100 ms apart and then a click,
  the block is placed at \<open>x = -0.6808638272345544\<close>. The width kept and the width cut off add up
  to \<open>3 + 2\<^sup>-\<^sup>5\<^sup>2\<close>, and the debris, on the left, ends to the right of where the kept block
  begins.
\<close>

theorem nine_frames_placement_inexact:
  "init (dbl 0) = Inr (scenario (fneg BOUNDS)) \<and>
   run [Frame (dbl 100), Frame (dbl 200), Frame (dbl 300), Frame (dbl 400), Frame (dbl 500),
        Frame (dbl 600), Frame (dbl 700), Frame (dbl 800), Frame (dbl 900)]
     (scenario (fneg BOUNDS)) = Inr (sliding (- (3066338078623589 / 4503599627370496)) 900) \<and>
   placeBlock (sliding (- (3066338078623589 / 4503599627370496)) 900) = Inr first_placed \<and>
   \<not> gameEnded first_placed \<and>
   \<not> exact_partition (ev (mesh_position_x (obj first_placed 1))) (ev (width (obj first_placed 1)))
       (ev (drop_position_x (last (drops first_placed)))) (ev (drop_width (last (drops first_placed))))
       (ev (mesh_position_x (obj (sliding (- (3066338078623589 / 4503599627370496)) 900) 1)))
       (ev (width (obj (sliding (- (3066338078623589 / 4503599627370496)) 900) 1))) \<and>
   \<not> partition_within 0 (ev (mesh_position_x (obj first_placed 1))) (ev (width (obj first_placed 1)))
       (ev (drop_position_x (last (drops first_placed)))) (ev (drop_width (last (drops first_placed))))
       (ev (mesh_position_x (obj (sliding (- (3066338078623589 / 4503599627370496)) 900) 1)))
       (ev (width (obj (sliding (- (3066338078623589 / 4503599627370496)) 900) 1))) \<and>
   ev (width (obj first_placed 1)) + ev (drop_width (last (drops first_placed))) = 3 + 1 / 2 ^ 52 \<and>
   ev (drop_position_x (last (drops first_placed))) < ev (mesh_position_x (obj first_placed 1)) \<and>
   ev (mesh_position_x (obj first_placed 1)) - ev (width (obj first_placed 1)) / 2 <
     ev (drop_position_x (last (drops first_placed))) + ev (drop_width (last (drops first_placed))) / 2"
  by (intro conjI, rule init_scenario, rule nine_frames, rule first_placement)
    (simp_all add: first_placed_def sliding_def scenario_def obj_def exact_partition_def partition_within_def CONFIG_defs
      ev_js_small rnd_small run_roundings)

subsection \<open>The widths on the stack\<close>

text \<open>
  Claim C10. In every state of a run that starts with \<open>init\<close>, the widths of the placed
  blocks never grow from one block to the one above it, and every width is positive.
\<close>

theorem stack_widths_nonincreasing:
  assumes "reachable s"
  shows "sorted_wrt (\<lambda>lower upper. fle upper lower) (widths s) \<and> (\<forall>w \<in> set (widths s). flt (js 0) w)"
proof -
  from assms have "inv s" by (rule reachable_inv)
  then show ?thesis by (simp add: inv_def inv_widths_def)
qed

theorem stack_widths_nonincreasing_witness:
  "reachable first_placed \<and>
   widths first_placed = [js 3, js (2611115200871975 / 1125899906842624)] \<and>
   sorted_wrt (\<lambda>lower upper. fle upper lower) (widths first_placed) \<and>
   flt (js 0) (js (2611115200871975 / 1125899906842624)) \<and>
   reachable fifth_placed \<and>
   widths fifth_placed =
     [js 3, js (2611115200871975 / 1125899906842624), js (2349395816407957 / 1125899906842624),
      js (2340108999539879 / 1125899906842624), js (2223179532609987 / 1125899906842624),
      js (8172567695124441 / 4503599627370496)] \<and>
   sorted_wrt (\<lambda>lower upper. fle upper lower) (widths fifth_placed)"
  using stack_widths_nonincreasing [of first_placed] reachable_first_placed
    stack_widths_nonincreasing [of fifth_placed] reachable_fifth_placed
  by (simp add: widths_def first_placed_def fifth_placed_def example_defs obj_def)


end
